(* ===== verification/Prelude.thy ===== *)
theory Prelude
  imports Main "HOL-Library.Word"
begin

text \<open>
  Shared vocabulary of the text-editor development.
  \<^item> Python \<open>str\<close> values are sequences of Unicode code points; the model writes them as
    \<open>ustr = nat list\<close> (one \<open>nat\<close> per code point). \<open>py_str\<close> turns an Isabelle string
    literal (ASCII) into such a value, so that witnesses can be written as \<open>py_str ''abc''\<close>.
  \<^item> UI strings (labels, titles, log messages) that the code builds from ASCII literals are
    kept as Isabelle \<open>string\<close>s.
  \<^item> Bytes on disk are \<open>8 word\<close> values.
  \<^item> The Python builtins the sources call on strings (\<open>str.strip\<close>, formatting an \<open>int\<close> in
    an f-string, \<open>str.startswith\<close>, slicing \<open>title[1:]\<close>) are modelled here once.
  The named theorem collections gather the facts the component theories share.
\<close>

named_theorems search_simps "characteristic equations of the search engine"
named_theorems editor_simps "characteristic equations of the editor handlers"

type_synonym ustr = "nat list"
type_synonym byte = "8 word"
type_synonym bytes = "8 word list"

definition py_str :: "string \<Rightarrow> ustr" where
  "py_str s = map of_char s"

subsection \<open>Python \<open>str.isspace\<close> and \<open>str.strip\<close>\<close>

text \<open>
  \<open>str.strip()\<close> with no argument removes, from both ends, the code points for which
  \<open>str.isspace()\<close> holds: the ASCII controls 9--13 and 28--31, the space, U+0085, U+00A0,
  U+1680, U+2000--U+200A, U+2028, U+2029, U+202F, U+205F and U+3000.
\<close>

definition py_isspace :: "nat \<Rightarrow> bool" where
  "py_isspace c \<longleftrightarrow>
     (9 \<le> c \<and> c \<le> 13) \<or> (28 \<le> c \<and> c \<le> 32) \<or> c = 133 \<or> c = 160 \<or> c = 5760 \<or>
     (8192 \<le> c \<and> c \<le> 8202) \<or> c = 8232 \<or> c = 8233 \<or> c = 8239 \<or> c = 8287 \<or> c = 12288"

definition py_lstrip :: "ustr \<Rightarrow> ustr" where
  "py_lstrip s = dropWhile py_isspace s"

definition py_rstrip :: "ustr \<Rightarrow> ustr" where
  "py_rstrip s = rev (dropWhile py_isspace (rev s))"

definition py_strip :: "ustr \<Rightarrow> ustr" where
  "py_strip s = py_lstrip (py_rstrip s)"

subsection \<open>Formatting an integer in an f-string\<close>

fun nat_str :: "nat \<Rightarrow> string" where
  "nat_str n =
     (if n < 10 then [''0123456789'' ! n]
      else nat_str (n div 10) @ [''0123456789'' ! (n mod 10)])"

declare nat_str.simps [simp del]

subsection \<open>\<open>str.startswith\<close> on a one-character prefix and the slice \<open>s[1:]\<close>\<close>

definition starts_with :: "'a list \<Rightarrow> 'a list \<Rightarrow> bool" where
  "starts_with s p \<longleftrightarrow> take (length p) s = p"

definition py_slice1 :: "'a list \<Rightarrow> 'a list" where
  "py_slice1 s = drop 1 s"

subsection \<open>Shared lemmas\<close>

lemma dropWhile_all_iff: "(\<forall>x \<in> set (dropWhile P xs). P x) \<longleftrightarrow> dropWhile P xs = []"
  by (induction xs) auto

lemma py_strip_empty_iff [search_simps]:
  "py_strip s = [] \<longleftrightarrow> (\<forall>c \<in> set s. py_isspace c)"
proof -
  have "py_strip s = [] \<longleftrightarrow> dropWhile py_isspace (rev s) = []"
    by (simp add: py_strip_def py_lstrip_def py_rstrip_def dropWhile_all_iff)
  then show ?thesis
    by simp
qed

lemma py_strip_last: "py_strip s \<noteq> [] \<Longrightarrow> \<not> py_isspace (last (py_strip s))"
proof -
  assume ne: "py_strip s \<noteq> []"
  let ?d = "dropWhile py_isspace (rev s)"
  have ps: "py_strip s = dropWhile py_isspace (rev ?d)"
    by (simp add: py_strip_def py_lstrip_def py_rstrip_def)
  have d: "?d \<noteq> []"
    by (metis ne ps rev.simps(1) dropWhile.simps(1))
  obtain n where "dropWhile py_isspace (rev ?d) = drop n (rev ?d)"
    using dropWhile_eq_drop by blast
  with ne ps have "last (py_strip s) = last (rev ?d)"
    by (metis last_drop length_drop length_greater_0_conv zero_less_diff)
  then show ?thesis using d hd_dropWhile [OF d] by (simp add: last_rev)
qed

lemma starts_with_Cons [simp]: "starts_with (c # s) [d] \<longleftrightarrow> c = d"
  by (simp add: starts_with_def)

lemma starts_with_Nil [simp]: "\<not> starts_with [] [d]"
  by (simp add: starts_with_def)

lemma take_drop_min_length [simp]:
  "take (min i (length c)) c = take i c" "drop (min i (length c)) c = drop i c"
  by (simp_all add: min_def)

end
