(* ===== verification/Codecs.thy ===== *)
theory Codecs
  imports Prelude
begin

text \<open>
  Python's text codecs, as far as the editor reaches them (\<open>open(path, 'r'|'w',
  encoding=...)\<close> in \<open>src/operations/file_operations.py\<close>): the four names the code uses,
  \<open>'utf-8'\<close>, \<open>'latin-1'\<close>, \<open>'utf-16'\<close> and \<open>'cp1252'\<close>, with the strict error handler,
  and the newline translation of text mode. This is a model of the Python library, not of
  repository code: each decoder accepts exactly the byte strings CPython's accepts.
  \<^item> UTF-8: well-formed sequences only (no overlong forms, no surrogates, nothing past
    U+10FFFF); the encoder refuses lone surrogates.
  \<^item> Latin-1: every byte is the code point of its value; only code points below 256 encode.
  \<^item> UTF-16: the encoder writes the byte-order mark FF FE and little-endian code units
    (surrogate pairs above U+FFFF); the decoder honours either mark, defaults to
    little-endian, and refuses odd lengths and unpaired surrogates.
  \<^item> cp1252: Latin-1 with 27 printable characters in 0x80--0x9F and five undefined bytes.
  \<^item> Text mode: reading turns \<open>\r\n\<close> and \<open>\r\<close> into \<open>\n\<close>; writing turns \<open>\n\<close> into
    the platform's line separator.
  The lemmas prove that each encoder's output decodes back to its input.
\<close>

definition byte_of :: "nat \<Rightarrow> byte" where
  "byte_of n = of_nat n"

subsection \<open>Latin-1\<close>

definition latin1_decode :: "bytes \<Rightarrow> ustr option" where
  "latin1_decode bs = Some (map unat bs)"

definition latin1_encode :: "ustr \<Rightarrow> bytes option" where
  "latin1_encode s = (if list_all (\<lambda>c. c < 256) s then Some (map byte_of s) else None)"

subsection \<open>UTF-8\<close>

definition is_cont :: "byte \<Rightarrow> bool" where
  "is_cont b \<longleftrightarrow> 128 \<le> unat b \<and> unat b < 192"

fun utf8_decode :: "bytes \<Rightarrow> ustr option" where
  "utf8_decode [] = Some []"
| "utf8_decode (b # bs) =
     (let n = unat b in
      if n < 128 then map_option (Cons n) (utf8_decode bs)
      else if 194 \<le> n \<and> n \<le> 223 then
        (case bs of
           c # rest \<Rightarrow>
             if is_cont c then map_option (Cons ((n - 192) * 64 + (unat c - 128))) (utf8_decode rest)
             else None
         | [] \<Rightarrow> None)
      else if 224 \<le> n \<and> n \<le> 239 then
        (case bs of
           c1 # c2 # rest \<Rightarrow>
             (let cp = (n - 224) * 4096 + (unat c1 - 128) * 64 + (unat c2 - 128) in
              if is_cont c1 \<and> is_cont c2 \<and> 2048 \<le> cp \<and> (cp < 55296 \<or> 57343 < cp)
              then map_option (Cons cp) (utf8_decode rest) else None)
         | _ \<Rightarrow> None)
      else if 240 \<le> n \<and> n \<le> 244 then
        (case bs of
           c1 # c2 # c3 # rest \<Rightarrow>
             (let cp = (n - 240) * 262144 + (unat c1 - 128) * 4096 + (unat c2 - 128) * 64
                       + (unat c3 - 128) in
              if is_cont c1 \<and> is_cont c2 \<and> is_cont c3 \<and> 65536 \<le> cp \<and> cp \<le> 1114111
              then map_option (Cons cp) (utf8_decode rest) else None)
         | _ \<Rightarrow> None)
      else None)"

definition utf8_char :: "nat \<Rightarrow> bytes option" where
  "utf8_char c =
     (if c < 128 then Some [byte_of c]
      else if c < 2048 then Some [byte_of (192 + c div 64), byte_of (128 + c mod 64)]
      else if c < 65536 then
        (if 55296 \<le> c \<and> c \<le> 57343 then None
         else Some [byte_of (224 + c div 4096), byte_of (128 + c div 64 mod 64), byte_of (128 + c mod 64)])
      else if c < 1114112 then
        Some [byte_of (240 + c div 262144), byte_of (128 + c div 4096 mod 64),
              byte_of (128 + c div 64 mod 64), byte_of (128 + c mod 64)]
      else None)"

fun utf8_encode :: "ustr \<Rightarrow> bytes option" where
  "utf8_encode [] = Some []"
| "utf8_encode (c # s) =
     (case utf8_char c of None \<Rightarrow> None | Some bs \<Rightarrow> map_option ((@) bs) (utf8_encode s))"

subsection \<open>UTF-16\<close>

definition utf16_units :: "nat \<Rightarrow> nat list option" where
  "utf16_units c =
     (if c < 65536 then (if 55296 \<le> c \<and> c \<le> 57343 then None else Some [c])
      else if c < 1114112 then Some [55296 + (c - 65536) div 1024, 56320 + (c - 65536) mod 1024]
      else None)"

fun utf16_encode_units :: "ustr \<Rightarrow> nat list option" where
  "utf16_encode_units [] = Some []"
| "utf16_encode_units (c # s) =
     (case utf16_units c of None \<Rightarrow> None | Some us \<Rightarrow> map_option ((@) us) (utf16_encode_units s))"

definition le_bytes :: "nat \<Rightarrow> bytes" where
  "le_bytes u = [byte_of (u mod 256), byte_of (u div 256)]"

definition utf16_bom :: bytes where
  "utf16_bom = [byte_of 255, byte_of 254]"

definition utf16_encode :: "ustr \<Rightarrow> bytes option" where
  "utf16_encode s = map_option (\<lambda>us. utf16_bom @ concat (map le_bytes us)) (utf16_encode_units s)"

fun le_units :: "bytes \<Rightarrow> nat list option" where
  "le_units [] = Some []"
| "le_units [b] = None"
| "le_units (a # b # rest) = map_option (Cons (unat a + 256 * unat b)) (le_units rest)"

fun be_units :: "bytes \<Rightarrow> nat list option" where
  "be_units [] = Some []"
| "be_units [b] = None"
| "be_units (a # b # rest) = map_option (Cons (256 * unat a + unat b)) (be_units rest)"

fun units_decode :: "nat list \<Rightarrow> ustr option" where
  "units_decode [] = Some []"
| "units_decode (u # us) =
     (if u < 55296 \<or> 57343 < u then map_option (Cons u) (units_decode us)
      else if u \<le> 56319 then
        (case us of
           v # rest \<Rightarrow>
             if 56320 \<le> v \<and> v \<le> 57343
             then map_option (Cons (65536 + (u - 55296) * 1024 + (v - 56320))) (units_decode rest)
             else None
         | [] \<Rightarrow> None)
      else None)"

definition utf16_decode :: "bytes \<Rightarrow> ustr option" where
  "utf16_decode bs =
     (if take 2 bs = utf16_bom then Option.bind (le_units (drop 2 bs)) units_decode
      else if take 2 bs = [byte_of 254, byte_of 255] then Option.bind (be_units (drop 2 bs)) units_decode
      else Option.bind (le_units bs) units_decode)"

subsection \<open>cp1252\<close>

text \<open>The code points of bytes 0x80--0x9F; \<open>None\<close> for the five undefined bytes.\<close>

definition cp1252_high :: "nat option list" where
  "cp1252_high =
     [Some 8364, None, Some 8218, Some 402, Some 8222, Some 8230, Some 8224, Some 8225,
      Some 710, Some 8240, Some 352, Some 8249, Some 338, None, Some 381, None,
      None, Some 8216, Some 8217, Some 8220, Some 8221, Some 8226, Some 8211, Some 8212,
      Some 732, Some 8482, Some 353, Some 8250, Some 339, None, Some 382, Some 376]"

definition cp1252_byte :: "byte \<Rightarrow> nat option" where
  "cp1252_byte b = (if unat b < 128 \<or> 160 \<le> unat b then Some (unat b) else cp1252_high ! (unat b - 128))"

definition cp1252_decode :: "bytes \<Rightarrow> ustr option" where
  "cp1252_decode bs = those (map cp1252_byte bs)"

definition cp1252_char :: "nat \<Rightarrow> byte option" where
  "cp1252_char c =
     (if c < 128 \<or> (160 \<le> c \<and> c < 256) then Some (byte_of c)
      else map_option (\<lambda>i. byte_of (128 + i)) (find (\<lambda>i. cp1252_high ! i = Some c) [0..<32]))"

definition cp1252_encode :: "ustr \<Rightarrow> bytes option" where
  "cp1252_encode s = those (map cp1252_char s)"

subsection \<open>Text mode newlines\<close>

function universal_newlines :: "ustr \<Rightarrow> ustr" where
  "universal_newlines [] = []"
| "universal_newlines (c # s) =
     (if c = 13 then 10 # universal_newlines (if s \<noteq> [] \<and> hd s = 10 then tl s else s)
      else c # universal_newlines s)"
  by pat_completeness auto
termination
  by (relation "measure length") auto

definition translate_newlines :: "ustr \<Rightarrow> ustr \<Rightarrow> ustr" where
  "translate_newlines sep s = concat (map (\<lambda>c. if c = 10 then sep else [c]) s)"

subsection \<open>Codecs by name\<close>

datatype codec_error = LookupError | UnicodeDecodeError | UnicodeEncodeError

definition py_decode :: "string \<Rightarrow> bytes \<Rightarrow> codec_error + ustr" where
  "py_decode enc bs =
     (let r = (if enc = ''utf-8'' then Some (utf8_decode bs)
               else if enc = ''latin-1'' then Some (latin1_decode bs)
               else if enc = ''utf-16'' then Some (utf16_decode bs)
               else if enc = ''cp1252'' then Some (cp1252_decode bs)
               else None)
      in case r of None \<Rightarrow> Inl LookupError
         | Some None \<Rightarrow> Inl UnicodeDecodeError
         | Some (Some s) \<Rightarrow> Inr s)"

definition py_encode :: "string \<Rightarrow> ustr \<Rightarrow> codec_error + bytes" where
  "py_encode enc s =
     (let r = (if enc = ''utf-8'' then Some (utf8_encode s)
               else if enc = ''latin-1'' then Some (latin1_encode s)
               else if enc = ''utf-16'' then Some (utf16_encode s)
               else if enc = ''cp1252'' then Some (cp1252_encode s)
               else None)
      in case r of None \<Rightarrow> Inl LookupError
         | Some None \<Rightarrow> Inl UnicodeEncodeError
         | Some (Some bs) \<Rightarrow> Inr bs)"

subsection \<open>Arithmetic of the byte layouts\<close>

lemma unat_byte_of [simp]: "n < 256 \<Longrightarrow> unat (byte_of n) = n"
  by (simp add: byte_of_def unat_of_nat)

lemma split64: "c div 64 * 64 + c mod 64 = (c::nat)"
  by simp

lemma split4096: "c div 4096 * 4096 + c div 64 mod 64 * 64 + c mod 64 = (c::nat)"
proof -
  have "c div 64 = c div 4096 * 64 + c div 64 mod 64"
    using div_mult_mod_eq [of "c div 64" 64] by (simp add: div_mult2_eq [symmetric])
  then have "c = (c div 4096 * 64 + c div 64 mod 64) * 64 + c mod 64"
    using div_mult_mod_eq [of c 64] by simp
  then show ?thesis by simp
qed

lemma split262144:
  "c div 262144 * 262144 + c div 4096 mod 64 * 4096 + c div 64 mod 64 * 64 + c mod 64 = (c::nat)"
proof -
  have "c div 4096 = c div 262144 * 64 + c div 4096 mod 64"
    using div_mult_mod_eq [of "c div 4096" 64] by (simp add: div_mult2_eq [symmetric])
  then show ?thesis
    using split4096 [of c] by simp
qed

subsection \<open>Each encoder's output decodes to its input\<close>

lemma utf8_char_decode:
  assumes "utf8_char c = Some bs"
  shows "utf8_decode (bs @ rest) = map_option (Cons c) (utf8_decode rest)"
proof -
  consider (a) "c < 128" | (b) "128 \<le> c" "c < 2048" | (c) "2048 \<le> c" "c < 65536"
    | (d) "65536 \<le> c" "c < 1114112" | (e) "1114112 \<le> c"
    by linarith
  then show ?thesis
  proof cases
    case a
    with assms show ?thesis by (auto simp: utf8_char_def)
  next
    case b
    then have "2 \<le> c div 64" "c div 64 < 32" by auto
    with b assms show ?thesis
      by (auto simp: utf8_char_def is_cont_def split64)
  next
    case c
    then have "c div 4096 < 16" by auto
    with c assms show ?thesis
      by (auto simp: utf8_char_def is_cont_def Let_def split4096 split: if_splits)
  next
    case d
    then have "c div 262144 < 5" by auto
    with d assms show ?thesis
      by (auto simp: utf8_char_def is_cont_def Let_def split262144 split: if_splits)
  next
    case e
    with assms show ?thesis by (simp add: utf8_char_def)
  qed
qed

lemma utf8_decode_encode: "utf8_encode s = Some bs \<Longrightarrow> utf8_decode bs = Some s"
proof (induction s arbitrary: bs)
  case Nil
  then show ?case by simp
next
  case (Cons c s)
  then obtain cb sb where "utf8_char c = Some cb" "utf8_encode s = Some sb" "bs = cb @ sb"
    by (auto split: option.splits)
  with Cons.IH show ?case
    by (simp add: utf8_char_decode)
qed

lemma latin1_decode_encode: "latin1_encode s = Some bs \<Longrightarrow> latin1_decode bs = Some s"
  by (auto simp: latin1_encode_def latin1_decode_def list_all_iff map_idI split: if_splits)

lemma utf16_units_small: "utf16_units c = Some us \<Longrightarrow> u \<in> set us \<Longrightarrow> u < 65536"
  by (auto simp: utf16_units_def split: if_splits)

lemma le_units_le_bytes:
  "\<forall>u \<in> set us. u < 65536 \<Longrightarrow> le_units (concat (map le_bytes us) @ rest) = map_option ((@) us) (le_units rest)"
proof (induction us)
  case Nil
  then show ?case by (simp add: option.map_ident)
next
  case (Cons u us)
  then have "u div 256 < 256"
    by (simp add: div_less_iff_less_mult)
  with Cons show ?case
    by (simp add: le_bytes_def option.map_comp comp_def)
qed

lemma units_decode_char:
  assumes "utf16_units c = Some us"
  shows "units_decode (us @ rest) = map_option (Cons c) (units_decode rest)"
proof (cases "c < 65536")
  case True
  with assms show ?thesis by (auto simp: utf16_units_def split: if_splits)
next
  case False
  with assms have c: "c < 1114112" and us: "us = [55296 + (c - 65536) div 1024, 56320 + (c - 65536) mod 1024]"
    by (auto simp: utf16_units_def split: if_splits)
  then have "(c - 65536) div 1024 < 1024" "(c - 65536) mod 1024 \<le> 1023"
    by (auto simp: div_less_iff_less_mult)
  with False c us show ?thesis by simp
qed

lemma units_decode_encode: "utf16_encode_units s = Some us \<Longrightarrow> units_decode us = Some s"
proof (induction s arbitrary: us)
  case Nil
  then show ?case by simp
next
  case (Cons c s)
  then obtain cu su where "utf16_units c = Some cu" "utf16_encode_units s = Some su" "us = cu @ su"
    by (auto split: option.splits)
  with Cons.IH show ?case
    by (simp add: units_decode_char)
qed

lemma utf16_encode_units_small: "utf16_encode_units s = Some us \<Longrightarrow> \<forall>u \<in> set us. u < 65536"
proof (induction s arbitrary: us)
  case Nil
  then show ?case by simp
next
  case (Cons c s)
  then show ?case
    by (auto split: option.splits dest: utf16_units_small)
qed

lemma utf16_decode_encode: "utf16_encode s = Some bs \<Longrightarrow> utf16_decode bs = Some s"
proof -
  assume "utf16_encode s = Some bs"
  then obtain us where us: "utf16_encode_units s = Some us"
    and bs: "bs = utf16_bom @ concat (map le_bytes us)"
    by (auto simp: utf16_encode_def)
  have "le_units (concat (map le_bytes us) @ []) = Some us"
    using le_units_le_bytes [OF utf16_encode_units_small [OF us], of "[]"] by simp
  with bs us show ?thesis
    by (simp add: utf16_decode_def utf16_bom_def units_decode_encode)
qed

lemma utf8_decode_nonempty:
  "utf8_decode (b # bs) = Some t \<Longrightarrow> t \<noteq> []"
  by (auto simp: Let_def split: if_splits list.splits option.splits)

lemma universal_newlines_Nil_iff [simp]: "universal_newlines t = [] \<longleftrightarrow> t = []"
  by (cases t) simp_all

lemma translate_newlines_LF [simp]: "translate_newlines [10] t = t"
  by (induction t) (simp_all add: translate_newlines_def)

lemma universal_newlines_no_CR: "13 \<notin> set t \<Longrightarrow> universal_newlines t = t"
  by (induction t rule: universal_newlines.induct) simp_all

end
