(* ===== verification/Reporter.thy ===== *)
theory Reporter
  imports Prelude
begin

text \<open>
  The error reporter (\<open>src/error_handler.py\<close>, class \<open>ErrorHandler\<close>) and the logging
  configuration it writes through (\<open>src/config/logger_config.py\<close>, \<open>setup_logging\<close>).
  Python's \<open>logging\<close> module is modelled by its one observable rule: a record reaches the log
  file when its severity is at least the configured level. Modal message boxes are recorded,
  in the order they are shown, in the \<open>dialogs\<close> field; the user dismisses each with OK.
\<close>

datatype severity = DEBUG | INFO | WARNING | ERROR | CRITICAL

text \<open>The numeric levels of Python's \<open>logging\<close> module order the severities.\<close>

fun severity_level :: "severity \<Rightarrow> nat" where
  "severity_level DEBUG = 10"
| "severity_level INFO = 20"
| "severity_level WARNING = 30"
| "severity_level ERROR = 40"
| "severity_level CRITICAL = 50"

instantiation severity :: linorder
begin

definition less_eq_severity :: "severity \<Rightarrow> severity \<Rightarrow> bool" where
  "less_eq_severity a b \<longleftrightarrow> severity_level a \<le> severity_level b"

definition less_severity :: "severity \<Rightarrow> severity \<Rightarrow> bool" where
  "less_severity a b \<longleftrightarrow> severity_level a < severity_level b"

instance
proof
  fix a b c :: severity
  show "a < b \<longleftrightarrow> a \<le> b \<and> \<not> b \<le> a"
    by (auto simp: less_eq_severity_def less_severity_def)
  show "a \<le> a" by (simp add: less_eq_severity_def)
  show "a \<le> b \<Longrightarrow> b \<le> c \<Longrightarrow> a \<le> c" by (simp add: less_eq_severity_def)
  show "a \<le> b \<Longrightarrow> b \<le> a \<Longrightarrow> a = b"
    by (cases a; cases b) (simp_all add: less_eq_severity_def)
  show "a \<le> b \<or> b \<le> a" by (auto simp: less_eq_severity_def)
qed

end

text \<open>
  A dialog shown to the user: its kind (\<open>showerror\<close>, \<open>showinfo\<close>, a question of
  \<open>askyesno\<close>/\<open>askyesnocancel\<close>, a file dialog), title and text.
\<close>

datatype box_kind = BoxError | BoxInfo | BoxWarning | BoxQuestion | BoxFileDialog

datatype dialog = Box box_kind ustr ustr

text \<open>
  A caught exception, as far as the handlers use it: its class name (for the
  traceback) and \<open>str(e)\<close>.
\<close>

record py_exc =
  exc_type :: ustr
  exc_msg :: ustr

record reporter =
  log_level :: severity
  log_lines :: "(severity \<times> ustr) list"
  dialogs :: "dialog list"

text \<open>\<open>logging.<severity>(msg)\<close> on the root logger.\<close>

definition log_emit :: "severity \<Rightarrow> ustr \<Rightarrow> reporter \<Rightarrow> reporter" where
  "log_emit sev msg r =
     (if log_level r \<le> sev then r\<lparr>log_lines := log_lines r @ [(sev, msg)]\<rparr> else r)"

definition show_box :: "box_kind \<Rightarrow> ustr \<Rightarrow> ustr \<Rightarrow> reporter \<Rightarrow> reporter" where
  "show_box k title msg r = r\<lparr>dialogs := dialogs r @ [Box k title msg]\<rparr>"

text \<open>\<open>traceback.format_exc()\<close> inside the handler: the last line names the exception.\<close>

definition format_exc :: "py_exc \<Rightarrow> ustr" where
  "format_exc e = py_str ''Traceback (most recent call last): '' @ exc_type e @ py_str '': '' @ exc_msg e"

text \<open>\<open>setup_logging\<close>: \<open>logging.basicConfig(level=logging.INFO, ...)\<close>.\<close>

definition setup_logging :: "reporter \<Rightarrow> reporter" where
  "setup_logging r = r\<lparr>log_level := INFO\<rparr>"

text \<open>\<open>ErrorHandler.handle_error(operation, error, show_user)\<close>.\<close>

definition handle_error :: "ustr \<Rightarrow> py_exc \<Rightarrow> bool \<Rightarrow> reporter \<Rightarrow> reporter" where
  "handle_error operation e show_user r =
     (let r1 = log_emit ERROR (py_str ''Error en '' @ operation @ py_str '': '' @ exc_msg e) r;
          r2 = log_emit DEBUG (format_exc e) r1
      in if show_user
         then show_box BoxError (py_str ''Error'')
                (py_str ''Ocurrio algo cuando: '' @ operation @ py_str '':'' @ [10] @ exc_msg e @
                 [10] @ py_str ''Revise el archivo <<editor_errors.log>> en la carpeta ./log'') r2
         else r2)"

text \<open>The reporter right after \<open>setup_logging\<close>: nothing logged, no box shown.\<close>

abbreviation fresh_reporter :: reporter where
  "fresh_reporter \<equiv> \<lparr>log_level = INFO, log_lines = [], dialogs = []\<rparr>"

subsection \<open>Facts shared by the handlers\<close>

lemma log_emit_dialogs [simp]: "dialogs (log_emit s m r) = dialogs r"
  by (simp add: log_emit_def)

lemma log_emit_level [simp]: "log_level (log_emit s m r) = log_level r"
  by (simp add: log_emit_def)

lemma show_box_level [simp]: "log_level (show_box k t m r) = log_level r"
  and show_box_lines [simp]: "log_lines (show_box k t m r) = log_lines r"
  by (simp_all add: show_box_def)

lemma log_emit_lines_prefix: "\<exists>ys. log_lines (log_emit s m r) = log_lines r @ ys"
  by (auto simp: log_emit_def)

lemma handle_error_level [simp]: "log_level (handle_error op e b r) = log_level r"
  by (simp add: handle_error_def Let_def)

lemma severity_INFO_le [simp]:
  "INFO \<le> ERROR" "INFO \<le> INFO" "INFO \<le> WARNING" "INFO \<le> CRITICAL" "\<not> INFO \<le> DEBUG"
  by (simp_all add: less_eq_severity_def)

text \<open>
  C30. With the level \<open>setup_logging\<close> configures (\<open>INFO\<close>), \<open>handle_error\<close> writes
  exactly one line, the \<open>ERROR\<close> record naming the operation and the message: the
  traceback it logs at \<open>DEBUG\<close> is filtered out and never reaches the log file.
\<close>

theorem handle_error_drops_traceback:
  assumes "log_level r = INFO"
  shows "log_lines (handle_error op e b r) =
           log_lines r @ [(ERROR, py_str ''Error en '' @ op @ py_str '': '' @ exc_msg e)] \<and>
         dialogs (handle_error op e b r) =
           (if b then dialogs r @ [Box BoxError (py_str ''Error'')
                       (py_str ''Ocurrio algo cuando: '' @ op @ py_str '':'' @ [10] @ exc_msg e @
                        [10] @ py_str ''Revise el archivo <<editor_errors.log>> en la carpeta ./log'')]
            else dialogs r)"
  using assms by (simp add: handle_error_def log_emit_def show_box_def Let_def)

theorem handle_error_drops_traceback_witness:
  "log_level fresh_reporter = INFO \<and>
   log_lines (handle_error (py_str ''save file'') \<lparr>exc_type = py_str ''OSError'', exc_msg = py_str ''disk full''\<rparr> True fresh_reporter) =
     log_lines fresh_reporter @ [(ERROR, py_str ''Error en '' @ (py_str ''save file'') @ py_str '': '' @ exc_msg (\<lparr>exc_type = py_str ''OSError'', exc_msg = py_str ''disk full''\<rparr>))] \<and>
   dialogs (handle_error (py_str ''save file'') \<lparr>exc_type = py_str ''OSError'', exc_msg = py_str ''disk full''\<rparr> True fresh_reporter) =
     (if True then dialogs fresh_reporter @ [Box BoxError (py_str ''Error'')
        (py_str ''Ocurrio algo cuando: '' @ (py_str ''save file'') @ py_str '':'' @ [10] @ exc_msg (\<lparr>exc_type = py_str ''OSError'', exc_msg = py_str ''disk full''\<rparr>) @
         [10] @ py_str ''Revise el archivo <<editor_errors.log>> en la carpeta ./log'')]
      else dialogs fresh_reporter)"
proof -
  have h1: "log_level fresh_reporter = INFO"
    by simp
  show ?thesis using h1 handle_error_drops_traceback [OF h1] by blast
qed

end
