(* ===== verification/FileSys.thy ===== *)
theory FileSys
  imports Codecs Reporter
begin

text \<open>
  The file system as the file operations see it (\<open>src/operations/file_operations.py\<close>):
  a map from paths to byte strings, the paths where opening for writing or reading raises
  \<open>PermissionError\<close>, and the platform's line separator. On top of it, Python's
  \<open>open(path, 'r', encoding=e).read()\<close>, \<open>open(path, 'w', encoding=e).write(s)\<close>,
  \<open>shutil.copy2\<close>, \<open>os.path.exists\<close> and \<open>os.path.basename\<close>, each returning the
  exception it raises as a value. Opening for writing truncates the file before anything is
  encoded, so an encoding error leaves an empty file behind.
\<close>

type_synonym path = ustr

record fsys =
  files :: "path \<rightharpoonup> bytes"
  read_only :: "path set"
  unreadable :: "path set"
  linesep :: ustr

datatype io_error = FileNotFoundError | PermissionError | CodecError codec_error

definition os_path_exists :: "fsys \<Rightarrow> path \<Rightarrow> bool" where
  "os_path_exists fs p \<longleftrightarrow> files fs p \<noteq> None"

definition py_basename :: "path \<Rightarrow> ustr" where
  "py_basename p = rev (takeWhile (\<lambda>c. c \<noteq> 47) (rev p))"

text \<open>\<open>open(p, 'r', encoding=enc)\<close> then \<open>f.read()\<close>.\<close>

definition read_text :: "fsys \<Rightarrow> path \<Rightarrow> string \<Rightarrow> io_error + ustr" where
  "read_text fs p enc =
     (case files fs p of
        None \<Rightarrow> Inl FileNotFoundError
      | Some bs \<Rightarrow>
          if p \<in> unreadable fs then Inl PermissionError
          else (case py_decode enc bs of
                  Inl e \<Rightarrow> Inl (CodecError e)
                | Inr s \<Rightarrow> Inr (universal_newlines s)))"

text \<open>\<open>with open(p, 'w', encoding=enc) as f: f.write(s)\<close>: the error raised, if any, and the file system after the \<open>with\<close> block.\<close>

definition write_text :: "fsys \<Rightarrow> path \<Rightarrow> string \<Rightarrow> ustr \<Rightarrow> io_error option \<times> fsys" where
  "write_text fs p enc s =
     (if p \<in> read_only fs then (Some PermissionError, fs)
      else
        let fs1 = fs\<lparr>files := (files fs)(p \<mapsto> [])\<rparr> in
        (case py_encode enc (translate_newlines (linesep fs) s) of
           Inl e \<Rightarrow> (Some (CodecError e), fs1)
         | Inr bs \<Rightarrow> (None, fs1\<lparr>files := (files fs1)(p \<mapsto> bs)\<rparr>)))"

text \<open>\<open>shutil.copy2(src, dst)\<close>: the bytes of \<open>src\<close> become the bytes of \<open>dst\<close>.\<close>

definition copy2 :: "fsys \<Rightarrow> path \<Rightarrow> path \<Rightarrow> io_error + fsys" where
  "copy2 fs src dst =
     (case files fs src of
        None \<Rightarrow> Inl FileNotFoundError
      | Some bs \<Rightarrow>
          if src \<in> unreadable fs \<or> dst \<in> read_only fs then Inl PermissionError
          else Inr (fs\<lparr>files := (files fs)(dst \<mapsto> bs)\<rparr>))"

text \<open>
  The exception object: its class and \<open>str(e)\<close>. The texts of the codec errors are
  shortened; nothing in the development depends on them.
\<close>

fun io_exc :: "io_error \<Rightarrow> path \<Rightarrow> py_exc" where
  "io_exc FileNotFoundError p =
     \<lparr>exc_type = py_str ''FileNotFoundError'',
      exc_msg = py_str ''[Errno 2] No such file or directory: '' @ [39] @ p @ [39]\<rparr>"
| "io_exc PermissionError p =
     \<lparr>exc_type = py_str ''PermissionError'',
      exc_msg = py_str ''[Errno 13] Permission denied: '' @ [39] @ p @ [39]\<rparr>"
| "io_exc (CodecError LookupError) p =
     \<lparr>exc_type = py_str ''LookupError'', exc_msg = py_str ''unknown encoding''\<rparr>"
| "io_exc (CodecError UnicodeDecodeError) p =
     \<lparr>exc_type = py_str ''UnicodeDecodeError'', exc_msg = py_str ''codec can't decode bytes''\<rparr>"
| "io_exc (CodecError UnicodeEncodeError) p =
     \<lparr>exc_type = py_str ''UnicodeEncodeError'', exc_msg = py_str ''codec can't encode characters''\<rparr>"

subsection \<open>Facts about the file primitives\<close>

lemma write_text_files:
  "write_text fs p enc s = (err, fs') \<Longrightarrow> q \<noteq> p \<Longrightarrow> files fs' q = files fs q"
  by (auto simp: write_text_def Let_def split: if_splits sum.splits)

lemma write_text_ok:
  "write_text fs p enc s = (None, fs') \<Longrightarrow>
   p \<notin> read_only fs \<and> py_encode enc (translate_newlines (linesep fs) s) = Inr (the (files fs' p))"
  by (auto simp: write_text_def Let_def split: if_splits sum.splits)

lemma write_text_encode_error:
  "p \<notin> read_only fs \<Longrightarrow> py_encode enc (translate_newlines (linesep fs) s) = Inl e \<Longrightarrow>
   write_text fs p enc s = (Some (CodecError e), fs\<lparr>files := (files fs)(p \<mapsto> [])\<rparr>)"
  by (simp add: write_text_def)

lemma write_text_frame [simp]:
  "read_only (snd (write_text fs p enc s)) = read_only fs"
  "unreadable (snd (write_text fs p enc s)) = unreadable fs"
  "linesep (snd (write_text fs p enc s)) = linesep fs"
  by (auto simp: write_text_def Let_def split: sum.splits)

end
