(* ===== verification/Widget.thy ===== *)
theory Widget
  imports Prelude
begin

text \<open>
  The Tk text widget (\<open>scrolledtext.ScrolledText\<close>, created in \<open>TextEditor.create_text_area\<close>)
  is the toolkit the editor delegates its buffer to; it is not code of the repository, and is
  modelled here by the behaviour the handlers rely on:
  \<^item> the text, without the newline Tk always keeps at the end; \<open>get("1.0", END)\<close>
    returns the text followed by that newline;
  \<^item> the \<open>edit_modified\<close> flag, and the \<open><<Modified>>\<close> virtual event that Tk
    \<^emph>\<open>queues\<close> (\<open>Tk_QueueWindowEvent\<close>, tail of the queue) whenever the flag changes;
    the event is handled by the main loop after the running handler returns;
  \<^item> the ranges of the tag \<open>found\<close>, the selection, the insertion cursor, the index last
    passed to \<open>see\<close> and whether the widget holds the focus;
  \<^item> the \<open>search\<close> command with a stop index (no wrap-around), exact or \<open>-nocase\<close>.
  Indices are offsets into the text (Tk's \<open>"1.0"\<close> is offset 0, \<open>"pos+Nc"\<close> is
  \<open>pos + N\<close>).
\<close>

datatype vevent = Modified

text \<open>
  An entry of the undo stack (Tk's \<open>TkUndoAtom\<close> for an \<open>insert\<close> or a \<open>delete\<close>):
  the offset and the text inserted there, or deleted from there.
\<close>

datatype edit_atom = Ins nat ustr | Del nat ustr

datatype edit_mode = ModeInsert | ModeDelete

fun atom_mode :: "edit_atom \<Rightarrow> edit_mode" where
  "atom_mode (Ins i t) = ModeInsert"
| "atom_mode (Del i t) = ModeDelete"

text \<open>
  The undo stack is a list of groups (the atoms between two separators), the most recent group
  first and, inside a group, the most recent atom first. \<open>undo_open\<close> says that no separator
  lies on top of the stack, \<open>last_mode\<close> is Tk's \<open>lastEditMode\<close>. The redo stack holds
  the undone groups, the most recently undone first, each in the order it is reapplied.
  \<open>clipboard\<close> is the content of the \<open>CLIPBOARD\<close> selection, \<open>None\<close> while nobody
  owns it.
\<close>

record text_widget =
  content :: ustr
  modified_flag :: bool
  queue :: "vevent list"
  found :: "(nat \<times> nat) list"
  sel :: "(nat \<times> nat) option"
  insert_mark :: nat
  seen :: "nat option"
  has_focus :: bool
  undo_stack :: "edit_atom list list"
  redo_stack :: "edit_atom list list"
  undo_open :: bool
  last_mode :: "edit_mode option"
  clipboard :: "ustr option"

text \<open>
  The widget as \<open>create_text_area\<close> leaves it (\<open>undo=True\<close>, \<open>maxundo=-1\<close>, the default
  \<open>autoseparators\<close>): empty, unmodified, nothing queued, no history; nobody owns the
  clipboard.
\<close>

definition empty_widget :: text_widget where
  "empty_widget = \<lparr>content = [], modified_flag = False, queue = [], found = [], sel = None,
                    insert_mark = 0, seen = None, has_focus = False, undo_stack = [], redo_stack = [],
                    undo_open = False, last_mode = None, clipboard = None\<rparr>"

text \<open>The newline Tk keeps after the last line.\<close>

abbreviation newline :: nat where
  "newline \<equiv> 10"

definition get_all :: "text_widget \<Rightarrow> ustr" where
  "get_all w = content w @ [newline]"

text \<open>\<open>get(a, b)\<close>: the characters between two indices of the widget's whole text.\<close>

definition tk_get :: "nat \<Rightarrow> nat \<Rightarrow> text_widget \<Rightarrow> ustr" where
  "tk_get a b w = take (b - a) (drop a (get_all w))"

subsection \<open>The modified flag and its event\<close>

text \<open>
  A change of the text sets the flag; Tk queues \<open><<Modified>>\<close> only when the flag changes.
  \<open>edit_modified(b)\<close> sets the flag and queues the event when it changes.
\<close>

definition touch :: "text_widget \<Rightarrow> text_widget" where
  "touch w = (if modified_flag w then w else w\<lparr>modified_flag := True, queue := queue w @ [Modified]\<rparr>)"

definition edit_modified_set :: "bool \<Rightarrow> text_widget \<Rightarrow> text_widget" where
  "edit_modified_set b w =
     (if modified_flag w = b then w else w\<lparr>modified_flag := b, queue := queue w @ [Modified]\<rparr>)"

subsection \<open>Tags\<close>

text \<open>
  Tag ranges move with the text. Text inserted without tags receives the tags present on both
  the character before and the character after it, so an insertion strictly inside a range
  extends the range; an insertion at its start shifts it.
\<close>

fun shift_range :: "nat \<Rightarrow> nat \<Rightarrow> nat \<times> nat \<Rightarrow> nat \<times> nat" where
  "shift_range i n (a, b) =
     (if b \<le> i then (a, b) else if i \<le> a then (a + n, b + n) else (a, b + n))"

definition tag_shift :: "nat \<Rightarrow> nat \<Rightarrow> (nat \<times> nat) list \<Rightarrow> (nat \<times> nat) list" where
  "tag_shift i n rs = map (shift_range i n) rs"

text \<open>Deleting the characters from \<open>a\<close> to \<open>b\<close> moves every index after them back.\<close>

definition clip :: "nat \<Rightarrow> nat \<Rightarrow> nat \<Rightarrow> nat" where
  "clip a b p = (if p \<le> a then p else if p \<le> b then a else p - (b - a))"

definition tag_clip :: "nat \<Rightarrow> nat \<Rightarrow> (nat \<times> nat) list \<Rightarrow> (nat \<times> nat) list" where
  "tag_clip a b rs = filter (\<lambda>(x, y). x < y) (map (\<lambda>(x, y). (clip a b x, clip a b y)) rs)"

definition sel_clip :: "nat \<Rightarrow> nat \<Rightarrow> (nat \<times> nat) option \<Rightarrow> (nat \<times> nat) option" where
  "sel_clip a b r =
     (case r of None \<Rightarrow> None
      | Some (x, y) \<Rightarrow> if clip a b x < clip a b y then Some (clip a b x, clip a b y) else None)"

text \<open>
  \<open>tag_ranges(tag)\<close> lists the boundaries of the tagged regions in text order; its first
  element is the least tagged index, or the call returns an empty tuple.
\<close>

definition tag_first :: "(nat \<times> nat) list \<Rightarrow> nat option" where
  "tag_first rs = (let rs' = filter (\<lambda>(a, b). a < b) rs in
                   if rs' = [] then None else Some (Min (set (map fst rs'))))"

subsection \<open>Changing the text\<close>

text \<open>
  The two primitive changes, as the undo machinery replays them: they move tags and the
  insertion cursor (whose gravity is right) and set the modified flag, and record nothing.
\<close>

definition raw_insert :: "nat \<Rightarrow> ustr \<Rightarrow> text_widget \<Rightarrow> text_widget" where
  "raw_insert i s w =
     touch (w\<lparr>content := take i (content w) @ s @ drop i (content w),
              found := tag_shift i (length s) (found w),
              sel := map_option (shift_range i (length s)) (sel w),
              insert_mark := (if i \<le> insert_mark w then insert_mark w + length s else insert_mark w)\<rparr>)"

definition raw_delete :: "nat \<Rightarrow> nat \<Rightarrow> text_widget \<Rightarrow> text_widget" where
  "raw_delete a b w =
     touch (w\<lparr>content := take a (content w) @ drop b (content w),
              found := tag_clip a b (found w), sel := sel_clip a b (sel w),
              insert_mark := clip a b (insert_mark w)\<rparr>)"

text \<open>
  Recording an edit (\<open>TkUndoPushAction\<close>). With automatic separators (\<open>auto\<close>), an
  atom joins the top group when no separator is on top and the previous edit was of the same
  kind; without them, whenever no separator is on top. Every recorded edit empties the redo
  stack.
\<close>

definition push_undo :: "bool \<Rightarrow> edit_atom \<Rightarrow> text_widget \<Rightarrow> text_widget" where
  "push_undo auto a w =
     w\<lparr>undo_stack := (case undo_stack w of
                        g # gs \<Rightarrow> if undo_open w \<and> (\<not> auto \<or> last_mode w = Some (atom_mode a))
                                  then (a # g) # gs else [a] # g # gs
                      | [] \<Rightarrow> [[a]]),
       redo_stack := [], undo_open := True, last_mode := Some (atom_mode a)\<rparr>"

text \<open>\<open>edit_separator()\<close>.\<close>

definition edit_separator :: "text_widget \<Rightarrow> text_widget" where
  "edit_separator w = w\<lparr>undo_open := False\<rparr>"

text \<open>
  The \<open>insert\<close> and \<open>delete\<close> commands, with the widget's \<open>-autoseparators\<close> setting
  \<open>auto\<close>. An index past the text means its end; the final newline is never deleted; an
  empty string or range changes nothing.
\<close>

definition tk_insert :: "bool \<Rightarrow> nat \<Rightarrow> ustr \<Rightarrow> text_widget \<Rightarrow> text_widget" where
  "tk_insert auto i s w =
     (if s = [] then w
      else let i' = min i (length (content w)) in push_undo auto (Ins i' s) (raw_insert i' s w))"

definition tk_delete :: "bool \<Rightarrow> nat \<Rightarrow> nat \<Rightarrow> text_widget \<Rightarrow> text_widget" where
  "tk_delete auto a b w =
     (let n = length (content w); a' = min a n; b' = min b n
      in if b' \<le> a' then w
         else push_undo auto (Del a' (take (b' - a') (drop a' (content w)))) (raw_delete a' b' w))"

text \<open>\<open>insert(i, s)\<close> and \<open>delete(a, b)\<close> as the editor calls them (automatic separators on).\<close>

definition insert_text :: "nat \<Rightarrow> ustr \<Rightarrow> text_widget \<Rightarrow> text_widget" where
  "insert_text i s w = tk_insert True i s w"

definition delete_range :: "nat \<Rightarrow> nat \<Rightarrow> text_widget \<Rightarrow> text_widget" where
  "delete_range a b w = tk_delete True a b w"

text \<open>\<open>delete("1.0", END)\<close>: \<open>END\<close> is the index after the final newline.\<close>

definition delete_all :: "text_widget \<Rightarrow> text_widget" where
  "delete_all w = delete_range 0 (Suc (length (content w))) w"

subsection \<open>Tag and view commands\<close>

text \<open>\<open>tag_remove("found", "1.0", END)\<close>, \<open>tag_add("found", a, b)\<close>, \<open>see(i)\<close>, \<open>focus_set()\<close>.\<close>

definition tag_remove_found :: "text_widget \<Rightarrow> text_widget" where
  "tag_remove_found w = w\<lparr>found := []\<rparr>"

definition tag_add_found :: "nat \<Rightarrow> nat \<Rightarrow> text_widget \<Rightarrow> text_widget" where
  "tag_add_found a b w = w\<lparr>found := found w @ [(a, b)]\<rparr>"

definition see :: "nat \<Rightarrow> text_widget \<Rightarrow> text_widget" where
  "see i w = w\<lparr>seen := Some i\<rparr>"

definition focus_set :: "text_widget \<Rightarrow> text_widget" where
  "focus_set w = w\<lparr>has_focus := True\<rparr>"

subsection \<open>Undo and redo\<close>

text \<open>
  Reverting and reapplying an atom (the scripts \<open>TextPushUndoAction\<close> stores): the
  primitive change, then \<open>mark set insert\<close> at its start or end and \<open>see insert\<close>.
\<close>

definition revert_atom :: "edit_atom \<Rightarrow> text_widget \<Rightarrow> text_widget" where
  "revert_atom a w =
     (case a of
        Ins i t \<Rightarrow> (raw_delete i (i + length t) w)\<lparr>insert_mark := i, seen := Some i\<rparr>
      | Del i t \<Rightarrow> (raw_insert i t w)\<lparr>insert_mark := i + length t, seen := Some (i + length t)\<rparr>)"

definition apply_atom :: "edit_atom \<Rightarrow> text_widget \<Rightarrow> text_widget" where
  "apply_atom a w =
     (case a of
        Ins i t \<Rightarrow> (raw_insert i t w)\<lparr>insert_mark := i + length t, seen := Some (i + length t)\<rparr>
      | Del i t \<Rightarrow> (raw_delete i (i + length t) w)\<lparr>insert_mark := i, seen := Some i\<rparr>)"

text \<open>
  \<open>edit_undo()\<close> (\<open>TkUndoRevert\<close>): reverts the top group, most recent atom first, and
  moves it to the redo stack. The separator that ends the group is popped with it, so no
  separator lies on top of the undo stack afterwards, and \<open>lastEditMode\<close> is not changed
  (the reverting edits run with undo turned off): a following edit of the same kind joins the
  group below. The Tcl result is the empty string; an empty stack raises
  \<open>TclError("nothing to undo")\<close>, the error being the left value. \<open>edit_redo()\<close>
  (\<open>TkUndoApply\<close>) reapplies the top redo group and ends with a separator on the undo stack.
\<close>

definition tk_edit_undo :: "text_widget \<Rightarrow> ustr + ustr \<times> text_widget" where
  "tk_edit_undo w =
     (case undo_stack w of
        [] \<Rightarrow> Inl (py_str ''nothing to undo'')
      | g # gs \<Rightarrow>
          Inr ([], (fold revert_atom g (w\<lparr>undo_stack := gs\<rparr>))\<lparr>redo_stack := rev g # redo_stack w,
                                                               undo_open := True\<rparr>))"

definition tk_edit_redo :: "text_widget \<Rightarrow> ustr + ustr \<times> text_widget" where
  "tk_edit_redo w =
     (case redo_stack w of
        [] \<Rightarrow> Inl (py_str ''nothing to redo'')
      | g # gs \<Rightarrow>
          Inr ([], (fold apply_atom g (w\<lparr>redo_stack := gs\<rparr>))\<lparr>undo_stack := rev g # undo_stack w,
                                                              undo_open := False\<rparr>))"

subsection \<open>Selection and clipboard\<close>

text \<open>
  \<open>tag_add(SEL, "1.0", END)\<close> selects the whole text with its final newline;
  \<open>mark_set(INSERT, i)\<close> keeps the cursor before the final newline.
\<close>

definition select_whole :: "text_widget \<Rightarrow> text_widget" where
  "select_whole w = w\<lparr>sel := Some (0, Suc (length (content w)))\<rparr>"

definition mark_set_insert :: "nat \<Rightarrow> text_widget \<Rightarrow> text_widget" where
  "mark_set_insert i w = w\<lparr>insert_mark := min i (length (content w))\<rparr>"

text \<open>
  \<open>clipboard_clear()\<close> takes ownership of the clipboard with an empty content,
  \<open>clipboard_append(t)\<close> appends; \<open>clipboard_get()\<close> raises \<open>TclError\<close> when nobody
  owns the clipboard (the message names the missing \<open>"STRING"\<close> form, 34 is the quote).
\<close>

definition clipboard_clear :: "text_widget \<Rightarrow> text_widget" where
  "clipboard_clear w = w\<lparr>clipboard := Some []\<rparr>"

definition clipboard_append :: "ustr \<Rightarrow> text_widget \<Rightarrow> text_widget" where
  "clipboard_append t w = w\<lparr>clipboard := Some (case clipboard w of None \<Rightarrow> t | Some c \<Rightarrow> c @ t)\<rparr>"

definition clipboard_get :: "text_widget \<Rightarrow> ustr + ustr" where
  "clipboard_get w =
     (case clipboard w of
        None \<Rightarrow> Inl (py_str ''CLIPBOARD selection doesn't exist or form '' @ [34] @ py_str ''STRING'' @
                    [34] @ py_str '' not defined'')
      | Some c \<Rightarrow> Inr c)"

subsection \<open>Typing a character\<close>

text \<open>
  The class binding of \<open><KeyPress>\<close> (\<open>tk::TextInsert\<close> in Tk's \<open>text.tcl\<close>): when the
  cursor lies in the selection, the selection is deleted and the character inserted as one
  undo group (automatic separators off, explicit separators around); otherwise the character
  is inserted at the cursor. Then \<open>see insert\<close>.
\<close>

definition type_char :: "nat \<Rightarrow> text_widget \<Rightarrow> text_widget" where
  "type_char ch w =
     (let w1 = (case sel w of
                  Some (a, b) \<Rightarrow>
                    if a \<le> insert_mark w \<and> insert_mark w \<le> b
                    then (let w' = tk_delete False a b (edit_separator w)
                          in edit_separator (tk_insert False (insert_mark w') [ch] w'))
                    else insert_text (insert_mark w) [ch] w
                | None \<Rightarrow> insert_text (insert_mark w) [ch] w)
      in w1\<lparr>seen := Some (insert_mark w1)\<rparr>)"

subsection \<open>The search command\<close>

text \<open>
  A pattern occurs at \<open>i\<close> when it fits and agrees with the text there, character by
  character after folding both sides with \<open>f\<close> (the identity for an exact search,
  lower-casing for \<open>-nocase\<close>).
\<close>

definition occurs_at :: "('c \<Rightarrow> 'c) \<Rightarrow> 'c list \<Rightarrow> 'c list \<Rightarrow> nat \<Rightarrow> bool" where
  "occurs_at f p t i \<longleftrightarrow>
     i + length p \<le> length t \<and> map f (take (length p) (drop i t)) = map f p"

text \<open>
  \<open>search(pattern, index, END)\<close>: the first index at or after \<open>index\<close>, and before the
  stop index, where the pattern occurs.
\<close>

function tk_search :: "('c \<Rightarrow> 'c) \<Rightarrow> 'c list \<Rightarrow> 'c list \<Rightarrow> nat \<Rightarrow> nat option" where
  "tk_search f p t i =
     (if length t \<le> i then None
      else if occurs_at f p t i then Some i
      else tk_search f p t (Suc i))"
  by pat_completeness auto
termination
  by (relation "measure (\<lambda>(f, p, t, i). length t - i)") auto

declare tk_search.simps [simp del]

text \<open>
  Tcl's \<open>Tcl_UniCharToLower\<close> on the Latin-1 range: A--Z and U+00C0--U+00DE except U+00D7
  map 32 code points up; code points above U+00FF are left as they are by this model.
\<close>

definition uni_lower :: "nat \<Rightarrow> nat" where
  "uni_lower c = (if (65 \<le> c \<and> c \<le> 90) \<or> (192 \<le> c \<and> c \<le> 222 \<and> c \<noteq> 215) then c + 32 else c)"

definition tk_fold :: "bool \<Rightarrow> nat \<Rightarrow> nat" where
  "tk_fold case_sensitive = (if case_sensitive then id else uni_lower)"

subsection \<open>Facts about the widget\<close>

lemma tk_search_SomeD:
  assumes "tk_search f p t i = Some j"
  shows "i \<le> j \<and> j < length t \<and> occurs_at f p t j \<and> (\<forall>k. i \<le> k \<and> k < j \<longrightarrow> \<not> occurs_at f p t k)"
  using assms
proof (induction f p t i rule: tk_search.induct)
  case (1 f p t i)
  show ?case
  proof (cases "\<not> length t \<le> i \<and> \<not> occurs_at f p t i")
    case True
    with "1.prems" have "tk_search f p t (Suc i) = Some j"
      by (simp add: tk_search.simps [of f p t i])
    with True "1.IH" have ih: "Suc i \<le> j \<and> j < length t \<and> occurs_at f p t j \<and>
        (\<forall>k. Suc i \<le> k \<and> k < j \<longrightarrow> \<not> occurs_at f p t k)"
      by simp
    have "k = i \<or> Suc i \<le> k" if "i \<le> k" for k
      using that by arith
    with ih True show ?thesis
      by (metis Suc_leD)
  next
    case False
    with "1.prems" show ?thesis
      by (auto simp: tk_search.simps [of f p t i] split: if_splits)
  qed
qed

lemma tk_search_NoneD:
  assumes "tk_search f p t i = None" and "i \<le> k" and "k < length t"
  shows "\<not> occurs_at f p t k"
  using assms
proof (induction f p t i rule: tk_search.induct)
  case (1 f p t i)
  have "k = i \<or> Suc i \<le> k"
    using "1.prems"(2) by arith
  with "1.prems" "1.IH" show ?case
    by (auto simp: tk_search.simps [of f p t i] split: if_splits)
qed

lemma occurs_at_nonempty_bound: "occurs_at f p t k \<Longrightarrow> p \<noteq> [] \<Longrightarrow> k < length t"
  unfolding occurs_at_def by (cases p) auto

lemma tag_commands_text [simp]:
  "get_all (tag_remove_found w) = get_all w" "get_all (tag_add_found a b w) = get_all w"
  "content (tag_remove_found w) = content w" "content (tag_add_found a b w) = content w"
  "content (see i w) = content w" "content (focus_set w) = content w"
  by (simp_all add: get_all_def tag_remove_found_def tag_add_found_def see_def focus_set_def)

lemma get_all_view_updates [simp]:
  "get_all (w\<lparr>found := rs\<rparr>) = get_all w" "get_all (w\<lparr>seen := v\<rparr>) = get_all w"
  "get_all (w\<lparr>has_focus := b\<rparr>) = get_all w"
  by (simp_all add: get_all_def)

lemma get_all_nonempty [simp]: "get_all w \<noteq> []"
  by (simp add: get_all_def)

lemma touch_content [simp]: "content (touch w) = content w"
  and touch_found [simp]: "found (touch w) = found w"
  and touch_flag [simp]: "modified_flag (touch w) = True"
  and touch_insert_mark [simp]: "insert_mark (touch w) = insert_mark w"
  by (simp_all add: touch_def)

lemma push_undo_view [simp]:
  "content (push_undo b a w) = content w" "modified_flag (push_undo b a w) = modified_flag w"
  "queue (push_undo b a w) = queue w" "found (push_undo b a w) = found w" "sel (push_undo b a w) = sel w"
  "insert_mark (push_undo b a w) = insert_mark w" "seen (push_undo b a w) = seen w"
  "clipboard (push_undo b a w) = clipboard w"
  by (simp_all add: push_undo_def)

lemma touch_view [simp]:
  "sel (touch w) = sel w" "seen (touch w) = seen w" "undo_stack (touch w) = undo_stack w"
  "redo_stack (touch w) = redo_stack w" "clipboard (touch w) = clipboard w"
  "undo_open (touch w) = undo_open w" "last_mode (touch w) = last_mode w"
  by (simp_all add: touch_def)

lemma touch_queue: "queue (touch w) = (if modified_flag w then queue w else queue w @ [Modified])"
  by (simp add: touch_def)

lemma insert_text_content [simp]:
  "content (insert_text i s w) =
     take (min i (length (content w))) (content w) @ s @ drop (min i (length (content w))) (content w)"
  by (simp add: insert_text_def tk_insert_def raw_insert_def Let_def)

lemma insert_text_flag [simp]: "modified_flag (insert_text i s w) = (s \<noteq> [] \<or> modified_flag w)"
  by (simp add: insert_text_def tk_insert_def raw_insert_def Let_def)

lemma insert_text_mark [simp]:
  "s \<noteq> [] \<Longrightarrow> insert_mark (insert_text (insert_mark w) s w) = insert_mark w + length s"
  by (simp add: insert_text_def tk_insert_def raw_insert_def Let_def)

lemma delete_all_content [simp]: "content (delete_all w) = []"
  by (simp add: delete_all_def delete_range_def tk_delete_def raw_delete_def Let_def)

lemma delete_all_flag [simp]: "modified_flag (delete_all w) = (content w \<noteq> [] \<or> modified_flag w)"
  by (simp add: delete_all_def delete_range_def tk_delete_def raw_delete_def Let_def)

lemma delete_all_queue:
  "queue (delete_all w) = (if content w = [] \<or> modified_flag w then queue w else queue w @ [Modified])"
  by (simp add: delete_all_def delete_range_def tk_delete_def raw_delete_def Let_def touch_queue)

lemma delete_all_Nil: "content w = [] \<Longrightarrow> delete_all w = w"
  by (simp add: delete_all_def delete_range_def tk_delete_def)

lemma tk_insert_flag_queue:
  "modified_flag (tk_insert b i s w) = (s \<noteq> [] \<or> modified_flag w) \<and>
   queue (tk_insert b i s w) = (if s = [] \<or> modified_flag w then queue w else queue w @ [Modified])"
  by (simp add: tk_insert_def raw_insert_def Let_def touch_queue)

lemma tk_delete_flag_queue:
  "modified_flag (tk_delete b x y w) =
     (min x (length (content w)) < min y (length (content w)) \<or> modified_flag w) \<and>
   queue (tk_delete b x y w) =
     (if min y (length (content w)) \<le> min x (length (content w)) \<or> modified_flag w then queue w
      else queue w @ [Modified])"
  by (auto simp: tk_delete_def raw_delete_def Let_def touch_queue min_def split: if_splits)

lemma edit_separator_view [simp]:
  "content (edit_separator w) = content w" "modified_flag (edit_separator w) = modified_flag w"
  "queue (edit_separator w) = queue w" "sel (edit_separator w) = sel w"
  "insert_mark (edit_separator w) = insert_mark w"
  by (simp_all add: edit_separator_def)

text \<open>Typing always sets the flag and queues at most the one event of that change.\<close>

lemma type_char_flag_queue:
  "modified_flag (type_char ch w) \<and>
   queue (type_char ch w) = (if modified_flag w then queue w else queue w @ [Modified])"
  by (auto simp: type_char_def insert_text_def tk_insert_flag_queue tk_delete_flag_queue Let_def
           split: option.splits prod.splits)

lemma type_char_no_sel:
  "sel w = None \<Longrightarrow> type_char ch w = (insert_text (insert_mark w) [ch] w)\<lparr>seen := Some (Suc (insert_mark w))\<rparr>"
  by (simp add: type_char_def)

lemma delete_range_content:
  "content (delete_range a b w) =
     (if min b (length (content w)) \<le> min a (length (content w)) then content w
      else take (min a (length (content w))) (content w) @ drop (min b (length (content w))) (content w))"
  by (simp add: delete_range_def tk_delete_def raw_delete_def Let_def)

lemma edit_commands_clipboard [simp]:
  "clipboard (delete_range a b w) = clipboard w" "clipboard (insert_text i t w) = clipboard w"
  by (simp_all add: delete_range_def tk_delete_def raw_delete_def insert_text_def tk_insert_def
                    raw_insert_def Let_def)

subsection \<open>Changes of the flag\<close>

text \<open>
  \<open>touched w w'\<close>: the widget went from \<open>w\<close> to \<open>w'\<close> either without changing its flag
  and queue, or by changes of the text, which set the flag and queue one event if it was clear.
\<close>

definition touched :: "text_widget \<Rightarrow> text_widget \<Rightarrow> bool" where
  "touched w w' \<longleftrightarrow>
     (modified_flag w' = modified_flag w \<and> queue w' = queue w) \<or>
     (modified_flag w' \<and> queue w' = (if modified_flag w then queue w else queue w @ [Modified]))"

named_theorems touched_intros "widget commands that change the flag only as a text change does"

lemma touched_refl [touched_intros]: "touched w w"
  by (simp add: touched_def)

lemma touched_trans: "touched w w1 \<Longrightarrow> touched w1 w2 \<Longrightarrow> touched w w2"
  by (auto simp: touched_def)

lemma touched_frame:
  "modified_flag w' = modified_flag w \<Longrightarrow> queue w' = queue w \<Longrightarrow> touched w w'"
  by (simp add: touched_def)

lemma touched_touch [touched_intros]: "touched w (touch w)"
  by (simp add: touched_def touch_queue)

lemma touched_views [touched_intros]:
  "touched w (push_undo b a w)" "touched w (edit_separator w)" "touched w (select_whole w)"
  "touched w (mark_set_insert i w)" "touched w (see i w)" "touched w (focus_set w)"
  "touched w (tag_remove_found w)" "touched w (tag_add_found x y w)"
  "touched w (clipboard_clear w)" "touched w (clipboard_append t w)"
  "touched w (w\<lparr>seen := v\<rparr>)" "touched w (w\<lparr>has_focus := h\<rparr>)" "touched w (w\<lparr>insert_mark := m\<rparr>)"
  "touched w (w\<lparr>undo_stack := u, redo_stack := r', undo_open := b\<rparr>)"
  "touched w (w\<lparr>undo_stack := u\<rparr>)" "touched w (w\<lparr>redo_stack := r'\<rparr>)"
  by (simp_all add: touched_def push_undo_def edit_separator_def select_whole_def mark_set_insert_def
                    see_def focus_set_def tag_remove_found_def tag_add_found_def clipboard_clear_def
                    clipboard_append_def)

lemma touched_raw [touched_intros]: "touched w (raw_insert i s w)" "touched w (raw_delete a b w)"
  by (simp_all add: touched_def raw_insert_def raw_delete_def touch_queue)

lemma touched_edits [touched_intros]:
  "touched w (tk_insert b i s w)" "touched w (tk_delete b x y w)" "touched w (insert_text i s w)"
  "touched w (delete_range x y w)" "touched w (delete_all w)"
  by (auto simp: touched_def tk_insert_flag_queue tk_delete_flag_queue insert_text_def delete_range_def
                 delete_all_def)

lemma touched_type_char [touched_intros]: "touched w (type_char ch w)"
  by (simp add: touched_def type_char_flag_queue)

lemma touched_atoms [touched_intros]: "touched w (revert_atom a w)" "touched w (apply_atom a w)"
  by (cases a; simp add: revert_atom_def apply_atom_def touched_def raw_insert_def raw_delete_def
                         touch_queue)+

lemma touched_fold_revert: "touched w (fold revert_atom g w)"
  by (induction g arbitrary: w) (auto intro: touched_refl touched_trans [OF touched_atoms(1)])

lemma touched_fold_apply: "touched w (fold apply_atom g w)"
  by (induction g arbitrary: w) (auto intro: touched_refl touched_trans [OF touched_atoms(2)])

lemmas touched_folds = touched_fold_revert touched_fold_apply

lemma touched_undo_redo:
  "tk_edit_undo w = Inr (r, w') \<Longrightarrow> touched w w'"
  "tk_edit_redo w = Inr (r, w') \<Longrightarrow> touched w w'"
proof -
  show "tk_edit_undo w = Inr (r, w') \<Longrightarrow> touched w w'"
    using touched_folds(1) [of "w\<lparr>undo_stack := tl (undo_stack w)\<rparr>" "hd (undo_stack w)"]
    by (auto simp: tk_edit_undo_def touched_def split: list.splits)
  show "tk_edit_redo w = Inr (r, w') \<Longrightarrow> touched w w'"
    using touched_folds(2) [of "w\<lparr>redo_stack := tl (redo_stack w)\<rparr>" "hd (redo_stack w)"]
    by (auto simp: tk_edit_redo_def touched_def split: list.splits)
qed

end
