(* ===== verification/Matches.thy ===== *)
theory Matches
  imports Widget
begin

text \<open>
  The reference specification of the search engine: \<open>greedy_matches f p t i\<close> lists the
  leftmost, non-overlapping occurrences of \<open>p\<close> in \<open>t\<close> from index \<open>i\<close> on, scanning one
  position at a time and jumping past each occurrence. It is the contract of section 4.2 of
  the specification, written as a function; theory \<open>Search\<close> proves the handler's loop
  computes it. The lemmas here show what the contract promises: every listed index is an
  occurrence, the listed occurrences do not overlap, every occurrence overlaps a listed one,
  no set of non-overlapping occurrences is larger, and a case-insensitive scan finds at least
  as many matches as a case-sensitive one. Theory \<open>Search\<close> states them of the handler.
\<close>

function greedy_matches :: "('c \<Rightarrow> 'c) \<Rightarrow> 'c list \<Rightarrow> 'c list \<Rightarrow> nat \<Rightarrow> nat list" where
  "greedy_matches f p t i =
     (if length t \<le> i then []
      else if p \<noteq> [] \<and> occurs_at f p t i then i # greedy_matches f p t (i + length p)
      else greedy_matches f p t (Suc i))"
  by pat_completeness auto
termination
proof (relation "measure (\<lambda>(f, p, t, i). length t - i)")
  fix f :: "'c \<Rightarrow> 'c" and p t :: "'c list" and i :: nat
  assume "\<not> length t \<le> i" and "p \<noteq> [] \<and> occurs_at f p t i"
  then show "((f, p, t, i + length p), f, p, t, i) \<in> measure (\<lambda>(f, p, t, i). length t - i)"
    by (cases p) auto
qed auto

declare greedy_matches.simps [simp del]

subsection \<open>Unfolding one step of the scan\<close>

lemma greedy_stop: "length t \<le> i \<Longrightarrow> greedy_matches f p t i = []"
  by (simp add: greedy_matches.simps [of f p t i])

lemma greedy_hit:
  "\<not> length t \<le> i \<Longrightarrow> p \<noteq> [] \<Longrightarrow> occurs_at f p t i \<Longrightarrow>
   greedy_matches f p t i = i # greedy_matches f p t (i + length p)"
  by (simp add: greedy_matches.simps [of f p t i])

lemma greedy_skip:
  "\<not> length t \<le> i \<Longrightarrow> \<not> (p \<noteq> [] \<and> occurs_at f p t i) \<Longrightarrow>
   greedy_matches f p t i = greedy_matches f p t (Suc i)"
  by (subst greedy_matches.simps) auto

lemmas greedy_steps = greedy_stop greedy_hit greedy_skip

lemma tk_search_stop: "length t \<le> i \<Longrightarrow> tk_search f p t i = None"
  and tk_search_hit: "\<not> length t \<le> i \<Longrightarrow> occurs_at f p t i \<Longrightarrow> tk_search f p t i = Some i"
  and tk_search_skip: "\<not> length t \<le> i \<Longrightarrow> \<not> occurs_at f p t i \<Longrightarrow>
                         tk_search f p t i = tk_search f p t (Suc i)"
  by (simp_all add: tk_search.simps [of f p t i])

lemmas tk_search_steps = tk_search_stop tk_search_hit tk_search_skip

subsection \<open>Shape of the match list\<close>

lemma greedy_matches_Nil_pattern [search_simps]: "greedy_matches f [] t i = []"
proof (induction f "[] :: 'a list" t i rule: greedy_matches.induct)
  case (1 f t i)
  then show ?case by (cases "length t \<le> i") (simp_all add: greedy_steps)
qed

lemma greedy_matches_ge: "j \<in> set (greedy_matches f p t i) \<Longrightarrow> i \<le> j"
proof (induction f p t i rule: greedy_matches.induct)
  case (1 f p t i)
  then show ?case
    by (cases "length t \<le> i"; cases "p \<noteq> [] \<and> occurs_at f p t i")
       (auto simp: greedy_steps)
qed

text \<open>The handler's loop takes the next occurrence from \<open>tk_search\<close>; so does the specification.\<close>

lemma greedy_matches_tk_search:
  "p \<noteq> [] \<Longrightarrow> greedy_matches f p t i =
     (case tk_search f p t i of None \<Rightarrow> [] | Some j \<Rightarrow> j # greedy_matches f p t (j + length p))"
proof (induction f p t i rule: tk_search.induct)
  case (1 f p t i)
  then show ?case
    by (cases "length t \<le> i"; cases "occurs_at f p t i")
       (simp_all add: greedy_steps tk_search_steps)
qed

subsection \<open>Soundness, spacing, coverage and maximality of the scan\<close>

lemma matches_occur:
  "j \<in> set (greedy_matches f p t i) \<Longrightarrow> occurs_at f p t j \<and> i \<le> j"
proof (induction f p t i rule: greedy_matches.induct)
  case (1 f p t i)
  then show ?case
    by (cases "length t \<le> i"; cases "p \<noteq> [] \<and> occurs_at f p t i")
       (auto simp: greedy_steps)
qed

lemma matches_spaced:
  "sorted_wrt (\<lambda>a b. a + length p \<le> b) (greedy_matches f p t i)"
proof (induction f p t i rule: greedy_matches.induct)
  case (1 f p t i)
  then show ?case
    by (cases "length t \<le> i"; cases "p \<noteq> [] \<and> occurs_at f p t i")
       (auto simp: greedy_steps dest: greedy_matches_ge)
qed

lemma matches_cover:
  assumes "p \<noteq> []" and "occurs_at f p t k" and "i \<le> k"
  shows "\<exists>j \<in> set (greedy_matches f p t i). j \<le> k \<and> k < j + length p"
  using assms
proof (induction f p t i rule: greedy_matches.induct)
  case (1 f p t i)
  then have k: "k < length t"
    using occurs_at_nonempty_bound by blast
  show ?case
  proof (cases "occurs_at f p t i")
    case True
    with "1.prems" k "1.IH"(1) show ?thesis
      by (cases "k < i + length p") (auto simp: greedy_steps)
  next
    case False
    with "1.prems" have "Suc i \<le> k"
      by (metis le_neq_implies_less Suc_leI)
    with False "1.prems" k "1.IH"(2) show ?thesis
      by (auto simp: greedy_steps)
  qed
qed

lemma matches_max:
  assumes "p \<noteq> []" and "sorted_wrt (\<lambda>a b. a + length p \<le> b) js"
    and "\<forall>j \<in> set js. i \<le> j \<and> occurs_at f p t j"
  shows "length js \<le> length (greedy_matches f p t i)"
  using assms
proof (induction f p t i arbitrary: js rule: greedy_matches.induct)
  case (1 f p t i)
  show ?case
  proof (cases js)
    case Nil
    then show ?thesis by simp
  next
    case (Cons j js')
    from "1.prems"(3) Cons have j: "i \<le> j" "occurs_at f p t j" by auto
    with "1.prems"(1) have "j < length t"
      using occurs_at_nonempty_bound by blast
    with j have go: "\<not> length t \<le> i" by simp
    from "1.prems"(2) Cons have js': "sorted_wrt (\<lambda>a b. a + length p \<le> b) js'"
      and gap: "\<forall>b \<in> set js'. j + length p \<le> b" by simp_all
    show ?thesis
    proof (cases "occurs_at f p t i")
      case True
      have "\<forall>b \<in> set js'. i + length p \<le> b \<and> occurs_at f p t b"
        using gap j(1) "1.prems"(3) Cons by fastforce
      with "1.IH"(1) [OF go _ "1.prems"(1) js'] True "1.prems"(1)
      have "length js' \<le> length (greedy_matches f p t (i + length p))"
        by blast
      with go True "1.prems"(1) Cons show ?thesis
        by (simp add: greedy_hit)
    next
      case False
      have "\<forall>b \<in> set js. Suc i \<le> b \<and> occurs_at f p t b"
        using "1.prems"(3) False by (metis le_neq_implies_less Suc_leI)
      with "1.IH"(2) [OF go _ "1.prems"(1,2)] False
      have "length js \<le> length (greedy_matches f p t (Suc i))"
        by blast
      with go False show ?thesis
        by (simp add: greedy_skip)
    qed
  qed
qed

lemma occurs_at_exact_fold: "occurs_at id p t k \<Longrightarrow> occurs_at g p t k"
  by (simp add: occurs_at_def)

text \<open>Clearing "Match case" never lowers the number of greedy matches.\<close>

lemma matches_nocase_ge:
  "length (greedy_matches (tk_fold True) p t i) \<le> length (greedy_matches (tk_fold False) p t i)"
proof (cases "p = []")
  case True
  then show ?thesis by (simp add: greedy_matches_Nil_pattern)
next
  case False
  let ?js = "greedy_matches (tk_fold True) p t i"
  have "\<forall>j \<in> set ?js. i \<le> j \<and> occurs_at (tk_fold False) p t j"
    using matches_occur occurs_at_exact_fold by (metis tk_fold_def)
  with matches_max [OF False matches_spaced] show ?thesis
    by blast
qed

subsection \<open>Bounds of the match list\<close>

lemma matches_count_bound: "length (greedy_matches f p t i) * length p \<le> length t - i"
proof (induction f p t i rule: greedy_matches.induct)
  case (1 f p t i)
  show ?case
  proof (cases "\<not> length t \<le> i \<and> p \<noteq> [] \<and> occurs_at f p t i")
    case True
    then have "i + length p \<le> length t" by (simp add: occurs_at_def)
    with True 1(1) show ?thesis by (simp add: greedy_hit)
  next
    case False
    then show ?thesis
      by (cases "length t \<le> i") (use 1(2) in \<open>auto simp: greedy_steps\<close>)
  qed
qed

lemma matches_in_text: "j \<in> set (greedy_matches f p t i) \<Longrightarrow> j + length p \<le> length t"
  using matches_occur [of j f p t i] by (simp add: occurs_at_def)


text \<open>
  A character no term character folds to cannot end a match: appending it to the text adds no
  match. Tk's final newline is such a character for a stripped term.
\<close>

lemma tk_fold_newline: "tk_fold b c = tk_fold b newline \<longleftrightarrow> c = newline"
  by (auto simp: tk_fold_def uni_lower_def)

lemma occurs_at_snoc:
  assumes "p \<noteq> []" and "f (last p) \<noteq> f x"
  shows "occurs_at f p (t @ [x]) j \<longleftrightarrow> occurs_at f p t j"
proof (cases "j + length p \<le> length t")
  case True
  then show ?thesis by (simp add: occurs_at_def)
next
  case False
  show ?thesis
  proof (cases "j + length p = Suc (length t)")
    case True
    moreover have "j \<le> length t" using True assms(1) by (cases p) auto
    ultimately have tk: "take (length p) (drop j (t @ [x])) = drop j t @ [x]" by simp
    have "map f (drop j t @ [x]) \<noteq> map f p"
    proof
      assume "map f (drop j t @ [x]) = map f p"
      then have "last (map f (drop j t @ [x])) = last (map f p)" by simp
      with assms show False by (simp add: last_map)
    qed
    then have "\<not> occurs_at f p (t @ [x]) j"
      unfolding occurs_at_def by (simp only: tk) simp
    moreover have "\<not> occurs_at f p t j"
      using \<open>\<not> j + length p \<le> length t\<close> by (simp add: occurs_at_def)
    ultimately show ?thesis by simp
  next
    case False
    with \<open>\<not> j + length p \<le> length t\<close> show ?thesis by (simp add: occurs_at_def)
  qed
qed

lemma matches_snoc:
  assumes "p \<noteq> []" and "f (last p) \<noteq> f x"
  shows "greedy_matches f p (t @ [x]) i = greedy_matches f p t i"
proof (induction "Suc (length t) - i" arbitrary: i rule: less_induct)
  case less
  show ?case
  proof (cases "length t \<le> i")
    case True
    then have "\<not> occurs_at f p (t @ [x]) i"
      using assms occurs_at_snoc [OF assms, of t i] by (simp add: occurs_at_def)
    with True show ?thesis
      using assms by (cases "Suc (length t) \<le> i") (simp_all add: greedy_steps)
  next
    case False
    have "Suc (length t) - (i + length p) < Suc (length t) - i" "Suc (length t) - Suc i < Suc (length t) - i"
      using False assms(1) by (cases p, simp_all)+
    then have "greedy_matches f p (t @ [x]) (i + length p) = greedy_matches f p t (i + length p)"
      "greedy_matches f p (t @ [x]) (Suc i) = greedy_matches f p t (Suc i)"
      using less by blast+
    then show ?thesis
      using False assms occurs_at_snoc [OF assms, of t i]
      by (cases "occurs_at f p t i") (simp_all add: greedy_steps)
  qed
qed

end
