(* ===== verification/Search.thy ===== *)
theory Search
  imports Matches Reporter
begin

text \<open>
  The search engine (\<open>src/operations/search_operations.py\<close>, the nested function
  \<open>perform_search\<close> of \<open>SearchOperations.open_search_window\<close>). The search window's state
  (entry text, the editor's \<open>case_sensitive\<close> variable, the result label) is the record
  \<open>search_window\<close>; the handler reads and writes the text widget and, on an exception, the
  error reporter. Its \<open>while True\<close> loop is \<open>search_loop\<close>, a
  \<^theory_text>\<open>partial_function (option)\<close>: \<open>None\<close> is a loop that never exits.
  The loop is proved to compute \<open>greedy_matches\<close> of theory \<open>Matches\<close>.
\<close>

datatype colour = Blue | Red

record search_window =
  entry_text :: ustr
  match_case :: bool
  result_text :: string
  result_fg :: colour

subsection \<open>The search loop\<close>

text \<open>
  Lines 79--91: \<open>pos = search(term, start, END[, nocase=True])\<close>; stop when it is empty;
  otherwise tag \<open>pos .. pos+len(term)\<close>, count it and continue from the end of the match.
\<close>

partial_function (option) search_loop ::
  "(nat \<Rightarrow> nat) \<Rightarrow> ustr \<Rightarrow> text_widget \<Rightarrow> nat \<Rightarrow> nat \<Rightarrow> (nat \<times> text_widget) option" where
  "search_loop f term w start count =
     (case tk_search f term (get_all w) start of
        None \<Rightarrow> Some (count, w)
      | Some pos \<Rightarrow>
          (let stop = pos + length term
           in search_loop f term (tag_add_found pos stop w) stop (Suc count)))"

subsection \<open>The handler\<close>

text \<open>
  The \<open>IndexError\<close> that \<open>tag_ranges("found")[0]\<close> raises on an empty tuple, caught by the
  handler's \<open>except Exception\<close>.
\<close>

definition index_error :: py_exc where
  "index_error = \<lparr>exc_type = py_str ''IndexError'', exc_msg = py_str ''tuple index out of range''\<rparr>"

text \<open>
  Lines 58--103. The result is \<open>None\<close> when the handler does not return.
  \<open>content = get(1.0, END)\<close> (line 68) is computed and never used; \<open>tag_config\<close> only
  sets colours; neither is modelled.
\<close>

definition perform_search ::
  "search_window \<Rightarrow> text_widget \<Rightarrow> reporter \<Rightarrow> (search_window \<times> text_widget \<times> reporter) option" where
  "perform_search sw w r =
     (let w1 = tag_remove_found w;
          term = py_strip (entry_text sw)
      in if term = [] then Some (sw\<lparr>result_text := ''Enter a search term'', result_fg := Red\<rparr>, w1, r)
         else
           (case search_loop (tk_fold (match_case sw)) term w1 0 0 of
              None \<Rightarrow> None
            | Some (count, w2) \<Rightarrow>
                if 0 < count then
                  (let sw2 = sw\<lparr>result_text := ''Found '' @ nat_str count @ '' match(es)''\<rparr>
                   in case tag_first (found w2) of
                        None \<Rightarrow> Some (sw2, w2, handle_error (py_str ''perform search'') index_error True r)
                      | Some first \<Rightarrow> Some (sw2, focus_set (see first w2), r))
                else Some (sw\<lparr>result_text := ''No matches found'', result_fg := Red\<rparr>, w2, r)))"

subsection \<open>Sample states\<close>

abbreviation demo_widget :: "ustr \<Rightarrow> text_widget" where
  "demo_widget s \<equiv> \<lparr>content = s, modified_flag = False, queue = [], found = [], sel = None,
                     insert_mark = 0, seen = None, has_focus = False, undo_stack = [], redo_stack = [],
                     undo_open = False, last_mode = None, clipboard = None\<rparr>"

abbreviation demo_window :: "ustr \<Rightarrow> bool \<Rightarrow> colour \<Rightarrow> search_window" where
  "demo_window e cs c \<equiv> \<lparr>entry_text = e, match_case = cs, result_text = [], result_fg = c\<rparr>"

lemmas search_eval = perform_search_def search_loop.simps tk_search.simps occurs_at_def get_all_def
  py_str_def tk_fold_def uni_lower_def py_strip_def py_lstrip_def py_rstrip_def py_isspace_def
  tag_remove_found_def tag_add_found_def tag_first_def see_def focus_set_def nat_str.simps Let_def

subsection \<open>The loop computes the reference specification\<close>

lemma search_loop_None:
  "tk_search f p (get_all w) i = None \<Longrightarrow> search_loop f p w i n = Some (n, w)"
  by (simp add: search_loop.simps [of f p w i n])

lemma search_loop_Some:
  "tk_search f p (get_all w) i = Some j \<Longrightarrow>
   search_loop f p w i n = search_loop f p (tag_add_found j (j + length p) w) (j + length p) (Suc n)"
  by (simp add: search_loop.simps [of f p w i n] Let_def)

lemma search_loop_cong:
  "search_loop f p w i n = search_loop f p w i' n"
  if "tk_search f p (get_all w) i = tk_search f p (get_all w) i'"
proof (cases "tk_search f p (get_all w) i'")
  case None
  with that show ?thesis by (simp add: search_loop_None)
next
  case (Some j)
  with that show ?thesis
    using search_loop_Some [of f p w i j n] search_loop_Some [of f p w i' j n] by simp
qed

abbreviation match_ranges :: "ustr \<Rightarrow> nat list \<Rightarrow> (nat \<times> nat) list" where
  "match_ranges p ms \<equiv> map (\<lambda>j. (j, j + length p)) ms"

lemma loop_computes:
  assumes "p \<noteq> []" and "get_all w = t"
  shows "search_loop f p w i n =
           Some (n + length (greedy_matches f p t i),
                 w\<lparr>found := found w @ match_ranges p (greedy_matches f p t i)\<rparr>)"
  using assms
proof (induction f p t i arbitrary: w n rule: greedy_matches.induct)
  case (1 f p t i)
  consider (stop) "length t \<le> i" | (hit) "\<not> length t \<le> i" "occurs_at f p t i"
    | (skip) "\<not> length t \<le> i" "\<not> occurs_at f p t i"
    by blast
  then show ?case
  proof cases
    case stop
    with "1.prems" show ?thesis
      by (simp add: greedy_stop tk_search_stop search_loop_None)
  next
    case hit
    let ?w' = "tag_add_found i (i + length p) w"
    from hit "1.prems" have "tk_search f p (get_all w) i = Some i"
      by (simp add: tk_search_hit)
    then have "search_loop f p w i n = search_loop f p ?w' (i + length p) (Suc n)"
      by (rule search_loop_Some)
    also from hit "1.prems" "1.IH"(1) [of ?w' "Suc n"]
    have "\<dots> = Some (Suc n + length (greedy_matches f p t (i + length p)),
                     ?w'\<lparr>found := found ?w' @ match_ranges p (greedy_matches f p t (i + length p))\<rparr>)"
      by simp
    finally show ?thesis
      using hit "1.prems" by (simp add: greedy_hit tag_add_found_def)
  next
    case skip
    with "1.prems" have "tk_search f p (get_all w) i = tk_search f p (get_all w) (Suc i)"
      by (simp add: tk_search_skip)
    then have "search_loop f p w i n = search_loop f p w (Suc i) n"
      by (rule search_loop_cong)
    with skip "1.prems" "1.IH"(2) [of w n] show ?thesis
      by (simp add: greedy_skip)
  qed
qed

subsection \<open>The first highlighted match\<close>

lemma tag_first_matches:
  assumes "p \<noteq> []" and "ms \<noteq> []" and "sorted_wrt (\<lambda>a b. a + length p \<le> b) ms"
  shows "tag_first (match_ranges p ms) = Some (hd ms)"
proof -
  obtain m ms' where ms: "ms = m # ms'"
    using assms(2) by (cases ms) auto
  have keep: "filter (\<lambda>(a, b). a < b) (match_ranges p ms) = match_ranges p ms"
    using assms(1) by (induction ms) auto
  have "\<forall>y \<in> set ms. m \<le> y"
    using assms(3) ms by auto
  then have "Min (set ms) = m"
    using ms by (intro Min_eqI) auto
  with keep ms show ?thesis
    by (simp add: tag_first_def comp_def)
qed

subsection \<open>The handler's outcomes\<close>

lemma search_blank:
  "py_strip (entry_text sw) = [] \<Longrightarrow>
   perform_search sw w r =
     Some (sw\<lparr>result_text := ''Enter a search term'', result_fg := Red\<rparr>, w\<lparr>found := []\<rparr>, r)"
  by (simp add: perform_search_def tag_remove_found_def)

abbreviation search_term_matches :: "search_window \<Rightarrow> text_widget \<Rightarrow> nat list" where
  "search_term_matches sw w \<equiv>
     greedy_matches (tk_fold (match_case sw)) (py_strip (entry_text sw)) (get_all w) 0"

definition search_outcome ::
  "search_window \<Rightarrow> text_widget \<Rightarrow> reporter \<Rightarrow> search_window \<times> text_widget \<times> reporter" where
  "search_outcome sw w r =
     (let p = py_strip (entry_text sw); ms = search_term_matches sw w in
      if ms = [] then (sw\<lparr>result_text := ''No matches found'', result_fg := Red\<rparr>, w\<lparr>found := []\<rparr>, r)
      else (sw\<lparr>result_text := ''Found '' @ nat_str (length ms) @ '' match(es)''\<rparr>,
            w\<lparr>found := match_ranges p ms, seen := Some (hd ms), has_focus := True\<rparr>, r))"

lemma search_nonblank:
  assumes "py_strip (entry_text sw) \<noteq> []"
  shows "perform_search sw w r = Some (search_outcome sw w r)"
proof -
  let ?p = "py_strip (entry_text sw)"
  let ?f = "tk_fold (match_case sw)"
  let ?ms = "search_term_matches sw w"
  have loop: "search_loop ?f ?p (tag_remove_found w) 0 0 =
                Some (length ?ms, w\<lparr>found := match_ranges ?p ?ms\<rparr>)"
    using loop_computes [OF assms, of "tag_remove_found w" "get_all w" ?f 0 0]
    by (simp add: tag_remove_found_def)
  show ?thesis
  proof (cases "?ms = []")
    case True
    with assms loop show ?thesis
      by (simp add: perform_search_def search_outcome_def)
  next
    case False
    have "tag_first (match_ranges ?p ?ms) = Some (hd ?ms)"
      using tag_first_matches [OF assms False matches_spaced] .
    with False assms loop show ?thesis
      by (simp add: perform_search_def search_outcome_def see_def focus_set_def Let_def)
  qed
qed

lemma search_outcome_text:
  "search_outcome sw w r = (sw', w', r') \<Longrightarrow>
   content w' = content w \<and> modified_flag w' = modified_flag w \<and> queue w' = queue w \<and> r' = r \<and>
   entry_text sw' = entry_text sw \<and> match_case sw' = match_case sw"
  by (auto simp: search_outcome_def Let_def split: if_splits)

lemma search_outcome_get_all:
  "search_outcome sw w r = (sw', w', r') \<Longrightarrow> get_all w' = get_all w"
  by (auto simp: search_outcome_def Let_def get_all_def split: if_splits)

lemma search_found:
  assumes "perform_search sw w r = Some (sw', w', r')"
  shows "found w' = match_ranges (py_strip (entry_text sw)) (search_term_matches sw w)"
proof (cases "py_strip (entry_text sw) = []")
  case True
  with assms show ?thesis by (auto simp: search_blank greedy_matches_Nil_pattern)
next
  case False
  with assms have "search_outcome sw w r = (sw', w', r')"
    by (simp add: search_nonblank)
  then show ?thesis
    by (auto simp: search_outcome_def Let_def split: if_splits)
qed

text \<open>
  The handler changes the widget only in the \<open>found\<close> tag, the index passed to \<open>see\<close>
  and the focus, and leaves the reporter, the term and the match-case setting alone.
\<close>

lemma perform_search_frame:
  assumes "perform_search sw w r = Some (sw', w', r')"
  shows "\<exists>F V H. w' = w\<lparr>found := F, seen := V, has_focus := H\<rparr> \<and> r' = r \<and>
           entry_text sw' = entry_text sw \<and> match_case sw' = match_case sw"
proof (cases "py_strip (entry_text sw) = []")
  case True
  with assms have "w' = w\<lparr>found := [], seen := seen w, has_focus := has_focus w\<rparr>"
      "r' = r" "entry_text sw' = entry_text sw" "match_case sw' = match_case sw"
    by (auto simp: search_blank)
  then show ?thesis by blast
next
  case False
  with assms have out: "search_outcome sw w r = (sw', w', r')"
    by (simp add: search_nonblank)
  show ?thesis
  proof (cases "search_term_matches sw w = []")
    case True
    with out have "w' = w\<lparr>found := [], seen := seen w, has_focus := has_focus w\<rparr>"
        "r' = r" "entry_text sw' = entry_text sw" "match_case sw' = match_case sw"
      by (auto simp: search_outcome_def Let_def)
    then show ?thesis by blast
  next
    case False
    with out show ?thesis
      by (auto simp: search_outcome_def Let_def)
  qed
qed

subsection \<open>Runs of the handler, evaluated\<close>

lemma demo_search_hello:
  "perform_search (demo_window (py_str '' hello '') False Blue) (demo_widget (py_str ''Hello world hello''))
     fresh_reporter =
   Some ((demo_window (py_str '' hello '') False Blue)\<lparr>result_text := ''Found 2 match(es)''\<rparr>,
         (demo_widget (py_str ''Hello world hello''))\<lparr>found := [(0, 5), (12, 17)], seen := Some 0,
                                                     has_focus := True\<rparr>,
         fresh_reporter)"
  by (simp add: search_eval)

lemma demo_search_case:
  "perform_search (demo_window (py_str ''hello'') True Blue) (demo_widget (py_str ''Hello world hello''))
     fresh_reporter =
   Some ((demo_window (py_str ''hello'') True Blue)\<lparr>result_text := ''Found 1 match(es)''\<rparr>,
         (demo_widget (py_str ''Hello world hello''))\<lparr>found := [(12, 17)], seen := Some 12,
                                                     has_focus := True\<rparr>,
         fresh_reporter)"
  by (simp add: search_eval)

lemma demo_search_nocase:
  "perform_search (demo_window (py_str ''hello'') False Blue) (demo_widget (py_str ''Hello world hello''))
     fresh_reporter =
   Some ((demo_window (py_str ''hello'') False Blue)\<lparr>result_text := ''Found 2 match(es)''\<rparr>,
         (demo_widget (py_str ''Hello world hello''))\<lparr>found := [(0, 5), (12, 17)], seen := Some 0,
                                                     has_focus := True\<rparr>,
         fresh_reporter)"
  by (simp add: search_eval)

lemma demo_search_red:
  "perform_search (demo_window (py_str ''hello'') True Red) (demo_widget (py_str ''hello'')) fresh_reporter =
   Some ((demo_window (py_str ''hello'') True Red)\<lparr>result_text := ''Found 1 match(es)''\<rparr>,
         (demo_widget (py_str ''hello''))\<lparr>found := [(0, 5)], seen := Some 0, has_focus := True\<rparr>,
         fresh_reporter)"
  by (simp add: search_eval)

subsection \<open>Properties of the search handler\<close>

text \<open>
  C1. For a term that is not blank after \<open>strip()\<close>, the handler returns, highlights exactly
  the leftmost non-overlapping occurrences of the stripped term in the widget's text (with
  Tk's final newline), reports their number, and scrolls to the first one; with no occurrence
  it reports "No matches found" in red and highlights nothing. No error is reported.
\<close>

theorem perform_search_result:
  assumes "py_strip (entry_text sw) = p" and "p \<noteq> []"
  shows "perform_search sw w r =
    (let ms = greedy_matches (tk_fold (match_case sw)) p (get_all w) 0 in
     if ms = [] then Some (sw\<lparr>result_text := ''No matches found'', result_fg := Red\<rparr>, w\<lparr>found := []\<rparr>, r)
     else Some (sw\<lparr>result_text := ''Found '' @ nat_str (length ms) @ '' match(es)''\<rparr>,
                w\<lparr>found := map (\<lambda>j. (j, j + length p)) ms, seen := Some (hd ms), has_focus := True\<rparr>, r))"
  using assms search_nonblank [of sw w r]
  by (simp add: search_outcome_def Let_def)

theorem perform_search_result_witness:
  "py_strip (entry_text (demo_window (py_str '' hello '') False Blue)) = py_str ''hello'' \<and>
   py_str ''hello'' \<noteq> [] \<and>
   perform_search (demo_window (py_str '' hello '') False Blue) (demo_widget (py_str ''Hello world hello''))
     fresh_reporter =
   Some ((demo_window (py_str '' hello '') False Blue)\<lparr>result_text := ''Found 2 match(es)''\<rparr>,
         (demo_widget (py_str ''Hello world hello''))\<lparr>found := [(0, 5), (12, 17)], seen := Some 0,
                                                     has_focus := True\<rparr>,
         fresh_reporter)"
proof -
  have h1: "py_strip (entry_text (demo_window (py_str '' hello '') False Blue)) = py_str ''hello''"
    by (simp add: py_str_def py_strip_def py_lstrip_def py_rstrip_def py_isspace_def)
  have h2: "py_str ''hello'' \<noteq> []"
    by (simp add: py_str_def)
  have ms: "greedy_matches (tk_fold False) (py_str ''hello'')
              (get_all (demo_widget (py_str ''Hello world hello''))) 0 = [0, 12]"
    by (simp add: greedy_matches.simps occurs_at_def get_all_def py_str_def tk_fold_def uni_lower_def)
  from perform_search_result [OF h1 h2] ms h1 h2 show ?thesis
    by (simp add: nat_str.simps py_str_def)
qed

text \<open>
  C2. The \<open>while True\<close> loop of the handler terminates for every non-empty term and computes
  the reference specification: its count is the number of greedy matches and it adds one
  \<open>found\<close> range per match, in order.
\<close>

theorem search_loop_refines_spec:
  assumes "p \<noteq> []"
  shows "search_loop f p w i n =
           Some (n + length (greedy_matches f p (get_all w) i),
                 w\<lparr>found := found w @ map (\<lambda>j. (j, j + length p)) (greedy_matches f p (get_all w) i)\<rparr>)"
  using loop_computes [OF assms refl] .

theorem search_loop_refines_spec_witness:
  "py_str ''ab'' \<noteq> [] \<and>
   search_loop id (py_str ''ab'') (demo_widget (py_str ''abab'')) 0 0 =
     Some (2, (demo_widget (py_str ''abab''))\<lparr>found := [(0, 2), (2, 4)]\<rparr>)"
proof -
  have h: "py_str ''ab'' \<noteq> []" by (simp add: py_str_def)
  have ms: "greedy_matches id (py_str ''ab'') (get_all (demo_widget (py_str ''abab''))) 0 = [0, 2]"
    by (simp add: greedy_matches.simps occurs_at_def get_all_def py_str_def)
  from search_loop_refines_spec [OF h, of id "demo_widget (py_str ''abab'')" 0 0] ms h show ?thesis
    by (simp add: py_str_def)
qed

text \<open>The search handler always returns: no input makes the scan loop forever.\<close>

theorem perform_search_returns: "\<exists>res. perform_search sw w r = Some res"
proof (cases "py_strip (entry_text sw) = []")
  case True
  then show ?thesis by (simp add: search_blank)
next
  case False
  then have "perform_search sw w r = Some (search_outcome sw w r)"
    by (rule search_nonblank)
  then show ?thesis by blast
qed

text \<open>
  C4. Every highlighted range is an occurrence of the stripped term in the widget's text (case
  folded when "Match case" is off), exactly as long as the term.
\<close>

theorem perform_search_highlights_occurrences:
  assumes "perform_search sw w r = Some (sw', w', r')" and "(a, b) \<in> set (found w')"
  shows "b = a + length (py_strip (entry_text sw)) \<and>
         occurs_at (tk_fold (match_case sw)) (py_strip (entry_text sw)) (get_all w) a"
  using assms search_found [OF assms(1)] matches_occur by fastforce

theorem perform_search_highlights_occurrences_witness:
  "perform_search (demo_window (py_str '' hello '') False Blue) (demo_widget (py_str ''Hello world hello''))
     fresh_reporter =
   Some ((demo_window (py_str '' hello '') False Blue)\<lparr>result_text := ''Found 2 match(es)''\<rparr>,
         (demo_widget (py_str ''Hello world hello''))\<lparr>found := [(0, 5), (12, 17)], seen := Some 0,
                                                     has_focus := True\<rparr>,
         fresh_reporter) \<and>
   (12, 17) \<in> set [(0::nat, 5::nat), (12, 17)] \<and>
   occurs_at uni_lower (py_str ''hello'') (get_all (demo_widget (py_str ''Hello world hello''))) 12"
proof -
  have h: "(12, 17) \<in> set (found ((demo_widget (py_str ''Hello world hello''))\<lparr>found := [(0, 5), (12, 17)],
             seen := Some 0, has_focus := True\<rparr>))"
    by simp
  from perform_search_highlights_occurrences [OF demo_search_hello h] demo_search_hello show ?thesis
    by (simp add: tk_fold_def py_strip_def py_lstrip_def py_rstrip_def py_isspace_def py_str_def)
qed

text \<open>
  C5. The highlighted ranges come in text order and do not overlap: each starts at or after the
  end of the one before.
\<close>

theorem perform_search_highlights_disjoint:
  assumes "perform_search sw w r = Some (sw', w', r')"
  shows "sorted_wrt (\<lambda>x y. snd x \<le> fst y) (found w')"
  using search_found [OF assms] matches_spaced by (simp add: sorted_wrt_map)

theorem perform_search_highlights_disjoint_witness:
  "perform_search (demo_window (py_str '' hello '') False Blue) (demo_widget (py_str ''Hello world hello''))
     fresh_reporter =
   Some ((demo_window (py_str '' hello '') False Blue)\<lparr>result_text := ''Found 2 match(es)''\<rparr>,
         (demo_widget (py_str ''Hello world hello''))\<lparr>found := [(0, 5), (12, 17)], seen := Some 0,
                                                     has_focus := True\<rparr>,
         fresh_reporter) \<and>
   sorted_wrt (\<lambda>x y. snd x \<le> fst y) [(0::nat, 5::nat), (12, 17)]"
  using perform_search_highlights_disjoint [OF demo_search_hello] demo_search_hello by simp

text \<open>
  C6. No occurrence is passed over: for a non-blank term, every occurrence in the text lies
  inside a highlighted range (it is one, or it overlaps one that starts before it).
\<close>

theorem perform_search_misses_no_occurrence:
  assumes "perform_search sw w r = Some (sw', w', r')" and "py_strip (entry_text sw) \<noteq> []"
    and "occurs_at (tk_fold (match_case sw)) (py_strip (entry_text sw)) (get_all w) k"
  shows "\<exists>(a, b) \<in> set (found w'). a \<le> k \<and> k < b"
proof -
  obtain j where "j \<in> set (search_term_matches sw w)" "j \<le> k"
      "k < j + length (py_strip (entry_text sw))"
    using matches_cover [OF assms(2,3), of 0] by blast
  with search_found [OF assms(1)] show ?thesis
    by force
qed

theorem perform_search_misses_no_occurrence_witness:
  "perform_search (demo_window (py_str ''aa'') True Blue) (demo_widget (py_str ''aaa'')) fresh_reporter =
   Some ((demo_window (py_str ''aa'') True Blue)\<lparr>result_text := ''Found 1 match(es)''\<rparr>,
         (demo_widget (py_str ''aaa''))\<lparr>found := [(0, 2)], seen := Some 0, has_focus := True\<rparr>,
         fresh_reporter) \<and>
   py_strip (py_str ''aa'') \<noteq> [] \<and>
   occurs_at id (py_str ''aa'') (get_all (demo_widget (py_str ''aaa''))) 1 \<and>
   (\<exists>(a, b) \<in> set [(0::nat, 2::nat)]. a \<le> 1 \<and> 1 < b)"
proof -
  have run: "perform_search (demo_window (py_str ''aa'') True Blue) (demo_widget (py_str ''aaa''))
      fresh_reporter =
    Some ((demo_window (py_str ''aa'') True Blue)\<lparr>result_text := ''Found 1 match(es)''\<rparr>,
          (demo_widget (py_str ''aaa''))\<lparr>found := [(0, 2)], seen := Some 0, has_focus := True\<rparr>,
          fresh_reporter)"
    by (simp add: search_eval)
  have h2: "py_strip (entry_text (demo_window (py_str ''aa'') True Blue)) \<noteq> []"
    by (simp add: py_str_def py_strip_def py_lstrip_def py_rstrip_def py_isspace_def)
  have h3: "occurs_at (tk_fold (match_case (demo_window (py_str ''aa'') True Blue)))
      (py_strip (entry_text (demo_window (py_str ''aa'') True Blue)))
      (get_all (demo_widget (py_str ''aaa''))) 1"
    by (simp add: occurs_at_def get_all_def py_str_def tk_fold_def py_strip_def py_lstrip_def
        py_rstrip_def py_isspace_def)
  from perform_search_misses_no_occurrence [OF run h2 h3] run h2 h3 show ?thesis
    by (simp add: tk_fold_def py_strip_def py_lstrip_def py_rstrip_def py_isspace_def py_str_def)
qed

text \<open>
  C7. The count is the largest possible: no list of non-overlapping occurrences of the term is
  longer than the list of highlighted ranges, whose length the label reports.
\<close>

theorem perform_search_count_maximal:
  assumes "perform_search sw w r = Some (sw', w', r')" and "py_strip (entry_text sw) \<noteq> []"
    and "sorted_wrt (\<lambda>a b. a + length (py_strip (entry_text sw)) \<le> b) js"
    and "\<forall>j \<in> set js. occurs_at (tk_fold (match_case sw)) (py_strip (entry_text sw)) (get_all w) j"
  shows "length js \<le> length (found w')"
  using matches_max [OF assms(2,3), of 0] assms(4) search_found [OF assms(1)] by simp

theorem perform_search_count_maximal_witness:
  "perform_search (demo_window (py_str '' hello '') False Blue) (demo_widget (py_str ''Hello world hello''))
     fresh_reporter =
   Some ((demo_window (py_str '' hello '') False Blue)\<lparr>result_text := ''Found 2 match(es)''\<rparr>,
         (demo_widget (py_str ''Hello world hello''))\<lparr>found := [(0, 5), (12, 17)], seen := Some 0,
                                                     has_focus := True\<rparr>,
         fresh_reporter) \<and>
   py_strip (py_str '' hello '') \<noteq> [] \<and>
   sorted_wrt (\<lambda>a b. a + length (py_strip (py_str '' hello '')) \<le> b) [0::nat, 12] \<and>
   occurs_at uni_lower (py_strip (py_str '' hello '')) (get_all (demo_widget (py_str ''Hello world hello''))) 0 \<and>
   occurs_at uni_lower (py_strip (py_str '' hello '')) (get_all (demo_widget (py_str ''Hello world hello''))) 12 \<and>
   length [0::nat, 12] \<le> length [(0::nat, 5::nat), (12, 17)]"
proof -
  have strip: "py_strip (py_str '' hello '') = py_str ''hello''"
    by (simp add: py_str_def py_strip_def py_lstrip_def py_rstrip_def py_isspace_def)
  have h2: "py_strip (entry_text (demo_window (py_str '' hello '') False Blue)) \<noteq> []"
    using strip by (simp add: py_str_def)
  have h3: "sorted_wrt (\<lambda>a b. a + length (py_strip (entry_text (demo_window (py_str '' hello '') False Blue))) \<le> b)
      [0::nat, 12]"
    using strip by (simp add: py_str_def)
  have h4: "\<forall>j \<in> set [0, 12]. occurs_at (tk_fold (match_case (demo_window (py_str '' hello '') False Blue)))
      (py_strip (entry_text (demo_window (py_str '' hello '') False Blue)))
      (get_all (demo_widget (py_str ''Hello world hello''))) j"
    using strip by (simp add: occurs_at_def get_all_def py_str_def tk_fold_def uni_lower_def)
  from perform_search_count_maximal [OF demo_search_hello h2 h3 h4] demo_search_hello h2 h3 h4 strip
  show ?thesis
    by (simp add: tk_fold_def)
qed

text \<open>
  C8. Clearing "Match case" never lowers the count: on the same text and term the
  case-insensitive search highlights at least as many ranges as the case-sensitive one.
\<close>

theorem nocase_finds_at_least_as_many:
  assumes "perform_search (sw\<lparr>match_case := True\<rparr>) w r = Some (s1, w1, r1)"
    and "perform_search (sw\<lparr>match_case := False\<rparr>) w r = Some (s2, w2, r2)"
  shows "length (found w1) \<le> length (found w2)"
  using search_found [OF assms(1)] search_found [OF assms(2)] matches_nocase_ge by simp

theorem nocase_finds_at_least_as_many_witness:
  "perform_search ((demo_window (py_str ''hello'') False Blue)\<lparr>match_case := True\<rparr>)
     (demo_widget (py_str ''Hello world hello'')) fresh_reporter =
   Some ((demo_window (py_str ''hello'') True Blue)\<lparr>result_text := ''Found 1 match(es)''\<rparr>,
         (demo_widget (py_str ''Hello world hello''))\<lparr>found := [(12, 17)], seen := Some 12,
                                                     has_focus := True\<rparr>,
         fresh_reporter) \<and>
   perform_search ((demo_window (py_str ''hello'') False Blue)\<lparr>match_case := False\<rparr>)
     (demo_widget (py_str ''Hello world hello'')) fresh_reporter =
   Some ((demo_window (py_str ''hello'') False Blue)\<lparr>result_text := ''Found 2 match(es)''\<rparr>,
         (demo_widget (py_str ''Hello world hello''))\<lparr>found := [(0, 5), (12, 17)], seen := Some 0,
                                                     has_focus := True\<rparr>,
         fresh_reporter) \<and>
   length [(12::nat, 17::nat)] \<le> length [(0::nat, 5::nat), (12, 17)]"
proof -
  have h1: "perform_search ((demo_window (py_str ''hello'') False Blue)\<lparr>match_case := True\<rparr>)
     (demo_widget (py_str ''Hello world hello'')) fresh_reporter =
   Some ((demo_window (py_str ''hello'') True Blue)\<lparr>result_text := ''Found 1 match(es)''\<rparr>,
         (demo_widget (py_str ''Hello world hello''))\<lparr>found := [(12, 17)], seen := Some 12,
                                                     has_focus := True\<rparr>,
         fresh_reporter)"
    using demo_search_case by simp
  have h2: "perform_search ((demo_window (py_str ''hello'') False Blue)\<lparr>match_case := False\<rparr>)
     (demo_widget (py_str ''Hello world hello'')) fresh_reporter =
   Some ((demo_window (py_str ''hello'') False Blue)\<lparr>result_text := ''Found 2 match(es)''\<rparr>,
         (demo_widget (py_str ''Hello world hello''))\<lparr>found := [(0, 5), (12, 17)], seen := Some 0,
                                                     has_focus := True\<rparr>,
         fresh_reporter)"
    using demo_search_nocase by simp
  from nocase_finds_at_least_as_many [OF h1 h2] h1 h2 show ?thesis by simp
qed

text \<open>
  C9. A term that is empty or consists of whitespace only is rejected without scanning: the
  label asks for a term, in red, and the previous highlighting is removed.
\<close>

theorem perform_search_blank_term:
  assumes "\<forall>c \<in> set (entry_text sw). py_isspace c"
  shows "perform_search sw w r =
           Some (sw\<lparr>result_text := ''Enter a search term'', result_fg := Red\<rparr>, w\<lparr>found := []\<rparr>, r)"
  using assms by (simp add: py_strip_empty_iff search_blank)

theorem perform_search_blank_term_witness:
  "entry_text (demo_window (py_str ''  '') True Blue) = [32, 32] \<and> py_isspace 32 \<and>
   perform_search (demo_window (py_str ''  '') True Blue) (demo_widget (py_str ''text'')) fresh_reporter =
     Some ((demo_window (py_str ''  '') True Blue)\<lparr>result_text := ''Enter a search term'', result_fg := Red\<rparr>,
           demo_widget (py_str ''text''), fresh_reporter)"
proof -
  have h: "\<forall>c \<in> set (entry_text (demo_window (py_str ''  '') True Blue)). py_isspace c"
    by (simp add: py_str_def py_isspace_def)
  from perform_search_blank_term [OF h] show ?thesis by (simp add: py_str_def py_isspace_def)
qed

text \<open>
  C10. Searching never changes the document: the text, Tk's modified flag, the pending events,
  the reporter, the term and the match-case setting are as before.
\<close>

theorem perform_search_keeps_document:
  assumes "perform_search sw w r = Some (sw', w', r')"
  shows "content w' = content w \<and> modified_flag w' = modified_flag w \<and> queue w' = queue w \<and>
         r' = r \<and> entry_text sw' = entry_text sw \<and> match_case sw' = match_case sw"
  using perform_search_frame [OF assms] by auto

theorem perform_search_keeps_document_witness:
  "perform_search (demo_window (py_str '' hello '') False Blue) (demo_widget (py_str ''Hello world hello''))
     fresh_reporter =
   Some ((demo_window (py_str '' hello '') False Blue)\<lparr>result_text := ''Found 2 match(es)''\<rparr>,
         (demo_widget (py_str ''Hello world hello''))\<lparr>found := [(0, 5), (12, 17)], seen := Some 0,
                                                     has_focus := True\<rparr>,
         fresh_reporter) \<and>
   content ((demo_widget (py_str ''Hello world hello''))\<lparr>found := [(0, 5), (12, 17)], seen := Some 0,
                                                     has_focus := True\<rparr>) = py_str ''Hello world hello''"
  using perform_search_keeps_document [OF demo_search_hello] demo_search_hello by simp

text \<open>
  C11. Searching is idempotent: pressing "Search" again on the unchanged window and text leaves
  everything as the first press left it.
\<close>

theorem perform_search_idempotent:
  assumes "perform_search sw w r = Some (sw', w', r')"
  shows "perform_search sw' w' r' = Some (sw', w', r')"
proof (cases "py_strip (entry_text sw) = []")
  case True
  with assms show ?thesis by (auto simp: search_blank)
next
  case False
  with assms have out: "search_outcome sw w r = (sw', w', r')"
    by (simp add: search_nonblank)
  from out have same: "entry_text sw' = entry_text sw" "match_case sw' = match_case sw"
      "get_all w' = get_all w"
    using search_outcome_text search_outcome_get_all by blast+
  with False have "perform_search sw' w' r' = Some (search_outcome sw' w' r')"
    by (simp add: search_nonblank)
  also from out same have "search_outcome sw' w' r' = (sw', w', r')"
    by (auto simp: search_outcome_def Let_def split: if_splits)
  finally show ?thesis .
qed

theorem perform_search_idempotent_witness:
  "perform_search (demo_window (py_str '' hello '') False Blue) (demo_widget (py_str ''Hello world hello''))
     fresh_reporter =
   Some ((demo_window (py_str '' hello '') False Blue)\<lparr>result_text := ''Found 2 match(es)''\<rparr>,
         (demo_widget (py_str ''Hello world hello''))\<lparr>found := [(0, 5), (12, 17)], seen := Some 0,
                                                     has_focus := True\<rparr>,
         fresh_reporter) \<and>
   perform_search ((demo_window (py_str '' hello '') False Blue)\<lparr>result_text := ''Found 2 match(es)''\<rparr>)
     ((demo_widget (py_str ''Hello world hello''))\<lparr>found := [(0, 5), (12, 17)], seen := Some 0,
                                                  has_focus := True\<rparr>)
     fresh_reporter =
   Some ((demo_window (py_str '' hello '') False Blue)\<lparr>result_text := ''Found 2 match(es)''\<rparr>,
         (demo_widget (py_str ''Hello world hello''))\<lparr>found := [(0, 5), (12, 17)], seen := Some 0,
                                                     has_focus := True\<rparr>,
         fresh_reporter)"
  using perform_search_idempotent [OF demo_search_hello] demo_search_hello by simp

text \<open>
  C12. After a search that found matches, the result label keeps the colour it had: the
  handler sets the text "Found n match(es)" but not the colour, so after an earlier failed
  search the success message is shown in red.
\<close>

theorem found_label_keeps_colour:
  assumes "perform_search sw w r = Some (sw', w', r')"
    and "search_term_matches sw w \<noteq> []"
  shows "result_fg sw' = result_fg sw \<and>
         result_text sw' = ''Found '' @ nat_str (length (search_term_matches sw w)) @ '' match(es)''"
proof -
  have "py_strip (entry_text sw) \<noteq> []"
    using assms(2) by (auto simp: greedy_matches_Nil_pattern)
  with assms show ?thesis
    by (auto simp: search_nonblank search_outcome_def Let_def)
qed

theorem found_label_keeps_colour_witness:
  "perform_search (demo_window (py_str ''hello'') True Red) (demo_widget (py_str ''hello'')) fresh_reporter =
   Some ((demo_window (py_str ''hello'') True Red)\<lparr>result_text := ''Found 1 match(es)''\<rparr>,
         (demo_widget (py_str ''hello''))\<lparr>found := [(0, 5)], seen := Some 0, has_focus := True\<rparr>,
         fresh_reporter) \<and>
   search_term_matches (demo_window (py_str ''hello'') True Red) (demo_widget (py_str ''hello'')) = [0] \<and>
   result_fg ((demo_window (py_str ''hello'') True Red)\<lparr>result_text := ''Found 1 match(es)''\<rparr>) = Red"
proof -
  have ms: "search_term_matches (demo_window (py_str ''hello'') True Red) (demo_widget (py_str ''hello'')) = [0]"
    by (simp add: greedy_matches.simps occurs_at_def get_all_def py_str_def tk_fold_def
        py_strip_def py_lstrip_def py_rstrip_def py_isspace_def)
  then have "search_term_matches (demo_window (py_str ''hello'') True Red) (demo_widget (py_str ''hello'')) \<noteq> []"
    by simp
  from found_label_keeps_colour [OF demo_search_red this] demo_search_red ms show ?thesis
    by simp
qed

text \<open>
  The specification's example: on the text "Hello world hello" the term "hello" is found
  twice (at offsets 0 and 12) when "Match case" is off, and once (at 12) when it is on.
\<close>

theorem spec_example_hello:
  "perform_search (demo_window (py_str ''hello'') False Blue) (demo_widget (py_str ''Hello world hello''))
     fresh_reporter =
   Some ((demo_window (py_str ''hello'') False Blue)\<lparr>result_text := ''Found 2 match(es)''\<rparr>,
         (demo_widget (py_str ''Hello world hello''))\<lparr>found := [(0, 5), (12, 17)], seen := Some 0,
                                                     has_focus := True\<rparr>,
         fresh_reporter) \<and>
   perform_search (demo_window (py_str ''hello'') True Blue) (demo_widget (py_str ''Hello world hello''))
     fresh_reporter =
   Some ((demo_window (py_str ''hello'') True Blue)\<lparr>result_text := ''Found 1 match(es)''\<rparr>,
         (demo_widget (py_str ''Hello world hello''))\<lparr>found := [(12, 17)], seen := Some 12,
                                                     has_focus := True\<rparr>,
         fresh_reporter)"
  using demo_search_case demo_search_nocase by simp

end
