(* ===== verification/Editor.thy ===== *)
theory Editor
  imports FileSys Search
begin

text \<open>
  The application object \<open>TextEditor\<close> (\<open>src/text_editor.py\<close>) as a record: its text
  widget, the document state (\<open>current_file\<close>, \<open>is_modified\<close>, \<open>current_encoding\<close>),
  the window title and the status bar text, together with the outside world the handlers touch:
  the file system, the error reporter (log and message boxes), the answers the user will give
  to the dialogs the handlers open (consumed in order), whether the main loop still runs, the
  search window (\<open>self.search_window\<close>, \<open>None\<close> when there is none) with the
  \<open>case_sensitive\<close> variable its checkbox shows, and the URLs handed to the web browser.
  This theory holds the handlers of \<open>text_editor.py\<close> that do not open files:
  \<open>__init__\<close>, \<open>mark_as_modified\<close>, \<open>update_status_bar\<close>, the typing of a key, and the
  main loop's delivery of the \<open><<Modified>>\<close> events the widget queued.
\<close>

datatype answer = Yes | No | Cancel | Chosen path

record editor =
  widget :: text_widget
  current_file :: "path option"
  is_modified :: bool
  current_encoding :: string
  title :: ustr
  status :: ustr
  fs :: fsys
  rep :: reporter
  answers :: "answer list"
  running :: bool
  search_win :: "search_window option"
  case_sensitive :: bool
  browser :: "ustr list"

text \<open>\<open>create_status_bar\<close> (lines 85--92): the label's first text.\<close>

definition create_status_bar :: ustr where
  "create_status_bar = py_str ''Ready | Line: 1, Column: 1''"

text \<open>\<open>TextEditor.__init__\<close> (lines 25--61), after \<open>setup_logging\<close> has configured \<open>r\<close>.\<close>

definition init_editor :: "fsys \<Rightarrow> reporter \<Rightarrow> editor" where
  "init_editor f r =
     \<lparr>widget = empty_widget, current_file = None, is_modified = False, current_encoding = ''utf-8'',
      title = py_str ''Text Editor - Untitled'', status = create_status_bar,
      fs = f, rep = log_emit INFO (py_str ''Text editor initialized successfully'') r,
      answers = [], running = True, search_win = None, case_sensitive = False, browser = []\<rparr>"

subsection \<open>Dialogs\<close>

text \<open>
  A modal dialog is recorded in the reporter's list of dialogs and returns the user's next
  answer. Closing a question box counts as cancel (\<open>askyesnocancel\<close> returns \<open>None\<close>,
  \<open>askyesno\<close> returns \<open>False\<close>); closing a file dialog returns the empty string.
\<close>

definition next_answer :: "editor \<Rightarrow> answer option \<times> editor" where
  "next_answer s = (case answers s of [] \<Rightarrow> (None, s) | a # rest \<Rightarrow> (Some a, s\<lparr>answers := rest\<rparr>))"

definition ask_yes_no_cancel :: "ustr \<Rightarrow> ustr \<Rightarrow> editor \<Rightarrow> bool option \<times> editor" where
  "ask_yes_no_cancel t m s =
     (let (a, s1) = next_answer (s\<lparr>rep := show_box BoxQuestion t m (rep s)\<rparr>)
      in (case a of Some Yes \<Rightarrow> Some True | Some No \<Rightarrow> Some False | _ \<Rightarrow> None, s1))"

definition ask_yes_no :: "ustr \<Rightarrow> ustr \<Rightarrow> editor \<Rightarrow> bool \<times> editor" where
  "ask_yes_no t m s =
     (let (a, s1) = next_answer (s\<lparr>rep := show_box BoxQuestion t m (rep s)\<rparr>)
      in (a = Some Yes, s1))"

definition ask_filename :: "ustr \<Rightarrow> editor \<Rightarrow> path \<times> editor" where
  "ask_filename t s =
     (let (a, s1) = next_answer (s\<lparr>rep := show_box BoxFileDialog t [] (rep s)\<rparr>)
      in (case a of Some (Chosen p) \<Rightarrow> p | _ \<Rightarrow> [], s1))"

subsection \<open>The modified flag\<close>

text \<open>\<open>mark_as_modified\<close> (lines 94--104), bound to \<open><<Modified>>\<close>. The asterisk is code point 42.\<close>

definition mark_as_modified :: "editor \<Rightarrow> editor" where
  "mark_as_modified s =
     (if modified_flag (widget s) then
        s\<lparr>is_modified := True,
          title := (if starts_with (title s) [42] then title s else 42 # title s),
          widget := edit_modified_set False (widget s)\<rparr>
      else s)"

text \<open>
  The main loop hands each queued \<open><<Modified>>\<close> event to \<open>mark_as_modified\<close>, in order,
  until the queue is empty; handling one event may queue another (resetting the flag with
  \<open>edit_modified(False)\<close> is itself a change of the flag). Each round lowers
  \<open>2 * (queued events) + (flag set)\<close>.
\<close>

function run_pending :: "editor \<Rightarrow> editor" where
  "run_pending s =
     (case queue (widget s) of
        [] \<Rightarrow> s
      | ev # q \<Rightarrow> run_pending (mark_as_modified (s\<lparr>widget := (widget s)\<lparr>queue := q\<rparr>\<rparr>)))"
  by pat_completeness auto
termination
proof (relation "measure (\<lambda>s. 2 * length (queue (widget s)) + (if modified_flag (widget s) then 1 else 0))")
  fix s :: editor and ev q
  assume "queue (widget s) = ev # q"
  then show "(mark_as_modified (s\<lparr>widget := (widget s)\<lparr>queue := q\<rparr>\<rparr>), s)
    \<in> measure (\<lambda>s. 2 * length (queue (widget s)) + (if modified_flag (widget s) then 1 else 0))"
    by (auto simp: mark_as_modified_def edit_modified_set_def)
qed simp

declare run_pending.simps [simp del]

text \<open>Delivering the events touches only the flag, the queue, the title and \<open>is_modified\<close>.\<close>

lemma run_pending_frame:
  "running (run_pending s) = running s \<and> fs (run_pending s) = fs s \<and>
   current_file (run_pending s) = current_file s \<and> content (widget (run_pending s)) = content (widget s) \<and>
   undo_stack (widget (run_pending s)) = undo_stack (widget s) \<and>
   redo_stack (widget (run_pending s)) = redo_stack (widget s) \<and>
   insert_mark (widget (run_pending s)) = insert_mark (widget s) \<and>
   found (widget (run_pending s)) = found (widget s) \<and> search_win (run_pending s) = search_win s"
proof (induction s rule: run_pending.induct)
  case (1 s)
  then show ?case
    by (cases "queue (widget s)")
       (simp_all add: run_pending.simps [of s] mark_as_modified_def edit_modified_set_def)
qed

subsection \<open>The status bar and typing\<close>

text \<open>The insertion cursor as Tk's \<open>"line.column"\<close>: lines from 1, columns from 0.\<close>

definition cursor_line :: "ustr \<Rightarrow> nat \<Rightarrow> nat" where
  "cursor_line c i = Suc (count_list (take i c) newline)"

definition cursor_column :: "ustr \<Rightarrow> nat \<Rightarrow> nat" where
  "cursor_column c i = length (takeWhile (\<lambda>x. x \<noteq> newline) (rev (take i c)))"

text \<open>\<open>update_status_bar\<close> (lines 106--113), bound to \<open><KeyPress>\<close>.\<close>

definition update_status_bar :: "editor \<Rightarrow> editor" where
  "update_status_bar s =
     (let c = content (widget s); i = insert_mark (widget s)
      in s\<lparr>status := py_str ''Ready | Line: '' @ py_str (nat_str (cursor_line c i)) @
                     py_str '', Column: '' @ py_str (nat_str (Suc (cursor_column c i)))\<rparr>)"

text \<open>
  A printable key typed into the text: Tk runs the widget's own \<open><KeyPress>\<close> binding
  (\<open>update_status_bar\<close>) before the class binding that inserts the character
  (\<open>type_char\<close>).
\<close>

definition key_press :: "nat \<Rightarrow> editor \<Rightarrow> editor" where
  "key_press ch s = (let s1 = update_status_bar s in s1\<lparr>widget := type_char ch (widget s1)\<rparr>)"

end
