(* ===== verification/FileOps.thy ===== *)
theory FileOps
  imports Editor
begin

text \<open>
  The file operations (\<open>src/operations/file_operations.py\<close>, class \<open>FileOperations\<close>):
  \<open>save_file_as\<close>, \<open>save_file\<close>, \<open>verify_unsaved_changes\<close>, \<open>new_file\<close>, \<open>open_file\<close>
  with its loop over the candidate encodings, and \<open>change_encoding\<close>. Each handler takes the
  editor record and returns it changed; those that return a value in Python return a pair.
  Every \<open>except\<close> of the source is a branch: \<open>PermissionError\<close> and other exceptions of
  the file primitives come back from \<open>FileSys\<close> as values. The \<open>try\<close> blocks around pure
  toolkit calls (\<open>new_file\<close>'s) catch nothing in this model, since those calls cannot fail
  here.
\<close>

abbreviation editor_title :: "path \<Rightarrow> ustr" where
  "editor_title p \<equiv> py_str ''Text Editor - '' @ py_basename p"

abbreviation enc_title :: "path \<Rightarrow> string \<Rightarrow> ustr" where
  "enc_title p enc \<equiv> editor_title p @ py_str '' ['' @ py_str enc @ py_str '']''"

text \<open>Python's truth value of \<open>self.editor.current_file\<close> (\<open>None\<close> and \<open>""\<close> are false).\<close>

definition has_file :: "path option \<Rightarrow> bool" where
  "has_file f = (case f of None \<Rightarrow> False | Some p \<Rightarrow> p \<noteq> [])"

subsection \<open>Saving\<close>

text \<open>\<open>save_file_as\<close> (lines 157--193).\<close>

definition save_file_as :: "editor \<Rightarrow> bool \<times> editor" where
  "save_file_as s =
     (let (p, s1) = ask_filename (py_str ''Save As'') s
      in if p = [] then (False, s1)
         else
           (case write_text (fs s1) p (current_encoding s1) (get_all (widget s1)) of
              (Some e, fs') \<Rightarrow>
                (False, s1\<lparr>fs := fs', rep := handle_error (py_str ''save as'') (io_exc e p) True (rep s1)\<rparr>)
            | (None, fs') \<Rightarrow>
                (True, s1\<lparr>fs := fs', current_file := Some p, is_modified := False,
                          title := editor_title p, status := py_str ''Saved as: '' @ p,
                          rep := log_emit INFO (py_str ''File saved as: '' @ p) (rep s1)\<rparr>)))"

text \<open>The backup step of \<open>save_file\<close> (lines 127--133).\<close>

definition make_backup :: "path \<Rightarrow> editor \<Rightarrow> editor" where
  "make_backup p s =
     (if os_path_exists (fs s) p then
        (case copy2 (fs s) p (p @ py_str ''.bak'') of
           Inl e \<Rightarrow> s\<lparr>rep := log_emit WARNING (py_str ''Could not create backup: '' @ exc_msg (io_exc e p)) (rep s)\<rparr>
         | Inr fs' \<Rightarrow> s\<lparr>fs := fs'\<rparr>)
      else s)"

definition permission_box :: "reporter \<Rightarrow> reporter" where
  "permission_box r =
     show_box BoxError (py_str ''Permission Error'')
       (py_str ''You don't have permissions to save in this location.'' @ [10] @
        py_str ''Try saving in another folder or with a different name.'') r"

text \<open>\<open>save_file\<close> (lines 113--155). The content is read before the backup is made.\<close>

definition save_file :: "editor \<Rightarrow> bool \<times> editor" where
  "save_file s =
     (case current_file s of
        None \<Rightarrow> save_file_as s
      | Some p \<Rightarrow>
          (let content = get_all (widget s); s1 = make_backup p s
           in case write_text (fs s1) p (current_encoding s1) content of
                (Some PermissionError, fs') \<Rightarrow> (False, s1\<lparr>fs := fs', rep := permission_box (rep s1)\<rparr>)
              | (Some e, fs') \<Rightarrow>
                  (False, s1\<lparr>fs := fs', rep := handle_error (py_str ''save file'') (io_exc e p) True (rep s1)\<rparr>)
              | (None, fs') \<Rightarrow>
                  (True, s1\<lparr>fs := fs', is_modified := False,
                            title := (if starts_with (title s1) [42] then py_slice1 (title s1) else title s1),
                            status := py_str ''Saved: '' @ p,
                            rep := log_emit INFO (py_str ''File saved: '' @ p) (rep s1)\<rparr>)))"

subsection \<open>The unsaved-changes prompt\<close>

text \<open>\<open>verify_unsaved_changes\<close> (lines 40--59): \<open>True\<close> when it is safe to go on.\<close>

definition verify_unsaved_changes :: "ustr \<Rightarrow> editor \<Rightarrow> bool \<times> editor" where
  "verify_unsaved_changes operation s =
     (if is_modified s then
        (let (r, s1) = ask_yes_no_cancel (py_str ''Unsaved Changes'')
                         (py_str ''Do you want to save changes before '' @ operation @ py_str ''?'') s
         in case r of None \<Rightarrow> (False, s1) | Some True \<Rightarrow> save_file s1 | Some False \<Rightarrow> (True, s1))
      else (True, s))"

subsection \<open>New, open, change of encoding\<close>

text \<open>\<open>new_file\<close> (lines 25--38).\<close>

definition new_file :: "editor \<Rightarrow> editor" where
  "new_file s =
     (let (ok, s1) = verify_unsaved_changes (py_str ''create a new file'') s
      in if \<not> ok then s1
         else s1\<lparr>widget := delete_all (widget s1), current_file := None, is_modified := False,
                 title := py_str ''Text Editor - Untitled'', status := py_str ''New file created'',
                 rep := log_emit INFO (py_str ''New file created'') (rep s1)\<rparr>)"

text \<open>The candidate encodings of \<open>open_file\<close>, in the order they are tried (line 81).\<close>

definition open_encodings :: "string list" where
  "open_encodings = [''utf-8'', ''latin-1'', ''utf-16'', ''cp1252'']"

definition encoding_error_box :: "reporter \<Rightarrow> reporter" where
  "encoding_error_box r =
     show_box BoxError (py_str ''Encoding Error'')
       (py_str ''Could not read the file with common encodings.'' @ [10] @
        py_str ''The file might be corrupted or use an unsupported encoding.'') r"

text \<open>The body of the loop once \<open>f.read()\<close> has succeeded (lines 88--96).\<close>

definition load_file :: "path \<Rightarrow> string \<Rightarrow> ustr \<Rightarrow> editor \<Rightarrow> editor" where
  "load_file p enc text s =
     s\<lparr>widget := insert_text 0 text (delete_all (widget s)), current_file := Some p,
       is_modified := False, current_encoding := enc, title := enc_title p enc,
       status := py_str ''File opened: '' @ p @ py_str '' ('' @ py_str enc @ py_str '')'',
       rep := log_emit INFO (py_str ''File opened: '' @ p @ py_str '' with encoding '' @ py_str enc)
                (rep s)\<rparr>"

text \<open>
  The \<open>for encoding in encodings\<close> loop of \<open>open_file\<close> (lines 83--111): a decoding error
  moves to the next encoding, any other error is reported and ends the handler, success loads
  the text; after the last encoding the encoding error box is shown.
\<close>

fun open_with :: "path \<Rightarrow> string list \<Rightarrow> editor \<Rightarrow> editor" where
  "open_with p [] s = s\<lparr>rep := encoding_error_box (rep s)\<rparr>"
| "open_with p (enc # encs) s =
     (case read_text (fs s) p enc of
        Inl (CodecError UnicodeDecodeError) \<Rightarrow> open_with p encs s
      | Inl e \<Rightarrow>
          s\<lparr>rep := handle_error (py_str ''open file '' @ p @ py_str '' with encoding '' @ py_str enc)
                      (io_exc e p) True (rep s)\<rparr>
      | Inr text \<Rightarrow> load_file p enc text s)"

text \<open>\<open>open_file\<close> (lines 61--111).\<close>

definition open_file :: "editor \<Rightarrow> editor" where
  "open_file s =
     (let (ok, s1) = verify_unsaved_changes (py_str ''opening another file'') s
      in if \<not> ok then s1
         else (let (p, s2) = ask_filename (py_str ''Open file'') s1
               in if p = [] then s2 else open_with p open_encodings s2))"

text \<open>\<open>change_encoding\<close> (lines 195--216).\<close>

definition change_encoding :: "string \<Rightarrow> editor \<Rightarrow> editor" where
  "change_encoding enc s =
     (let (go, s1) =
        (if has_file (current_file s) \<and> is_modified s
         then ask_yes_no (py_str ''Change Encoding'')
                (py_str ''Changing the encoding will lose unsaved changes.'' @ [10] @
                 py_str ''Do you want to continue?'') s
         else (True, s))
      in if \<not> go then s1
         else s1\<lparr>current_encoding := enc,
                 title := (case current_file s1 of
                             Some p \<Rightarrow> if has_file (current_file s1) then enc_title p enc else title s1
                           | None \<Rightarrow> title s1),
                 status := py_str ''Encoding changed to: '' @ py_str enc\<rparr>)"

subsection \<open>A small file system for examples\<close>

text \<open>One readable, writable file \<open>a.txt\<close> holding \<open>hi\<close>; lines end with a newline.\<close>

abbreviation demo_path :: path where
  "demo_path \<equiv> py_str ''a.txt''"

abbreviation demo_fs :: fsys where
  "demo_fs \<equiv> \<lparr>files = [demo_path \<mapsto> [byte_of 104, byte_of 105]], read_only = {}, unreadable = {},
              linesep = [newline]\<rparr>"

abbreviation demo_editor :: editor where
  "demo_editor \<equiv> init_editor demo_fs fresh_reporter"

text \<open>The editor holding \<open>a.txt\<close> with buffer \<open>c\<close> in encoding \<open>enc\<close>.\<close>

abbreviation file_editor :: "ustr \<Rightarrow> string \<Rightarrow> editor" where
  "file_editor c enc \<equiv> demo_editor\<lparr>current_file := Some demo_path, widget := empty_widget\<lparr>content := c\<rparr>,
                                    current_encoding := enc\<rparr>"

subsection \<open>Reading a file: which encoding wins\<close>

lemma latin1_always_decodes: "py_decode ''latin-1'' bs = Inr (map unat bs)"
  by (simp add: py_decode_def latin1_decode_def)

lemma read_text_latin1:
  "files f p = Some bs \<Longrightarrow> p \<notin> unreadable f \<Longrightarrow>
   read_text f p ''latin-1'' = Inr (universal_newlines (map unat bs))"
  by (simp add: read_text_def latin1_always_decodes)

lemma read_text_utf8:
  "files f p = Some bs \<Longrightarrow> p \<notin> unreadable f \<Longrightarrow>
   read_text f p ''utf-8'' =
     (case utf8_decode bs of None \<Rightarrow> Inl (CodecError UnicodeDecodeError)
      | Some t \<Rightarrow> Inr (universal_newlines t))"
  by (simp add: read_text_def py_decode_def split: option.splits)

lemma read_text_failure:
  "(files f p = None \<or> p \<in> unreadable f) \<Longrightarrow>
   read_text f p enc = Inl (if files f p = None then FileNotFoundError else PermissionError)"
  by (auto simp: read_text_def)

lemma open_with_found:
  assumes "files (fs s) p = Some bs" and "p \<notin> unreadable (fs s)"
  shows "open_with p open_encodings s =
           (case utf8_decode bs of
              Some t \<Rightarrow> load_file p ''utf-8'' (universal_newlines t) s
            | None \<Rightarrow> load_file p ''latin-1'' (universal_newlines (map unat bs)) s)"
  using assms
  by (simp add: open_encodings_def read_text_utf8 read_text_latin1 split: option.splits)

lemma open_with_missing:
  assumes "files (fs s) p = None \<or> p \<in> unreadable (fs s)"
  shows "open_with p encs s =
           (case encs of [] \<Rightarrow> s\<lparr>rep := encoding_error_box (rep s)\<rparr>
            | enc # _ \<Rightarrow>
                s\<lparr>rep := handle_error (py_str ''open file '' @ p @ py_str '' with encoding '' @ py_str enc)
                  (io_exc (if files (fs s) p = None then FileNotFoundError else PermissionError) p) True
                  (rep s)\<rparr>)"
  using assms by (cases encs) (simp_all add: read_text_failure [OF assms])

text \<open>
  C14. The encoding fallback of \<open>open_file\<close>: a readable file is loaded as UTF-8 when its
  bytes are well-formed UTF-8 and as Latin-1 otherwise, with the universal-newline translation
  of text mode; the text replaces the buffer and the file, encoding, title and status are set.
\<close>

theorem open_file_encoding_fallback:
  assumes "files (fs s) p = Some bs" and "p \<notin> unreadable (fs s)"
  shows "open_with p open_encodings s =
           (if utf8_decode bs \<noteq> None
            then load_file p ''utf-8'' (universal_newlines (the (utf8_decode bs))) s
            else load_file p ''latin-1'' (universal_newlines (map unat bs)) s)"
  using open_with_found [OF assms] by (auto split: option.splits)

theorem open_file_encoding_fallback_witness:
  "files (fs demo_editor) demo_path = Some [byte_of 104, byte_of 105] \<and> demo_path \<notin> unreadable (fs demo_editor) \<and>
   open_with demo_path open_encodings demo_editor =
     (if utf8_decode [byte_of 104, byte_of 105] \<noteq> None
      then load_file demo_path ''utf-8'' (universal_newlines (the (utf8_decode [byte_of 104, byte_of 105]))) demo_editor
      else load_file demo_path ''latin-1'' (universal_newlines (map unat [byte_of 104, byte_of 105 :: byte])) demo_editor)"
proof -
  have h1: "files (fs demo_editor) demo_path = Some [byte_of 104, byte_of 105]"
    and h2: "demo_path \<notin> unreadable (fs demo_editor)"
    by (simp_all add: init_editor_def)
  show ?thesis using h1 h2 open_file_encoding_fallback [OF h1 h2] by blast
qed

text \<open>
  C15. The last two candidates of the fallback list are dead: Latin-1 decodes every byte
  string, so \<open>open_file\<close> behaves exactly as if the list were \<open>['utf-8', 'latin-1']\<close>;
  UTF-16 and cp1252 are never tried. With the two-element list every path either loads the
  file or reports the first error (\<open>open_with_found\<close>, \<open>open_with_missing\<close>), so the
  "Encoding Error" box is never shown.
\<close>

theorem open_never_tries_utf16_cp1252:
  "open_with p open_encodings s = open_with p [''utf-8'', ''latin-1''] s"
proof (cases "files (fs s) p = None \<or> p \<in> unreadable (fs s)")
  case True
  then show ?thesis
    by (simp add: read_text_failure [OF True] open_encodings_def)
next
  case False
  then obtain bs where "files (fs s) p = Some bs" "p \<notin> unreadable (fs s)"
    by auto
  then show ?thesis
    by (simp add: open_encodings_def read_text_utf8 read_text_latin1 split: option.splits)
qed

text \<open>
  C3. Opening a file that does not exist or may not be read, from a clean document, reports
  the error of the first attempt (UTF-8) in the error box and the log, and leaves everything
  else as it was: buffer, file, encoding, title, status and files on disk. The loop does not
  try the other encodings, since only a decoding error moves on.
\<close>

theorem open_unreadable_keeps_document:
  assumes "\<not> is_modified s" and "p \<noteq> []" and "files (fs s) p = None \<or> p \<in> unreadable (fs s)"
  shows "open_file (s\<lparr>answers := Chosen p # rest\<rparr>) =
           s\<lparr>answers := rest,
             rep := handle_error (py_str ''open file '' @ p @ py_str '' with encoding '' @ py_str ''utf-8'')
                      (io_exc (if files (fs s) p = None then FileNotFoundError else PermissionError) p) True
                      (show_box BoxFileDialog (py_str ''Open file'') [] (rep s))\<rparr>"
proof -
  let ?s2 = "s\<lparr>rep := show_box BoxFileDialog (py_str ''Open file'') [] (rep s), answers := rest\<rparr>"
  have "open_with p open_encodings ?s2 =
          ?s2\<lparr>rep := handle_error (py_str ''open file '' @ p @ py_str '' with encoding '' @ py_str ''utf-8'')
                  (io_exc (if files (fs s) p = None then FileNotFoundError else PermissionError) p) True
                  (rep ?s2)\<rparr>"
    using assms(3) by (subst open_with_missing) (simp_all add: open_encodings_def)
  with assms(1,2) show ?thesis
    by (simp add: open_file_def verify_unsaved_changes_def ask_filename_def next_answer_def)
qed

theorem open_unreadable_keeps_document_witness:
  "\<not> is_modified demo_editor \<and> py_str ''b.txt'' \<noteq> [] \<and>
   (files (fs demo_editor) (py_str ''b.txt'') = None \<or> py_str ''b.txt'' \<in> unreadable (fs demo_editor)) \<and>
   open_file (demo_editor\<lparr>answers := [Chosen (py_str ''b.txt'')]\<rparr>) =
     demo_editor\<lparr>answers := [],
       rep := handle_error (py_str ''open file '' @ py_str ''b.txt'' @ py_str '' with encoding '' @ py_str ''utf-8'')
                (io_exc FileNotFoundError (py_str ''b.txt'')) True
                (show_box BoxFileDialog (py_str ''Open file'') [] (rep demo_editor))\<rparr>"
proof -
  have h1: "\<not> is_modified demo_editor" and h2: "py_str ''b.txt'' \<noteq> []"
    and h3: "files (fs demo_editor) (py_str ''b.txt'') = None \<or> py_str ''b.txt'' \<in> unreadable (fs demo_editor)"
    by (simp_all add: init_editor_def py_str_def)
  have h4: "files (fs demo_editor) (py_str ''b.txt'') = None"
    by (simp add: init_editor_def py_str_def)
  show ?thesis
    using h1 h2 h3 h4 open_unreadable_keeps_document [OF h1 h2 h3, of "[]"] by simp
qed

subsection \<open>Saving: backup, content written, failures\<close>

lemma make_backup_frame [simp]:
  "widget (make_backup p s) = widget s" "current_file (make_backup p s) = current_file s"
  "current_encoding (make_backup p s) = current_encoding s" "is_modified (make_backup p s) = is_modified s"
  "title (make_backup p s) = title s" "answers (make_backup p s) = answers s"
  "read_only (fs (make_backup p s)) = read_only (fs s)" "linesep (fs (make_backup p s)) = linesep (fs s)"
  "unreadable (fs (make_backup p s)) = unreadable (fs s)"
  by (auto simp: make_backup_def copy2_def split: sum.splits option.splits if_splits)

lemma make_backup_files:
  "files (fs (make_backup p s)) q =
     (if q = p @ py_str ''.bak'' \<and> files (fs s) p \<noteq> None \<and> p \<notin> unreadable (fs s) \<and> q \<notin> read_only (fs s)
      then files (fs s) p else files (fs s) q)"
  by (auto simp: make_backup_def copy2_def os_path_exists_def split: option.splits)

lemma bak_differs [simp]: "p @ py_str ''.bak'' \<noteq> p"
  by (simp add: py_str_def)

lemma save_file_cases:
  assumes "current_file s = Some p"
  obtains (ok) fs' where "write_text (fs (make_backup p s)) p (current_encoding s) (get_all (widget s)) = (None, fs')"
      and "save_file s = (True, (make_backup p s)\<lparr>fs := fs', is_modified := False,
             title := (if starts_with (title s) [42] then py_slice1 (title s) else title s),
             status := py_str ''Saved: '' @ p,
             rep := log_emit INFO (py_str ''File saved: '' @ p) (rep (make_backup p s))\<rparr>)"
  | (perm) fs' where "write_text (fs (make_backup p s)) p (current_encoding s) (get_all (widget s)) = (Some PermissionError, fs')"
      and "save_file s = (False, (make_backup p s)\<lparr>fs := fs', rep := permission_box (rep (make_backup p s))\<rparr>)"
  | (other) e fs' where "write_text (fs (make_backup p s)) p (current_encoding s) (get_all (widget s)) = (Some e, fs')"
      and "e \<noteq> PermissionError"
      and "save_file s = (False, (make_backup p s)\<lparr>fs := fs',
             rep := handle_error (py_str ''save file'') (io_exc e p) True (rep (make_backup p s))\<rparr>)"
proof -
  obtain err fs' where w: "write_text (fs (make_backup p s)) p (current_encoding s) (get_all (widget s)) = (err, fs')"
    by (cases "write_text (fs (make_backup p s)) p (current_encoding s) (get_all (widget s))")
  show ?thesis
  proof (cases err)
    case None
    with assms w show ?thesis
      by (intro that(1) [of fs']) (simp_all add: save_file_def Let_def)
  next
    case (Some e)
    show ?thesis
    proof (cases "e = PermissionError")
      case True
      with Some assms w show ?thesis
        by (intro that(2) [of fs']) (simp_all add: save_file_def Let_def)
    next
      case False
      with Some assms w show ?thesis
        by (intro that(3) [of e fs']) (cases e; simp add: save_file_def Let_def)+
    qed
  qed
qed

lemma save_file_written:
  assumes "current_file s = Some p" and "p \<notin> read_only (fs s)"
    and "py_encode (current_encoding s) (translate_newlines (linesep (fs s)) (content (widget s) @ [newline])) = Inr bs"
  shows "save_file s = (True, (make_backup p s)\<lparr>fs := (fs (make_backup p s))\<lparr>files := (files (fs (make_backup p s)))(p \<mapsto> bs)\<rparr>,
           is_modified := False, title := (if starts_with (title s) [42] then py_slice1 (title s) else title s),
           status := py_str ''Saved: '' @ p, rep := log_emit INFO (py_str ''File saved: '' @ p) (rep (make_backup p s))\<rparr>)"
proof -
  have w: "write_text (fs (make_backup p s)) p (current_encoding s) (get_all (widget s)) =
             (None, (fs (make_backup p s))\<lparr>files := (files (fs (make_backup p s)))(p \<mapsto> bs)\<rparr>)"
    using assms by (simp add: write_text_def get_all_def)
  from assms(1) show ?thesis
  proof (cases rule: save_file_cases)
    case (ok fs')
    with w show ?thesis by simp
  next
    case (perm fs')
    with w show ?thesis by simp
  next
    case (other e fs')
    with w show ?thesis by simp
  qed
qed

text \<open>
  C16. Saving over an existing file first copies it to \<open>path + ".bak"\<close>: when the file is
  readable and the backup path writable, the backup holds the file's previous bytes after the
  save, whether or not the write itself succeeds.
\<close>

theorem save_file_backup:
  assumes "current_file s = Some p" and "files (fs s) p = Some old"
    and "p \<notin> unreadable (fs s)" and "p @ py_str ''.bak'' \<notin> read_only (fs s)"
  shows "files (fs (snd (save_file s))) (p @ py_str ''.bak'') = Some old"
proof -
  have bak: "files (fs (make_backup p s)) (p @ py_str ''.bak'') = Some old"
    using assms by (simp add: make_backup_files)
  from assms(1) show ?thesis
  proof (cases rule: save_file_cases)
    case (ok fs')
    then show ?thesis using bak write_text_files [OF ok(1) bak_differs] by simp
  next
    case (perm fs')
    then show ?thesis using bak write_text_files [OF perm(1) bak_differs] by simp
  next
    case (other e fs')
    then show ?thesis using bak write_text_files [OF other(1) bak_differs] by simp
  qed
qed

theorem save_file_backup_witness:
  "current_file (demo_editor\<lparr>current_file := Some demo_path\<rparr>) = Some demo_path \<and>
   files (fs (demo_editor\<lparr>current_file := Some demo_path\<rparr>)) demo_path = Some [byte_of 104, byte_of 105] \<and>
   demo_path \<notin> unreadable (fs (demo_editor\<lparr>current_file := Some demo_path\<rparr>)) \<and>
   demo_path @ py_str ''.bak'' \<notin> read_only (fs (demo_editor\<lparr>current_file := Some demo_path\<rparr>)) \<and>
   files (fs (snd (save_file (demo_editor\<lparr>current_file := Some demo_path\<rparr>)))) (demo_path @ py_str ''.bak'') =
     Some [byte_of 104, byte_of 105]"
proof -
  have h1: "current_file (demo_editor\<lparr>current_file := Some demo_path\<rparr>) = Some demo_path"
    and h2: "files (fs (demo_editor\<lparr>current_file := Some demo_path\<rparr>)) demo_path = Some [byte_of 104, byte_of 105]"
    and h3: "demo_path \<notin> unreadable (fs (demo_editor\<lparr>current_file := Some demo_path\<rparr>))"
    and h4: "demo_path @ py_str ''.bak'' \<notin> read_only (fs (demo_editor\<lparr>current_file := Some demo_path\<rparr>))"
    by (simp_all add: init_editor_def)
  show ?thesis using h1 h2 h3 h4 save_file_backup [OF h1 h2 h3 h4] by blast
qed

text \<open>
  C17. What a successful save writes: the widget's whole text \<open>get("1.0", END)\<close>, that is
  the buffer followed by Tk's final newline, with newlines translated and encoded in the
  current encoding; the document becomes clean and a leading asterisk leaves the title.
\<close>

theorem save_file_writes_buffer_newline:
  assumes "current_file s = Some p" and "p \<notin> read_only (fs s)"
    and "py_encode (current_encoding s) (translate_newlines (linesep (fs s)) (content (widget s) @ [newline])) = Inr bs"
  shows "fst (save_file s) \<and> files (fs (snd (save_file s))) p = Some bs \<and>
         \<not> is_modified (snd (save_file s)) \<and> current_file (snd (save_file s)) = Some p"
  using save_file_written [OF assms] assms(1) by simp

theorem save_file_writes_buffer_newline_witness:
  "current_file (demo_editor\<lparr>current_file := Some demo_path\<rparr>) = Some demo_path \<and>
   demo_path \<notin> read_only (fs (demo_editor\<lparr>current_file := Some demo_path\<rparr>)) \<and>
   py_encode (current_encoding (demo_editor\<lparr>current_file := Some demo_path\<rparr>))
     (translate_newlines (linesep (fs (demo_editor\<lparr>current_file := Some demo_path\<rparr>)))
        (content (widget (demo_editor\<lparr>current_file := Some demo_path\<rparr>)) @ [newline])) = Inr [byte_of 10] \<and>
   fst (save_file (demo_editor\<lparr>current_file := Some demo_path\<rparr>)) \<and>
   files (fs (snd (save_file (demo_editor\<lparr>current_file := Some demo_path\<rparr>)))) demo_path = Some [byte_of 10] \<and>
   \<not> is_modified (snd (save_file (demo_editor\<lparr>current_file := Some demo_path\<rparr>))) \<and>
   current_file (snd (save_file (demo_editor\<lparr>current_file := Some demo_path\<rparr>))) = Some demo_path"
proof -
  have h1: "current_file (demo_editor\<lparr>current_file := Some demo_path\<rparr>) = Some demo_path"
    and h2: "demo_path \<notin> read_only (fs (demo_editor\<lparr>current_file := Some demo_path\<rparr>))"
    by (simp_all add: init_editor_def)
  have h3: "py_encode (current_encoding (demo_editor\<lparr>current_file := Some demo_path\<rparr>))
     (translate_newlines (linesep (fs (demo_editor\<lparr>current_file := Some demo_path\<rparr>)))
        (content (widget (demo_editor\<lparr>current_file := Some demo_path\<rparr>)) @ [newline])) = Inr [byte_of 10]"
    by (simp add: init_editor_def empty_widget_def py_encode_def utf8_char_def)
  show ?thesis using h1 h2 h3 save_file_writes_buffer_newline [OF h1 h2 h3] by blast
qed

text \<open>
  C18. A save refused by the operating system (\<open>PermissionError\<close>) leaves the file as it
  was, shows the "Permission Error" box, reports failure and keeps the document dirty.
\<close>

theorem save_file_permission_error:
  assumes "current_file s = Some p" and "p \<in> read_only (fs s)"
  shows "save_file s = (False, (make_backup p s)\<lparr>rep := permission_box (rep (make_backup p s))\<rparr>) \<and>
         files (fs (snd (save_file s))) p = files (fs s) p \<and>
         is_modified (snd (save_file s)) = is_modified s"
proof -
  have w: "write_text (fs (make_backup p s)) p (current_encoding s) (get_all (widget s)) =
             (Some PermissionError, fs (make_backup p s))"
    using assms by (simp add: write_text_def)
  have same: "files (fs (make_backup p s)) p = files (fs s) p"
    by (simp add: make_backup_files)
  from assms(1) show ?thesis
  proof (cases rule: save_file_cases)
    case (ok fs')
    with w show ?thesis by simp
  next
    case (perm fs')
    with w same show ?thesis by simp
  next
    case (other e fs')
    with w show ?thesis by simp
  qed
qed

theorem save_file_permission_error_witness:
  "current_file (demo_editor\<lparr>current_file := Some demo_path, fs := demo_fs\<lparr>read_only := {demo_path}\<rparr>\<rparr>) = Some demo_path \<and>
   demo_path \<in> read_only (fs (demo_editor\<lparr>current_file := Some demo_path, fs := demo_fs\<lparr>read_only := {demo_path}\<rparr>\<rparr>)) \<and>
   save_file (demo_editor\<lparr>current_file := Some demo_path, fs := demo_fs\<lparr>read_only := {demo_path}\<rparr>\<rparr>) =
     (False, (make_backup demo_path (demo_editor\<lparr>current_file := Some demo_path, fs := demo_fs\<lparr>read_only := {demo_path}\<rparr>\<rparr>))
               \<lparr>rep := permission_box (rep (make_backup demo_path
                        (demo_editor\<lparr>current_file := Some demo_path, fs := demo_fs\<lparr>read_only := {demo_path}\<rparr>\<rparr>)))\<rparr>) \<and>
   files (fs (snd (save_file (demo_editor\<lparr>current_file := Some demo_path, fs := demo_fs\<lparr>read_only := {demo_path}\<rparr>\<rparr>)))) demo_path =
     files (fs (demo_editor\<lparr>current_file := Some demo_path, fs := demo_fs\<lparr>read_only := {demo_path}\<rparr>\<rparr>)) demo_path \<and>
   is_modified (snd (save_file (demo_editor\<lparr>current_file := Some demo_path, fs := demo_fs\<lparr>read_only := {demo_path}\<rparr>\<rparr>))) =
     is_modified (demo_editor\<lparr>current_file := Some demo_path, fs := demo_fs\<lparr>read_only := {demo_path}\<rparr>\<rparr>)"
proof -
  have h1: "current_file (demo_editor\<lparr>current_file := Some demo_path, fs := demo_fs\<lparr>read_only := {demo_path}\<rparr>\<rparr>) = Some demo_path"
    and h2: "demo_path \<in> read_only (fs (demo_editor\<lparr>current_file := Some demo_path, fs := demo_fs\<lparr>read_only := {demo_path}\<rparr>\<rparr>))"
    by simp_all
  show ?thesis using h1 h2 save_file_permission_error [OF h1 h2] by blast
qed

text \<open>
  C19. "Save As" onto an existing file whose text the current encoding cannot represent
  destroys that file: \<open>open(path, 'w')\<close> truncates it before \<open>write\<close> raises
  \<open>UnicodeEncodeError\<close>, and no backup is made on this path. The error is reported, the
  document keeps its file name and its modified flag.
\<close>

theorem save_as_encode_error_truncates:
  assumes "answers s = Chosen p # rest" and "p \<noteq> []" and "p \<notin> read_only (fs s)"
    and "py_encode (current_encoding s) (translate_newlines (linesep (fs s)) (get_all (widget s))) = Inl e"
  shows "\<not> fst (save_file_as s) \<and> files (fs (snd (save_file_as s))) p = Some [] \<and>
         is_modified (snd (save_file_as s)) = is_modified s \<and>
         current_file (snd (save_file_as s)) = current_file s"
  using assms
  by (simp add: save_file_as_def ask_filename_def next_answer_def show_box_def write_text_def Let_def)

theorem save_as_encode_error_truncates_witness:
  "answers ((file_editor [256] ''latin-1'')\<lparr>answers := [Chosen demo_path]\<rparr>) = Chosen demo_path # [] \<and>
   demo_path \<noteq> [] \<and> demo_path \<notin> read_only (fs ((file_editor [256] ''latin-1'')\<lparr>answers := [Chosen demo_path]\<rparr>)) \<and>
   py_encode (current_encoding ((file_editor [256] ''latin-1'')\<lparr>answers := [Chosen demo_path]\<rparr>))
     (translate_newlines (linesep (fs ((file_editor [256] ''latin-1'')\<lparr>answers := [Chosen demo_path]\<rparr>)))
       (get_all (widget ((file_editor [256] ''latin-1'')\<lparr>answers := [Chosen demo_path]\<rparr>)))) = Inl UnicodeEncodeError \<and>
   \<not> fst (save_file_as ((file_editor [256] ''latin-1'')\<lparr>answers := [Chosen demo_path]\<rparr>)) \<and>
   files (fs (snd (save_file_as ((file_editor [256] ''latin-1'')\<lparr>answers := [Chosen demo_path]\<rparr>)))) demo_path = Some [] \<and>
   is_modified (snd (save_file_as ((file_editor [256] ''latin-1'')\<lparr>answers := [Chosen demo_path]\<rparr>))) =
     is_modified ((file_editor [256] ''latin-1'')\<lparr>answers := [Chosen demo_path]\<rparr>) \<and>
   current_file (snd (save_file_as ((file_editor [256] ''latin-1'')\<lparr>answers := [Chosen demo_path]\<rparr>))) =
     current_file ((file_editor [256] ''latin-1'')\<lparr>answers := [Chosen demo_path]\<rparr>)"
proof -
  have h1: "answers ((file_editor [256] ''latin-1'')\<lparr>answers := [Chosen demo_path]\<rparr>) = Chosen demo_path # []"
    and h2: "demo_path \<noteq> []"
    and h3: "demo_path \<notin> read_only (fs ((file_editor [256] ''latin-1'')\<lparr>answers := [Chosen demo_path]\<rparr>))"
    by (simp_all add: init_editor_def py_str_def)
  have h4: "py_encode (current_encoding ((file_editor [256] ''latin-1'')\<lparr>answers := [Chosen demo_path]\<rparr>))
     (translate_newlines (linesep (fs ((file_editor [256] ''latin-1'')\<lparr>answers := [Chosen demo_path]\<rparr>)))
       (get_all (widget ((file_editor [256] ''latin-1'')\<lparr>answers := [Chosen demo_path]\<rparr>)))) = Inl UnicodeEncodeError"
    by (simp add: init_editor_def py_encode_def latin1_encode_def get_all_def)
  show ?thesis using h1 h2 h3 h4 save_as_encode_error_truncates [OF h1 h2 h3 h4] by blast
qed

subsection \<open>Saving and opening again\<close>

lemma load_file_content [simp]: "content (widget (load_file p enc t s)) = t"
  and load_file_encoding [simp]: "current_encoding (load_file p enc t s) = enc"
  by (simp_all add: load_file_def)

lemma save_then_open:
  assumes "current_file s = Some p" and "p \<notin> read_only (fs s)" and "p \<notin> unreadable (fs s)"
    and "linesep (fs s) = [newline]"
    and "py_encode (current_encoding s) (content (widget s) @ [newline]) = Inr bs"
  shows "open_with p open_encodings (snd (save_file s)) =
           (case utf8_decode bs of
              Some t \<Rightarrow> load_file p ''utf-8'' (universal_newlines t) (snd (save_file s))
            | None \<Rightarrow> load_file p ''latin-1'' (universal_newlines (map unat bs)) (snd (save_file s)))"
proof -
  have enc: "py_encode (current_encoding s) (translate_newlines (linesep (fs s)) (content (widget s) @ [newline])) = Inr bs"
    using assms(4,5) by simp
  have f: "files (fs (snd (save_file s))) p = Some bs" and u: "p \<notin> unreadable (fs (snd (save_file s)))"
    using save_file_written [OF assms(1,2) enc] assms(3) by simp_all
  show ?thesis by (rule open_with_found [OF f u])
qed

text \<open>
  C25. Saving in UTF-8 and opening the file again gives back the buffer with one more
  newline at the end (Tk's final newline is written and read back as text), reported as
  UTF-8; the text grows by a newline at every save/open cycle. The text must have no
  carriage return (universal newlines would turn it into a newline) and the platform's
  line separator be a newline.
\<close>

theorem utf8_save_reopen_adds_newline:
  assumes "current_file s = Some p" and "p \<notin> read_only (fs s)" and "p \<notin> unreadable (fs s)"
    and "current_encoding s = ''utf-8''" and "linesep (fs s) = [newline]"
    and "13 \<notin> set (content (widget s))" and "utf8_encode (content (widget s) @ [newline]) = Some bs"
  shows "content (widget (open_with p open_encodings (snd (save_file s)))) = content (widget s) @ [newline] \<and>
         current_encoding (open_with p open_encodings (snd (save_file s))) = ''utf-8''"
proof -
  have "py_encode (current_encoding s) (content (widget s) @ [newline]) = Inr bs"
    using assms(4,7) by (simp add: py_encode_def)
  note reopen = save_then_open [OF assms(1,2,3,5) this]
  have "utf8_decode bs = Some (content (widget s) @ [newline])"
    using assms(7) by (rule utf8_decode_encode)
  moreover have "universal_newlines (content (widget s) @ [newline]) = content (widget s) @ [newline]"
    using assms(6) by (simp add: universal_newlines_no_CR)
  ultimately show ?thesis by (simp add: reopen)
qed

theorem utf8_save_reopen_adds_newline_witness:
  "current_file (file_editor [104, 105] ''utf-8'') = Some demo_path \<and>
   demo_path \<notin> read_only (fs (file_editor [104, 105] ''utf-8'')) \<and>
   demo_path \<notin> unreadable (fs (file_editor [104, 105] ''utf-8'')) \<and>
   current_encoding (file_editor [104, 105] ''utf-8'') = ''utf-8'' \<and>
   linesep (fs (file_editor [104, 105] ''utf-8'')) = [newline] \<and>
   13 \<notin> set (content (widget (file_editor [104, 105] ''utf-8''))) \<and>
   utf8_encode (content (widget (file_editor [104, 105] ''utf-8'')) @ [newline]) = Some [byte_of 104, byte_of 105, byte_of 10] \<and>
   content (widget (open_with demo_path open_encodings (snd (save_file (file_editor [104, 105] ''utf-8''))))) =
     content (widget (file_editor [104, 105] ''utf-8'')) @ [newline] \<and>
   current_encoding (open_with demo_path open_encodings (snd (save_file (file_editor [104, 105] ''utf-8'')))) = ''utf-8''"
proof -
  have h1: "current_file (file_editor [104, 105] ''utf-8'') = Some demo_path"
    and h2: "demo_path \<notin> read_only (fs (file_editor [104, 105] ''utf-8''))"
    and h3: "demo_path \<notin> unreadable (fs (file_editor [104, 105] ''utf-8''))"
    and h4: "current_encoding (file_editor [104, 105] ''utf-8'') = ''utf-8''"
    and h5: "linesep (fs (file_editor [104, 105] ''utf-8'')) = [newline]"
    by (simp_all add: init_editor_def)
  have h6: "13 \<notin> set (content (widget (file_editor [104, 105] ''utf-8'')))"
    by simp
  have h7: "utf8_encode (content (widget (file_editor [104, 105] ''utf-8'')) @ [newline]) = Some [byte_of 104, byte_of 105, byte_of 10]"
    by (simp add: utf8_char_def)
  show ?thesis using h1 h2 h3 h4 h5 h6 h7 utf8_save_reopen_adds_newline [OF h1 h2 h3 h4 h5 h6 h7] by blast
qed

text \<open>
  C26. A file saved in Latin-1 is not reopened as Latin-1 when its bytes happen to be
  well-formed UTF-8: it is decoded as UTF-8, so the buffer shows different text and the
  encoding is reported as UTF-8 (for instance, the Latin-1 text U+00C3 U+00A9 comes back as the
  one character U+00E9).
\<close>

theorem latin1_save_reopens_as_utf8:
  assumes "current_file s = Some p" and "p \<notin> read_only (fs s)" and "p \<notin> unreadable (fs s)"
    and "current_encoding s = ''latin-1''" and "linesep (fs s) = [newline]"
    and "latin1_encode (content (widget s) @ [newline]) = Some bs" and "utf8_decode bs = Some t"
  shows "content (widget (open_with p open_encodings (snd (save_file s)))) = universal_newlines t \<and>
         current_encoding (open_with p open_encodings (snd (save_file s))) = ''utf-8''"
proof -
  have "py_encode (current_encoding s) (content (widget s) @ [newline]) = Inr bs"
    using assms(4,6) by (simp add: py_encode_def)
  with assms show ?thesis by (simp add: save_then_open)
qed

theorem latin1_save_reopens_as_utf8_witness:
  "current_file (file_editor [195, 169] ''latin-1'') = Some demo_path \<and>
   demo_path \<notin> read_only (fs (file_editor [195, 169] ''latin-1'')) \<and>
   demo_path \<notin> unreadable (fs (file_editor [195, 169] ''latin-1'')) \<and>
   current_encoding (file_editor [195, 169] ''latin-1'') = ''latin-1'' \<and>
   linesep (fs (file_editor [195, 169] ''latin-1'')) = [newline] \<and>
   latin1_encode (content (widget (file_editor [195, 169] ''latin-1'')) @ [newline]) = Some [byte_of 195, byte_of 169, byte_of 10] \<and>
   utf8_decode [byte_of 195, byte_of 169, byte_of 10] = Some [233, 10] \<and>
   content (widget (open_with demo_path open_encodings (snd (save_file (file_editor [195, 169] ''latin-1''))))) = universal_newlines [233, 10] \<and>
   current_encoding (open_with demo_path open_encodings (snd (save_file (file_editor [195, 169] ''latin-1'')))) = ''utf-8''"
proof -
  have h1: "current_file (file_editor [195, 169] ''latin-1'') = Some demo_path"
    and h2: "demo_path \<notin> read_only (fs (file_editor [195, 169] ''latin-1''))"
    and h3: "demo_path \<notin> unreadable (fs (file_editor [195, 169] ''latin-1''))"
    and h4: "current_encoding (file_editor [195, 169] ''latin-1'') = ''latin-1''"
    and h5: "linesep (fs (file_editor [195, 169] ''latin-1'')) = [newline]"
    by (simp_all add: init_editor_def)
  have h6: "latin1_encode (content (widget (file_editor [195, 169] ''latin-1'')) @ [newline]) = Some [byte_of 195, byte_of 169, byte_of 10]"
    by (simp add: latin1_encode_def)
  have h7: "utf8_decode [byte_of 195, byte_of 169, byte_of 10] = Some [233, 10]"
    by (simp add: is_cont_def)
  show ?thesis using h1 h2 h3 h4 h5 h6 h7 latin1_save_reopens_as_utf8 [OF h1 h2 h3 h4 h5 h6 h7] by blast
qed

lemma utf8_decode_FF: "utf8_decode (byte_of 255 # bs) = None"
  by simp

text \<open>
  C27. A file saved in UTF-16 is never reopened as UTF-16: its byte-order mark \<open>FF FE\<close> is
  not UTF-8, and Latin-1 accepts it, so the buffer shows the raw bytes as Latin-1 characters,
  starting with U+00FF U+00FE, and the encoding is reported as Latin-1.
\<close>

theorem utf16_save_reopens_as_latin1:
  assumes "current_file s = Some p" and "p \<notin> read_only (fs s)" and "p \<notin> unreadable (fs s)"
    and "current_encoding s = ''utf-16''" and "linesep (fs s) = [newline]"
    and "utf16_encode (content (widget s) @ [newline]) = Some bs"
  shows "content (widget (open_with p open_encodings (snd (save_file s)))) = universal_newlines (map unat bs) \<and>
         take 2 (content (widget (open_with p open_encodings (snd (save_file s))))) = [255, 254] \<and>
         current_encoding (open_with p open_encodings (snd (save_file s))) = ''latin-1''"
proof -
  have "py_encode (current_encoding s) (content (widget s) @ [newline]) = Inr bs"
    using assms(4,6) by (simp add: py_encode_def)
  note reopen = save_then_open [OF assms(1,2,3,5) this]
  obtain rest where bs: "bs = byte_of 255 # byte_of 254 # rest"
    using assms(6) by (auto simp: utf16_encode_def utf16_bom_def)
  show ?thesis by (simp add: reopen bs utf8_decode_FF)
qed

theorem utf16_save_reopens_as_latin1_witness:
  "current_file (file_editor [104] ''utf-16'') = Some demo_path \<and>
   demo_path \<notin> read_only (fs (file_editor [104] ''utf-16'')) \<and>
   demo_path \<notin> unreadable (fs (file_editor [104] ''utf-16'')) \<and>
   current_encoding (file_editor [104] ''utf-16'') = ''utf-16'' \<and>
   linesep (fs (file_editor [104] ''utf-16'')) = [newline] \<and>
   utf16_encode (content (widget (file_editor [104] ''utf-16'')) @ [newline]) = Some [byte_of 255, byte_of 254, byte_of 104, byte_of 0, byte_of 10, byte_of 0] \<and>
   content (widget (open_with demo_path open_encodings (snd (save_file (file_editor [104] ''utf-16''))))) = universal_newlines (map unat [byte_of 255, byte_of 254, byte_of 104, byte_of 0, byte_of 10, byte_of 0 :: byte]) \<and>
   take 2 (content (widget (open_with demo_path open_encodings (snd (save_file (file_editor [104] ''utf-16'')))))) = [255, 254] \<and>
   current_encoding (open_with demo_path open_encodings (snd (save_file (file_editor [104] ''utf-16'')))) = ''latin-1''"
proof -
  have h1: "current_file (file_editor [104] ''utf-16'') = Some demo_path"
    and h2: "demo_path \<notin> read_only (fs (file_editor [104] ''utf-16''))"
    and h3: "demo_path \<notin> unreadable (fs (file_editor [104] ''utf-16''))"
    and h4: "current_encoding (file_editor [104] ''utf-16'') = ''utf-16''"
    and h5: "linesep (fs (file_editor [104] ''utf-16'')) = [newline]"
    by (simp_all add: init_editor_def)
  have h6: "utf16_encode (content (widget (file_editor [104] ''utf-16'')) @ [newline]) = Some [byte_of 255, byte_of 254, byte_of 104, byte_of 0, byte_of 10, byte_of 0]"
    by (simp add: utf16_encode_def utf16_units_def le_bytes_def utf16_bom_def)
  show ?thesis using h1 h2 h3 h4 h5 h6 utf16_save_reopens_as_latin1 [OF h1 h2 h3 h4 h5 h6] by blast
qed


subsection \<open>The unsaved-changes guard\<close>

lemma write_text_written:
  "write_text f p enc t = (None, f') \<Longrightarrow>
   \<exists>bs. files f' p = Some bs \<and> py_encode enc (translate_newlines (linesep f) t) = Inr bs"
  by (auto simp: write_text_def Let_def split: if_splits sum.splits)

lemma save_file_as_saved:
  assumes "save_file_as s = (True, s')"
  shows "\<exists>p bs. current_file s' = Some p \<and> files (fs s') p = Some bs \<and>
           py_encode (current_encoding s) (translate_newlines (linesep (fs s)) (get_all (widget s))) = Inr bs"
proof -
  obtain p s1 where a: "ask_filename (py_str ''Save As'') s = (p, s1)" by fastforce
  have fr: "fs s1 = fs s" "widget s1 = widget s" "current_encoding s1 = current_encoding s"
    using a by (auto simp: ask_filename_def next_answer_def split: list.splits)
  obtain err fs' where w: "write_text (fs s1) p (current_encoding s1) (get_all (widget s1)) = (err, fs')"
    by fastforce
  with assms a have "err = None" "current_file s' = Some p" "fs s' = fs'"
    by (auto simp: save_file_as_def split: if_splits option.splits)
  then show ?thesis
    using write_text_written [of "fs s1" p "current_encoding s1" "get_all (widget s1)" fs'] w fr by auto
qed

lemma save_file_saved:
  assumes "save_file s = (True, s')"
  shows "\<exists>p bs. current_file s' = Some p \<and> files (fs s') p = Some bs \<and>
           py_encode (current_encoding s) (translate_newlines (linesep (fs s)) (get_all (widget s))) = Inr bs"
proof (cases "current_file s")
  case None
  then show ?thesis using assms save_file_as_saved by (simp add: save_file_def)
next
  case (Some p)
  then show ?thesis
  proof (cases rule: save_file_cases)
    case (ok fs')
    then show ?thesis
      using assms Some write_text_written [OF ok(1)] by auto
  next
    case (perm fs')
    then show ?thesis using assms by simp
  next
    case (other e fs')
    then show ?thesis using assms by simp
  qed
qed

text \<open>
  C38. No unsaved work is lost at the unsaved-changes prompt that guards New, Open and Exit:
  when the document is modified and the guard lets the handler go on, either the user answered
  No, or the buffer with Tk's final newline, newline-translated and encoded in the current
  encoding, is now the content of the file the editor names. A failed or cancelled save
  stops the handler.
\<close>

theorem unsaved_changes_never_lost:
  assumes "is_modified s" and "verify_unsaved_changes op s = (True, s')"
  shows "(\<exists>rest. answers s = No # rest) \<or>
         (\<exists>p bs. current_file s' = Some p \<and> files (fs s') p = Some bs \<and>
                 py_encode (current_encoding s) (translate_newlines (linesep (fs s)) (content (widget s) @ [newline])) = Inr bs)"
proof (cases "answers s")
  case Nil
  with assms show ?thesis
    by (simp add: verify_unsaved_changes_def ask_yes_no_cancel_def next_answer_def)
next
  case (Cons a rest)
  let ?s1 = "s\<lparr>rep := show_box BoxQuestion (py_str ''Unsaved Changes'')
                   (py_str ''Do you want to save changes before '' @ op @ py_str ''?'') (rep s), answers := rest\<rparr>"
  show ?thesis
  proof (cases a)
    case Yes
    with assms Cons have "save_file ?s1 = (True, s')"
      by (simp add: verify_unsaved_changes_def ask_yes_no_cancel_def next_answer_def)
    from save_file_saved [OF this] show ?thesis by (simp add: get_all_def)
  next
    case No
    with Cons show ?thesis by simp
  next
    case Cancel
    with assms Cons show ?thesis
      by (simp add: verify_unsaved_changes_def ask_yes_no_cancel_def next_answer_def)
  next
    case (Chosen q)
    with assms Cons show ?thesis
      by (simp add: verify_unsaved_changes_def ask_yes_no_cancel_def next_answer_def)
  qed
qed

theorem unsaved_changes_never_lost_witness:
  "is_modified ((file_editor [104] ''utf-8'')\<lparr>is_modified := True, answers := [Yes]\<rparr>) \<and>
   verify_unsaved_changes (py_str ''exit'') ((file_editor [104] ''utf-8'')\<lparr>is_modified := True, answers := [Yes]\<rparr>) =
     (True, snd (verify_unsaved_changes (py_str ''exit'') ((file_editor [104] ''utf-8'')\<lparr>is_modified := True, answers := [Yes]\<rparr>))) \<and>
   files (fs (snd (verify_unsaved_changes (py_str ''exit'') ((file_editor [104] ''utf-8'')\<lparr>is_modified := True, answers := [Yes]\<rparr>))))
     demo_path = Some [byte_of 104, byte_of 10] \<and>
   ((\<exists>rest. answers ((file_editor [104] ''utf-8'')\<lparr>is_modified := True, answers := [Yes]\<rparr>) = No # rest) \<or>
    (\<exists>p bs. current_file (snd (verify_unsaved_changes (py_str ''exit'') ((file_editor [104] ''utf-8'')\<lparr>is_modified := True, answers := [Yes]\<rparr>))) = Some p \<and>
            files (fs (snd (verify_unsaved_changes (py_str ''exit'') ((file_editor [104] ''utf-8'')\<lparr>is_modified := True, answers := [Yes]\<rparr>)))) p = Some bs \<and>
            py_encode (current_encoding ((file_editor [104] ''utf-8'')\<lparr>is_modified := True, answers := [Yes]\<rparr>))
              (translate_newlines (linesep (fs ((file_editor [104] ''utf-8'')\<lparr>is_modified := True, answers := [Yes]\<rparr>)))
                (content (widget ((file_editor [104] ''utf-8'')\<lparr>is_modified := True, answers := [Yes]\<rparr>)) @ [newline])) =
              Inr bs))"
proof -
  let ?s = "(file_editor [104] ''utf-8'')\<lparr>is_modified := True, answers := [Yes]\<rparr>"
  have h1: "is_modified ?s" by simp
  let ?s1 = "?s\<lparr>rep := show_box BoxQuestion (py_str ''Unsaved Changes'')
                 (py_str ''Do you want to save changes before '' @ py_str ''exit'' @ py_str ''?'') (rep ?s),
               answers := []\<rparr>"
  have v: "verify_unsaved_changes (py_str ''exit'') ?s = save_file ?s1"
    by (simp add: verify_unsaved_changes_def ask_yes_no_cancel_def next_answer_def)
  have e: "py_encode (current_encoding ?s1) (translate_newlines (linesep (fs ?s1)) (content (widget ?s1) @ [newline])) =
             Inr [byte_of 104, byte_of 10]"
    by (simp add: init_editor_def empty_widget_def py_encode_def utf8_char_def)
  have "save_file ?s1 = (True, snd (save_file ?s1)) \<and>
        files (fs (snd (save_file ?s1))) demo_path = Some [byte_of 104, byte_of 10]"
    using save_file_written [of ?s1 demo_path "[byte_of 104, byte_of 10]"] e by (simp add: init_editor_def)
  then have h2: "verify_unsaved_changes (py_str ''exit'') ?s = (True, snd (verify_unsaved_changes (py_str ''exit'') ?s))"
    and f: "files (fs (snd (verify_unsaved_changes (py_str ''exit'') ?s))) demo_path = Some [byte_of 104, byte_of 10]"
    using v by simp_all
  show ?thesis
    using h1 h2 f unsaved_changes_never_lost [OF h1 h2] by blast
qed

end
