(* ===== verification/UndoHistory.thy ===== *)
theory UndoHistory
  imports Widget
begin

text \<open>
  What Tk's undo history means for the text. An atom has an effect on the text and an inverse;
  the history is consistent when reverting the undo stack, most recent atom first, is always
  possible and ends at a base text, and the redo stack can be replayed on the current text.
  Every widget command preserves consistency, which makes undo and redo inverse to each other.
\<close>

fun apply_text :: "edit_atom \<Rightarrow> ustr \<Rightarrow> ustr" where
  "apply_text (Ins i t) c = take i c @ t @ drop i c"
| "apply_text (Del i t) c = take i c @ drop (i + length t) c"

fun revert_text :: "edit_atom \<Rightarrow> ustr \<Rightarrow> ustr" where
  "revert_text (Ins i t) c = take i c @ drop (i + length t) c"
| "revert_text (Del i t) c = take i c @ t @ drop i c"

fun can_apply :: "edit_atom \<Rightarrow> ustr \<Rightarrow> bool" where
  "can_apply (Ins i t) c = (i \<le> length c)"
| "can_apply (Del i t) c = (i + length t \<le> length c \<and> take (length t) (drop i c) = t)"

fun can_revert :: "edit_atom \<Rightarrow> ustr \<Rightarrow> bool" where
  "can_revert (Ins i t) c = (i + length t \<le> length c \<and> take (length t) (drop i c) = t)"
| "can_revert (Del i t) c = (i \<le> length c)"

text \<open>Undo atoms most recent first, ending at \<open>base\<close>; redo atoms in the order they are replayed.\<close>

fun undo_ok :: "edit_atom list \<Rightarrow> ustr \<Rightarrow> ustr \<Rightarrow> bool" where
  "undo_ok [] c base = (c = base)"
| "undo_ok (a # as) c base = (can_revert a c \<and> undo_ok as (revert_text a c) base)"

fun redo_ok :: "edit_atom list \<Rightarrow> ustr \<Rightarrow> bool" where
  "redo_ok [] c = True"
| "redo_ok (a # as) c = (can_apply a c \<and> redo_ok as (apply_text a c))"

definition history_ok :: "ustr \<Rightarrow> text_widget \<Rightarrow> bool" where
  "history_ok base w \<longleftrightarrow>
     undo_ok (concat (undo_stack w)) (content w) base \<and> redo_ok (concat (redo_stack w)) (content w)"

subsection \<open>Atoms and their inverses\<close>

lemma revert_apply:
  "can_apply a c \<Longrightarrow> can_revert a (apply_text a c) \<and> revert_text a (apply_text a c) = c"
proof (cases a)
  case (Ins i t)
  moreover assume "can_apply a c"
  ultimately show ?thesis by (auto simp: min_def)
next
  case (Del i t)
  moreover assume "can_apply a c"
  moreover have "take i c @ take (length t) (drop i c) @ drop (i + length t) c = c"
    by (metis append_take_drop_id drop_drop add.commute)
  ultimately show ?thesis by (auto simp: min_def)
qed

lemma apply_revert:
  "can_revert a c \<Longrightarrow> can_apply a (revert_text a c) \<and> apply_text a (revert_text a c) = c"
proof (cases a)
  case (Ins i t)
  moreover assume "can_revert a c"
  moreover have "take i c @ take (length t) (drop i c) @ drop (i + length t) c = c"
    by (metis append_take_drop_id drop_drop add.commute)
  ultimately show ?thesis by (auto simp: min_def)
next
  case (Del i t)
  moreover assume "can_revert a c"
  ultimately show ?thesis by (auto simp: min_def)
qed

lemma undo_ok_append:
  "undo_ok (g @ as) c base \<longleftrightarrow> undo_ok g c (fold revert_text g c) \<and> undo_ok as (fold revert_text g c) base"
  by (induction g arbitrary: c) auto

lemma redo_ok_append:
  "redo_ok (g @ as) c \<longleftrightarrow> redo_ok g c \<and> redo_ok as (fold apply_text g c)"
  by (induction g arbitrary: c) auto

text \<open>Reverting a group makes it replayable, and replaying it gives the text back.\<close>

lemma revert_group_redo:
  "undo_ok g c (fold revert_text g c) \<Longrightarrow> redo_ok R c \<Longrightarrow>
   redo_ok (rev g @ R) (fold revert_text g c) \<and> fold apply_text (rev g) (fold revert_text g c) = c"
proof (induction g arbitrary: c R)
  case Nil
  then show ?case by simp
next
  case (Cons a g)
  have a: "can_apply a (revert_text a c)" "apply_text a (revert_text a c) = c"
    using apply_revert Cons.prems(1) by auto
  then have "redo_ok (a # R) (revert_text a c)"
    using Cons.prems(2) by simp
  with Cons.IH [of "revert_text a c" "a # R"] Cons.prems(1) a show ?case
    by simp
qed

lemma apply_group_undo:
  "redo_ok g c \<Longrightarrow> undo_ok U c base \<Longrightarrow>
   undo_ok (rev g @ U) (fold apply_text g c) base \<and> fold revert_text (rev g) (fold apply_text g c) = c"
proof (induction g arbitrary: c U)
  case Nil
  then show ?case by simp
next
  case (Cons a g)
  have a: "can_revert a (apply_text a c)" "revert_text a (apply_text a c) = c"
    using revert_apply Cons.prems(1) by auto
  then have "undo_ok (a # U) (apply_text a c) base"
    using Cons.prems(2) by simp
  with Cons.IH [of "apply_text a c" "a # U"] Cons.prems(1) a show ?case
    by simp
qed

subsection \<open>The widget commands keep the history consistent\<close>

lemma history_ok_frame:
  "content w' = content w \<Longrightarrow> undo_stack w' = undo_stack w \<Longrightarrow> redo_stack w' = redo_stack w \<Longrightarrow>
   history_ok base w' = history_ok base w"
  by (simp add: history_ok_def)

lemma view_commands_history [simp]:
  "history_ok base (tag_remove_found w) = history_ok base w"
  "history_ok base (tag_add_found a b w) = history_ok base w"
  "history_ok base (see i w) = history_ok base w"
  "history_ok base (focus_set w) = history_ok base w"
  "history_ok base (edit_separator w) = history_ok base w"
  "history_ok base (select_whole w) = history_ok base w"
  "history_ok base (mark_set_insert i w) = history_ok base w"
  "history_ok base (clipboard_clear w) = history_ok base w"
  "history_ok base (clipboard_append t w) = history_ok base w"
  "history_ok base (w\<lparr>seen := v\<rparr>) = history_ok base w"
  by (simp_all add: history_ok_def tag_remove_found_def tag_add_found_def see_def focus_set_def
                    edit_separator_def select_whole_def mark_set_insert_def clipboard_clear_def
                    clipboard_append_def)

lemma push_undo_stacks:
  "concat (undo_stack (push_undo b a w)) = a # concat (undo_stack w)"
  "redo_stack (push_undo b a w) = []"
  by (simp_all add: push_undo_def split: list.splits)

lemma raw_insert_view:
  "content (raw_insert i s w) = apply_text (Ins i s) (content w)"
  "undo_stack (raw_insert i s w) = undo_stack w" "redo_stack (raw_insert i s w) = redo_stack w"
  by (simp_all add: raw_insert_def)

lemma raw_delete_view:
  "content (raw_delete i (i + length t) w) = apply_text (Del i t) (content w)"
  "undo_stack (raw_delete a b w) = undo_stack w" "redo_stack (raw_delete a b w) = redo_stack w"
  by (simp_all add: raw_delete_def)

text \<open>A recorded edit whose atom applies to the text keeps the history consistent.\<close>

lemma history_ok_record:
  assumes "history_ok base w" and "can_apply a (content w)"
    and "content w' = apply_text a (content w)" and "concat (undo_stack w') = a # concat (undo_stack w)"
    and "redo_stack w' = []"
  shows "history_ok base w'"
  using assms revert_apply [OF assms(2)] by (simp add: history_ok_def)

lemma history_ok_tk_insert:
  assumes ok: "history_ok base w"
  shows "history_ok base (tk_insert b i s w)"
proof (cases "s = []")
  case True
  with ok show ?thesis by (simp add: tk_insert_def)
next
  case False
  let ?i = "min i (length (content w))"
  have "history_ok base (push_undo b (Ins ?i s) (raw_insert ?i s w))"
    by (rule history_ok_record [OF ok]) (simp_all add: push_undo_stacks raw_insert_view)
  with False show ?thesis by (simp add: tk_insert_def Let_def)
qed

lemma history_ok_tk_delete:
  assumes ok: "history_ok base w"
  shows "history_ok base (tk_delete b x y w)"
proof -
  let ?n = "length (content w)"
  let ?a = "min x ?n" and ?b = "min y ?n"
  let ?t = "take (?b - ?a) (drop ?a (content w))"
  show ?thesis
  proof (cases "?b \<le> ?a")
    case True
    with ok show ?thesis by (simp add: tk_delete_def Let_def)
  next
    case False
    then have ab: "?a + length ?t = ?b" by auto
    have c: "content (raw_delete ?a ?b w) = apply_text (Del ?a ?t) (content w)"
      by (simp only: apply_text.simps ab) (simp add: raw_delete_def)
    have len: "length ?t = ?b - ?a"
      using False by (auto simp: min_def)
    have can: "can_apply (Del ?a ?t) (content w)"
      by (simp only: can_apply.simps len) (use False in \<open>auto simp: min_def\<close>)
    have "history_ok base (push_undo b (Del ?a ?t) (raw_delete ?a ?b w))"
      by (rule history_ok_record [OF ok can]) (simp_all add: c push_undo_stacks raw_delete_view)
    with False show ?thesis by (simp add: tk_delete_def Let_def)
  qed
qed

lemma history_ok_insert_text: "history_ok base w \<Longrightarrow> history_ok base (insert_text i s w)"
  by (simp add: insert_text_def history_ok_tk_insert)

lemma history_ok_delete_range: "history_ok base w \<Longrightarrow> history_ok base (delete_range a b w)"
  by (simp add: delete_range_def history_ok_tk_delete)

lemma history_ok_delete_all: "history_ok base w \<Longrightarrow> history_ok base (delete_all w)"
  by (simp add: delete_all_def history_ok_delete_range)

lemma history_ok_type_char: "history_ok base w \<Longrightarrow> history_ok base (type_char ch w)"
  unfolding type_char_def Let_def
  by (auto simp: history_ok_tk_insert history_ok_tk_delete history_ok_insert_text
           split: option.splits prod.splits)

subsection \<open>Undo and redo on a consistent history\<close>

lemma revert_atom_view:
  "content (revert_atom a w) = revert_text a (content w) \<and>
   undo_stack (revert_atom a w) = undo_stack w \<and> redo_stack (revert_atom a w) = redo_stack w \<and>
   last_mode (revert_atom a w) = last_mode w"
  by (cases a) (simp_all add: revert_atom_def raw_delete_def raw_insert_def)

lemma apply_atom_view:
  "content (apply_atom a w) = apply_text a (content w) \<and>
   undo_stack (apply_atom a w) = undo_stack w \<and> redo_stack (apply_atom a w) = redo_stack w \<and>
   last_mode (apply_atom a w) = last_mode w"
  by (cases a) (simp_all add: apply_atom_def raw_delete_def raw_insert_def)

lemma fold_revert_view:
  "content (fold revert_atom g w) = fold revert_text g (content w) \<and>
   undo_stack (fold revert_atom g w) = undo_stack w \<and> redo_stack (fold revert_atom g w) = redo_stack w \<and>
   last_mode (fold revert_atom g w) = last_mode w"
  by (induction g arbitrary: w) (simp_all add: revert_atom_view)

lemma fold_apply_view:
  "content (fold apply_atom g w) = fold apply_text g (content w) \<and>
   undo_stack (fold apply_atom g w) = undo_stack w \<and> redo_stack (fold apply_atom g w) = redo_stack w \<and>
   last_mode (fold apply_atom g w) = last_mode w"
  by (induction g arbitrary: w) (simp_all add: apply_atom_view)

lemma tk_edit_undo_Inr:
  assumes "tk_edit_undo w = Inr (r, w')"
  obtains g gs where "undo_stack w = g # gs" and "r = []"
    and "content w' = fold revert_text g (content w)" and "undo_stack w' = gs"
    and "redo_stack w' = rev g # redo_stack w" and "undo_open w'" and "last_mode w' = last_mode w"
  using assms fold_revert_view [of g "w\<lparr>undo_stack := gs\<rparr>" for g gs]
  by (cases "undo_stack w") (auto simp: tk_edit_undo_def)

lemma tk_edit_redo_Inr:
  assumes "tk_edit_redo w = Inr (r, w')"
  obtains g gs where "redo_stack w = g # gs" and "r = []"
    and "content w' = fold apply_text g (content w)" and "redo_stack w' = gs"
    and "undo_stack w' = rev g # undo_stack w" and "\<not> undo_open w'"
  using assms fold_apply_view [of g "w\<lparr>redo_stack := gs\<rparr>" for g gs]
  by (cases "redo_stack w") (auto simp: tk_edit_redo_def)

lemma history_ok_undo:
  assumes ok: "history_ok base w" and u: "tk_edit_undo w = Inr (r, w')"
  shows "history_ok base w'"
proof -
  from u obtain g gs where st: "undo_stack w = g # gs" and c: "content w' = fold revert_text g (content w)"
    and us: "undo_stack w' = gs" and rs: "redo_stack w' = rev g # redo_stack w"
    by (rule tk_edit_undo_Inr)
  from ok st have g: "undo_ok g (content w) (fold revert_text g (content w))"
    and rest: "undo_ok (concat gs) (fold revert_text g (content w)) base"
    by (simp_all add: history_ok_def undo_ok_append)
  have "redo_ok (rev g @ concat (redo_stack w)) (fold revert_text g (content w))"
    using revert_group_redo [OF g] ok by (simp add: history_ok_def)
  with rest c us rs show ?thesis by (simp add: history_ok_def)
qed

lemma history_ok_redo:
  assumes ok: "history_ok base w" and u: "tk_edit_redo w = Inr (r, w')"
  shows "history_ok base w'"
proof -
  from u obtain g gs where st: "redo_stack w = g # gs" and c: "content w' = fold apply_text g (content w)"
    and rs: "redo_stack w' = gs" and us: "undo_stack w' = rev g # undo_stack w"
    by (rule tk_edit_redo_Inr)
  from ok st have g: "redo_ok g (content w)" and rest: "redo_ok (concat gs) (fold apply_text g (content w))"
    by (simp_all add: history_ok_def redo_ok_append)
  have "undo_ok (rev g @ concat (undo_stack w)) (fold apply_text g (content w)) base"
    using apply_group_undo [OF g] ok by (simp add: history_ok_def)
  with rest c us rs show ?thesis by (simp add: history_ok_def)
qed

text \<open>Redo right after an undo gives back the text and both stacks.\<close>

lemma undo_then_redo:
  assumes ok: "history_ok base w" and u: "tk_edit_undo w = Inr (r, w1)"
  shows "\<exists>w2. tk_edit_redo w1 = Inr ([], w2) \<and> content w2 = content w \<and>
              undo_stack w2 = undo_stack w \<and> redo_stack w2 = redo_stack w"
proof -
  from u obtain g gs where st: "undo_stack w = g # gs" and c: "content w1 = fold revert_text g (content w)"
    and us: "undo_stack w1 = gs" and rs: "redo_stack w1 = rev g # redo_stack w"
    by (rule tk_edit_undo_Inr)
  from ok st have g: "undo_ok g (content w) (fold revert_text g (content w))"
    by (simp add: history_ok_def undo_ok_append)
  have restore: "fold apply_text (rev g) (fold revert_text g (content w)) = content w"
    using revert_group_redo [OF g, of "[]"] by simp
  obtain w2 where r2: "tk_edit_redo w1 = Inr ([], w2)"
    using rs by (simp add: tk_edit_redo_def)
  then obtain g' gs' where "redo_stack w1 = g' # gs'" "content w2 = fold apply_text g' (content w1)"
      "redo_stack w2 = gs'" "undo_stack w2 = rev g' # undo_stack w1"
    by (rule tk_edit_redo_Inr)
  with rs c us st restore r2 show ?thesis by auto
qed

lemma fold_revert_sel:
  "tk_edit_undo w = Inr (r, w') \<Longrightarrow> sel w = None \<Longrightarrow> sel w' = None"
proof -
  have "sel w = None \<Longrightarrow> sel (fold revert_atom g w) = None" for g w
  proof (induction g arbitrary: w)
    case (Cons a g)
    then show ?case
      by (cases a) (simp_all add: revert_atom_def raw_delete_def raw_insert_def sel_clip_def)
  qed simp
  then show "tk_edit_undo w = Inr (r, w') \<Longrightarrow> sel w = None \<Longrightarrow> sel w' = None"
    by (auto simp: tk_edit_undo_def split: list.splits)
qed

end
