(* ===== verification/EditOps.thy ===== *)
theory EditOps
  imports Editor UndoHistory
begin

text \<open>
  The edit operations (\<open>src/operations/edit_operations.py\<close>, class \<open>EditOperations\<close>):
  each handler calls the widget's undo, selection and clipboard commands inside a \<open>try\<close>
  whose \<open>except\<close> reports to \<open>handle_error\<close> without a dialog. The Tcl errors those
  commands raise (\<open>TclError\<close>) are the left values of the widget model.
\<close>

definition tcl_error :: "ustr \<Rightarrow> py_exc" where
  "tcl_error m = \<lparr>exc_type = py_str ''TclError'', exc_msg = m\<rparr>"

text \<open>
  \<open>undo\<close> (lines 22--28) and \<open>redo\<close> (lines 30--36): Python tests the truth value of
  the command's result (the empty string on success) before calling \<open>edit_separator()\<close>.
\<close>

definition undo :: "editor \<Rightarrow> editor" where
  "undo s =
     (case tk_edit_undo (widget s) of
        Inl m \<Rightarrow> s\<lparr>rep := handle_error (py_str ''undo'') (tcl_error m) False (rep s)\<rparr>
      | Inr (res, w) \<Rightarrow> s\<lparr>widget := (if res \<noteq> [] then edit_separator w else w)\<rparr>)"

definition redo :: "editor \<Rightarrow> editor" where
  "redo s =
     (case tk_edit_redo (widget s) of
        Inl m \<Rightarrow> s\<lparr>rep := handle_error (py_str ''redo'') (tcl_error m) False (rep s)\<rparr>
      | Inr (res, w) \<Rightarrow> s\<lparr>widget := (if res \<noteq> [] then edit_separator w else w)\<rparr>)"

text \<open>
  \<open>copy\<close> (lines 38--46): with a selection, the clipboard is cleared and receives
  \<open>get(SEL_FIRST, SEL_LAST)\<close>; \<open>tag_ranges(SEL)\<close> is an empty tuple otherwise.
\<close>

definition copy :: "editor \<Rightarrow> editor" where
  "copy s =
     (case sel (widget s) of
        None \<Rightarrow> s
      | Some (a, b) \<Rightarrow>
          s\<lparr>widget := clipboard_append (tk_get a b (widget s)) (clipboard_clear (widget s))\<rparr>)"

text \<open>\<open>cut\<close> (lines 48--55): \<open>copy\<close>, then \<open>delete(SEL_FIRST, SEL_LAST)\<close>.\<close>

definition cut :: "editor \<Rightarrow> editor" where
  "cut s =
     (case sel (widget s) of
        None \<Rightarrow> s
      | Some (a, b) \<Rightarrow> (let s1 = copy s in s1\<lparr>widget := delete_range a b (widget s1)\<rparr>))"

text \<open>\<open>paste\<close> (lines 57--64): \<open>clipboard_get()\<close>, inserted at the cursor when not empty.\<close>

definition paste :: "editor \<Rightarrow> editor" where
  "paste s =
     (case clipboard_get (widget s) of
        Inl m \<Rightarrow> s\<lparr>rep := handle_error (py_str ''paste'') (tcl_error m) False (rep s)\<rparr>
      | Inr t \<Rightarrow> if t \<noteq> [] then s\<lparr>widget := insert_text (insert_mark (widget s)) t (widget s)\<rparr> else s)"

text \<open>\<open>select_all\<close> (lines 66--73): select to \<open>END\<close>, cursor to \<open>"1.0"\<close>, \<open>see(INSERT)\<close>.\<close>

definition select_all :: "editor \<Rightarrow> editor" where
  "select_all s =
     (let w1 = mark_set_insert 0 (select_whole (widget s)) in s\<lparr>widget := see (insert_mark w1) w1\<rparr>)"

text \<open>A document typed into a fresh editor, for the runs below.\<close>

abbreviation edit_demo :: editor where
  "edit_demo \<equiv> (init_editor \<lparr>files = Map.empty, read_only = {}, unreadable = {}, linesep = [newline]\<rparr>
                  fresh_reporter)\<lparr>widget := insert_text 0 [104, 105] empty_widget\<rparr>"

subsection \<open>Undo and redo\<close>

lemma undo_Inr:
  "tk_edit_undo (widget s) = Inr (r, w) \<Longrightarrow> undo s = s\<lparr>widget := w\<rparr>"
  using tk_edit_undo_Inr [of "widget s" r w] by (auto simp: undo_def)

lemma redo_Inr:
  "tk_edit_redo (widget s) = Inr (r, w) \<Longrightarrow> redo s = s\<lparr>widget := w\<rparr>"
  using tk_edit_redo_Inr [of "widget s" r w] by (auto simp: redo_def)

lemma undo_Cons:
  assumes "undo_stack (widget s) = g # gs"
  shows "content (widget (undo s)) = fold revert_text g (content (widget s)) \<and>
         undo_stack (widget (undo s)) = gs \<and> current_file (undo s) = current_file s"
proof -
  obtain r w where u: "tk_edit_undo (widget s) = Inr (r, w)"
    using assms by (simp add: tk_edit_undo_def)
  then obtain g' gs' where "undo_stack (widget s) = g' # gs'"
      and "content w = fold revert_text g' (content (widget s))" and "undo_stack w = gs'"
    by (rule tk_edit_undo_Inr)
  then show ?thesis
    using assms by (simp add: undo_Inr [OF u])
qed

text \<open>
  C31. The \<open>edit_separator()\<close> calls of \<open>undo\<close> and \<open>redo\<close> never run: Tk's
  \<open>edit undo\<close> and \<open>edit redo\<close> return the empty string, whose truth value is false,
  so both handlers are equal to a bare call of the widget command. After an undo this leaves
  the undo stack without a separator on top (\<open>edit_separator\<close> would have closed it).
\<close>

theorem undo_redo_separator_dead:
  "undo s = (case tk_edit_undo (widget s) of
               Inl m \<Rightarrow> s\<lparr>rep := handle_error (py_str ''undo'') (tcl_error m) False (rep s)\<rparr>
             | Inr (r, w) \<Rightarrow> s\<lparr>widget := w\<rparr>) \<and>
   redo s = (case tk_edit_redo (widget s) of
               Inl m \<Rightarrow> s\<lparr>rep := handle_error (py_str ''redo'') (tcl_error m) False (rep s)\<rparr>
             | Inr (r, w) \<Rightarrow> s\<lparr>widget := w\<rparr>)"
proof -
  have u: "undo s = (case tk_edit_undo (widget s) of
               Inl m \<Rightarrow> s\<lparr>rep := handle_error (py_str ''undo'') (tcl_error m) False (rep s)\<rparr>
             | Inr (r, w) \<Rightarrow> s\<lparr>widget := w\<rparr>)"
  proof (cases "tk_edit_undo (widget s)")
    case (Inl m)
    then show ?thesis by (simp add: undo_def)
  next
    case (Inr p)
    then obtain r w where "tk_edit_undo (widget s) = Inr (r, w)" by (cases p) auto
    then show ?thesis by (simp add: undo_Inr)
  qed
  have r: "redo s = (case tk_edit_redo (widget s) of
               Inl m \<Rightarrow> s\<lparr>rep := handle_error (py_str ''redo'') (tcl_error m) False (rep s)\<rparr>
             | Inr (r, w) \<Rightarrow> s\<lparr>widget := w\<rparr>)"
  proof (cases "tk_edit_redo (widget s)")
    case (Inl m)
    then show ?thesis by (simp add: redo_def)
  next
    case (Inr p)
    then obtain r w where "tk_edit_redo (widget s) = Inr (r, w)" by (cases p) auto
    then show ?thesis by (simp add: redo_Inr)
  qed
  from u r show ?thesis ..
qed

text \<open>
  C32. The undo-group boundary the spec promises after an undo is missing: when the last edit
  before the undo was an insertion, a character typed after a successful undo (with nothing
  selected) joins the group below the one undone, so the next undo reverts it together with
  that older group (for instance the deletion of a Cut).
\<close>

theorem typing_after_undo_merges:
  assumes "undo_stack (widget s) = g # g' # gs" and "sel (widget s) = None"
    and "last_mode (widget s) = Some ModeInsert"
  shows "undo_stack (type_char ch (widget (undo s))) =
           (Ins (min (insert_mark (widget (undo s))) (length (content (widget (undo s))))) [ch] # g') # gs"
proof -
  obtain r w where u: "tk_edit_undo (widget s) = Inr (r, w)"
    using assms(1) by (simp add: tk_edit_undo_def)
  then obtain g0 gs0 where "undo_stack (widget s) = g0 # gs0" and "undo_stack w = gs0"
      and "undo_open w" and "last_mode w = last_mode (widget s)"
    by (rule tk_edit_undo_Inr)
  with assms(1,3) have "undo_stack w = g' # gs" "undo_open w" "last_mode w = Some ModeInsert"
    by simp_all
  moreover have "sel w = None"
    using u assms(2) fold_revert_sel by simp
  ultimately show ?thesis
    by (simp add: undo_Inr [OF u] type_char_no_sel insert_text_def tk_insert_def push_undo_def
                  raw_insert_def Let_def)
qed

text \<open>
  C33. Redo right after a successful Undo gives back the text and leaves both undo stacks as
  they were, whenever the history is consistent (which C38 shows for every state of the
  editor).
\<close>

theorem redo_undo_roundtrip:
  assumes "history_ok base (widget s)" and "undo_stack (widget s) \<noteq> []"
  shows "content (widget (redo (undo s))) = content (widget s) \<and>
         undo_stack (widget (redo (undo s))) = undo_stack (widget s) \<and>
         redo_stack (widget (redo (undo s))) = redo_stack (widget s)"
proof -
  obtain r w1 where u: "tk_edit_undo (widget s) = Inr (r, w1)"
    using assms(2) by (cases "undo_stack (widget s)") (auto simp: tk_edit_undo_def)
  obtain w2 where r: "tk_edit_redo w1 = Inr ([], w2)" and eq: "content w2 = content (widget s)"
      "undo_stack w2 = undo_stack (widget s)" "redo_stack w2 = redo_stack (widget s)"
    using undo_then_redo [OF assms(1) u] by blast
  have "tk_edit_redo (widget (undo s)) = Inr ([], w2)"
    using r by (simp add: undo_Inr [OF u])
  then show ?thesis
    using eq by (simp add: redo_Inr)
qed

subsection \<open>Selection and clipboard\<close>

lemma select_all_widget:
  "sel (widget (select_all s)) = Some (0, Suc (length (content (widget s)))) \<and>
   insert_mark (widget (select_all s)) = 0 \<and> content (widget (select_all s)) = content (widget s) \<and>
   clipboard (widget (select_all s)) = clipboard (widget s)"
  by (simp add: select_all_def select_whole_def mark_set_insert_def see_def)

lemma cut_sel:
  assumes "sel (widget s) = Some (a, b)"
  shows "content (widget (cut s)) = content (delete_range a b (widget s)) \<and>
         clipboard (widget (cut s)) = Some (tk_get a b (widget s)) \<and>
         insert_mark (widget (cut s)) = insert_mark (delete_range a b (widget s))"
  using assms
  by (simp add: cut_def copy_def clipboard_append_def clipboard_clear_def delete_range_def
                tk_delete_def raw_delete_def Let_def)

text \<open>
  C34. Select All, Cut, Paste does not give the text back: the selection reaches \<open>END\<close>, so
  the final newline is cut into the clipboard with the text, while the buffer keeps its final
  newline; pasting adds the text followed by a newline.
\<close>

theorem select_all_cut_paste_adds_newline:
  "content (widget (paste (cut (select_all s)))) = content (widget s) @ [newline]"
proof -
  let ?c = "content (widget s)"
  have cut: "content (widget (cut (select_all s))) = [] \<and>
             clipboard (widget (cut (select_all s))) = Some (?c @ [newline])"
    using cut_sel [of "select_all s" 0 "Suc (length ?c)"] select_all_widget [of s]
    by (simp add: delete_range_content tk_get_def get_all_def)
  then show ?thesis
    by (simp add: paste_def clipboard_get_def)
qed

lemma undo_clipboard: "clipboard (widget (undo s)) = clipboard (widget s)"
proof -
  have "clipboard (fold revert_atom g w) = clipboard w" for g w
    by (induction g arbitrary: w) (simp_all add: revert_atom_def raw_delete_def raw_insert_def split: edit_atom.splits)
  then show ?thesis
    by (simp add: undo_def tk_edit_undo_def edit_separator_def split: list.splits)
qed

lemma splice_back:
  assumes "a \<le> b" and "b \<le> length c"
  shows "revert_text (Del a (take (b - a) (drop a c))) (take a c @ drop b c) = c"
proof -
  have "take a c @ take (b - a) (drop a c) = take b c"
    using take_add [of a "b - a" c] assms(1) by simp
  then have "take a c @ take (b - a) (drop a c) @ drop b c = take b c @ drop b c"
    by (metis append.assoc)
  then show ?thesis using assms by simp
qed

lemma cut_undo_stack:
  assumes "sel (widget s) = Some (a, b)" and "a < length (content (widget s))" and "a < b"
    and "\<not> (undo_open (widget s) \<and> last_mode (widget s) = Some ModeDelete)"
  shows "undo_stack (widget (cut s)) =
           [Del a (take (min b (length (content (widget s))) - a) (drop a (content (widget s))))] #
           undo_stack (widget s)"
  using assms
  by (auto simp: cut_def copy_def clipboard_append_def clipboard_clear_def delete_range_def tk_delete_def
                 push_undo_def raw_delete_def Let_def split: list.splits)

lemma handle_error_no_box:
  "log_level r = INFO \<Longrightarrow>
   log_lines (handle_error op e False r) = log_lines r @ [(ERROR, py_str ''Error en '' @ op @ py_str '': '' @ exc_msg e)] \<and>
   dialogs (handle_error op e False r) = dialogs r"
  by (simp add: handle_error_def log_emit_def Let_def)

text \<open>
  C35. The failures of the edit commands are logged and hidden: Undo with an empty undo stack
  and Paste while nobody owns the clipboard raise \<open>TclError\<close>, which the handlers log at
  \<open>ERROR\<close> without a dialog; the widget is left as it was.
\<close>

theorem undo_paste_errors_logged:
  assumes "log_level (rep s) = INFO" and "undo_stack (widget s) = []" and "clipboard (widget s) = None"
  shows "widget (undo s) = widget s \<and> dialogs (rep (undo s)) = dialogs (rep s) \<and>
         log_lines (rep (undo s)) =
           log_lines (rep s) @ [(ERROR, py_str ''Error en '' @ py_str ''undo'' @ py_str '': '' @ py_str ''nothing to undo'')] \<and>
         widget (paste s) = widget s \<and> dialogs (rep (paste s)) = dialogs (rep s) \<and>
         log_lines (rep (paste s)) =
           log_lines (rep s) @ [(ERROR, py_str ''Error en '' @ py_str ''paste'' @ py_str '': '' @
             exc_msg (tcl_error (py_str ''CLIPBOARD selection doesn't exist or form '' @ [34] @
               py_str ''STRING'' @ [34] @ py_str '' not defined'')))]"
  using assms handle_error_no_box [OF assms(1)]
  by (simp add: undo_def paste_def tk_edit_undo_def clipboard_get_def tcl_error_def)

text \<open>
  C39. Paste does not operate on the selection: it inserts the clipboard's text at the cursor
  whether or not something is selected, and a selection is shifted, not replaced (the spec
  calls copy, cut and paste no-ops when nothing is selected).
\<close>

theorem paste_ignores_selection:
  assumes "clipboard (widget s) = Some t"
  shows "content (widget (paste s)) =
           take (insert_mark (widget s)) (content (widget s)) @ t @ drop (insert_mark (widget s)) (content (widget s)) \<and>
         sel (widget (paste s)) =
           map_option (shift_range (min (insert_mark (widget s)) (length (content (widget s)))) (length t)) (sel (widget s))"
proof (cases "t = []")
  case True
  have "shift_range i 0 = id" for i by (rule ext) auto
  with True assms show ?thesis by (simp add: paste_def clipboard_get_def option.map_id)
next
  case False
  with assms show ?thesis
    by (simp add: paste_def clipboard_get_def insert_text_def tk_insert_def raw_insert_def Let_def)
qed

text \<open>
  C40. Undo right after a Cut gives back the text that was cut and leaves the undo history as
  before the Cut, while the clipboard keeps the cut text; this needs the last recorded edit not
  to be an open deletion group, which Tk's automatic separators would merge the Cut into.
\<close>

theorem cut_then_undo_restores:
  assumes "sel (widget s) = Some (a, b)" and "a < length (content (widget s))" and "a < b"
    and "\<not> (undo_open (widget s) \<and> last_mode (widget s) = Some ModeDelete)"
  shows "content (widget (undo (cut s))) = content (widget s) \<and>
         clipboard (widget (undo (cut s))) = Some (tk_get a b (widget s)) \<and>
         undo_stack (widget (undo (cut s))) = undo_stack (widget s)"
proof -
  let ?c = "content (widget s)" and ?b = "min b (length (content (widget s)))"
  have cut: "content (widget (cut s)) = take a ?c @ drop ?b ?c" "clipboard (widget (cut s)) = Some (tk_get a b (widget s))"
    using cut_sel [OF assms(1)] assms(2,3)
    by (simp_all add: delete_range_def tk_delete_def raw_delete_def Let_def)
  have u: "content (widget (undo (cut s))) = fold revert_text [Del a (take (?b - a) (drop a ?c))] (content (widget (cut s))) \<and>
           undo_stack (widget (undo (cut s))) = undo_stack (widget s)"
    using undo_Cons [OF cut_undo_stack [OF assms]] by simp
  have "clipboard (widget (undo (cut s))) = clipboard (widget (cut s))"
    by (simp add: undo_clipboard)
  moreover have "?b \<le> length ?c" "a \<le> ?b" using assms(2,3) by simp_all
  ultimately show ?thesis
    using cut u splice_back [of a ?b ?c] by simp
qed
subsection \<open>Runs at a concrete state\<close>

theorem typing_after_undo_merges_witness:
  "undo_stack (widget (edit_demo\<lparr>widget := insert_text 1 [99] (delete_range 0 1 (widget edit_demo))\<rparr>)) =
     [Ins 1 [99]] # [Del 0 [104]] # [[Ins 0 [104, 105]]] \<and>
   sel (widget (edit_demo\<lparr>widget := insert_text 1 [99] (delete_range 0 1 (widget edit_demo))\<rparr>)) = None \<and>
   last_mode (widget (edit_demo\<lparr>widget := insert_text 1 [99] (delete_range 0 1 (widget edit_demo))\<rparr>)) =
     Some ModeInsert \<and>
   undo_stack (type_char 120 (widget (undo (edit_demo\<lparr>widget := insert_text 1 [99]
                                                     (delete_range 0 1 (widget edit_demo))\<rparr>)))) =
     [[Ins 1 [120], Del 0 [104]], [Ins 0 [104, 105]]]"
proof -
  let ?s = "edit_demo\<lparr>widget := insert_text 1 [99] (delete_range 0 1 (widget edit_demo))\<rparr>"
  have h1: "undo_stack (widget ?s) = [Ins 1 [99]] # [Del 0 [104]] # [[Ins 0 [104, 105]]]"
    and h2: "sel (widget ?s) = None" and h3: "last_mode (widget ?s) = Some ModeInsert"
    by (simp_all add: insert_text_def delete_range_def tk_insert_def tk_delete_def push_undo_def
                      raw_insert_def raw_delete_def touch_def empty_widget_def sel_clip_def Let_def)
  have m: "insert_mark (widget (undo ?s)) = 1" "length (content (widget (undo ?s))) = 1"
    by (simp_all add: undo_def tk_edit_undo_def revert_atom_def insert_text_def delete_range_def
                      tk_insert_def tk_delete_def push_undo_def raw_insert_def raw_delete_def touch_def
                      empty_widget_def Let_def)
  show ?thesis
    using h1 h2 h3 typing_after_undo_merges [OF h1 h2 h3] m by simp
qed

theorem redo_undo_roundtrip_witness:
  "history_ok [] (widget edit_demo) \<and> undo_stack (widget edit_demo) \<noteq> [] \<and>
   content (widget (redo (undo edit_demo))) = content (widget edit_demo) \<and>
   undo_stack (widget (redo (undo edit_demo))) = undo_stack (widget edit_demo) \<and>
   redo_stack (widget (redo (undo edit_demo))) = redo_stack (widget edit_demo)"
proof -
  have h1: "history_ok [] (widget edit_demo)"
    by (simp add: insert_text_def tk_insert_def push_undo_def raw_insert_def touch_def empty_widget_def
                  history_ok_def Let_def)
  have h2: "undo_stack (widget edit_demo) \<noteq> []"
    by (simp add: insert_text_def tk_insert_def push_undo_def raw_insert_def empty_widget_def Let_def)
  show ?thesis using h1 h2 redo_undo_roundtrip [OF h1 h2] by blast
qed

theorem undo_paste_errors_logged_witness:
  "log_level (rep edit_demo) = INFO \<and> undo_stack (widget (edit_demo\<lparr>widget := empty_widget\<rparr>)) = [] \<and>
   clipboard (widget (edit_demo\<lparr>widget := empty_widget\<rparr>)) = None \<and>
   log_lines (rep (undo (edit_demo\<lparr>widget := empty_widget\<rparr>))) =
     log_lines (rep edit_demo) @ [(ERROR, py_str ''Error en '' @ py_str ''undo'' @ py_str '': '' @ py_str ''nothing to undo'')]"
proof -
  have h1: "log_level (rep (edit_demo\<lparr>widget := empty_widget\<rparr>)) = INFO"
    by (simp add: init_editor_def log_emit_def Let_def)
  have h2: "undo_stack (widget (edit_demo\<lparr>widget := empty_widget\<rparr>)) = []"
    by (simp add: empty_widget_def)
  have h3: "clipboard (widget (edit_demo\<lparr>widget := empty_widget\<rparr>)) = None"
    by (simp add: empty_widget_def)
  show ?thesis using h1 h2 h3 undo_paste_errors_logged [OF h1 h2 h3] by simp
qed
theorem paste_ignores_selection_witness:
  "clipboard (widget (edit_demo\<lparr>widget := (widget edit_demo)\<lparr>clipboard := Some [120]\<rparr>\<rparr>)) = Some [120] \<and>
   content (widget (paste (edit_demo\<lparr>widget := (widget edit_demo)\<lparr>clipboard := Some [120]\<rparr>\<rparr>))) = [104, 105, 120]"
proof -
  have h1: "clipboard (widget (edit_demo\<lparr>widget := (widget edit_demo)\<lparr>clipboard := Some [120]\<rparr>\<rparr>)) = Some [120]"
    by simp
  show ?thesis using h1 paste_ignores_selection [OF h1]
    by (simp add: insert_text_def tk_insert_def raw_insert_def push_undo_def empty_widget_def Let_def)
qed

theorem cut_then_undo_restores_witness:
  "sel (widget (edit_demo\<lparr>widget := (widget edit_demo)\<lparr>sel := Some (0, 1)\<rparr>\<rparr>)) = Some (0, 1) \<and>
   0 < length (content (widget (edit_demo\<lparr>widget := (widget edit_demo)\<lparr>sel := Some (0, 1)\<rparr>\<rparr>))) \<and> (0::nat) < 1 \<and>
   \<not> (undo_open (widget (edit_demo\<lparr>widget := (widget edit_demo)\<lparr>sel := Some (0, 1)\<rparr>\<rparr>)) \<and>
      last_mode (widget (edit_demo\<lparr>widget := (widget edit_demo)\<lparr>sel := Some (0, 1)\<rparr>\<rparr>)) = Some ModeDelete) \<and>
   content (widget (undo (cut (edit_demo\<lparr>widget := (widget edit_demo)\<lparr>sel := Some (0, 1)\<rparr>\<rparr>)))) = [104, 105] \<and>
   clipboard (widget (undo (cut (edit_demo\<lparr>widget := (widget edit_demo)\<lparr>sel := Some (0, 1)\<rparr>\<rparr>)))) = Some [104]"
proof -
  have h1: "sel (widget (edit_demo\<lparr>widget := (widget edit_demo)\<lparr>sel := Some (0, 1)\<rparr>\<rparr>)) = Some (0, 1)"
    by simp
  have h2: "0 < length (content (widget (edit_demo\<lparr>widget := (widget edit_demo)\<lparr>sel := Some (0, 1)\<rparr>\<rparr>)))"
    by (simp add: empty_widget_def)
  have h3: "(0::nat) < 1" by simp
  have h4: "\<not> (undo_open (widget (edit_demo\<lparr>widget := (widget edit_demo)\<lparr>sel := Some (0, 1)\<rparr>\<rparr>)) \<and>
      last_mode (widget (edit_demo\<lparr>widget := (widget edit_demo)\<lparr>sel := Some (0, 1)\<rparr>\<rparr>)) = Some ModeDelete)"
    by (simp add: insert_text_def tk_insert_def raw_insert_def push_undo_def empty_widget_def Let_def)
  show ?thesis using h1 h2 h3 h4 cut_then_undo_restores [OF h1 h2 h3 h4]
    by (simp add: tk_get_def get_all_def insert_text_def tk_insert_def raw_insert_def push_undo_def
                  empty_widget_def Let_def)
qed

end
