(* ===== verification/Dialogs.thy ===== *)
theory Dialogs
  imports Editor
begin

text \<open>
  The Help menu's dialogs (\<open>src/manager/dialog_manager.py\<close>, class \<open>DialogManager\<close>):
  two information boxes with fixed texts, and the user manual opened in the web browser. The
  texts are the source's literals as code points (225 is U+00E1, 237 U+00ED, 250 U+00FA, 169 the
  copyright sign). \<open>webbrowser.open\<close> reports a missing browser by returning \<open>False\<close>,
  which the code ignores; it raises no exception the model would have to catch, so the
  \<open>except\<close> branch of \<open>open_manual\<close> has no counterpart.
\<close>

definition info_text :: ustr where
  "info_text =
     [10] @
       py_str ''        Editor de Texto Avanzado'' @
       [10] @
       py_str ''        Version: 2.0'' @
       [10] @
       py_str ''        '' @
       [10] @
       py_str ''        Caracter'' @
       [237] @
       py_str ''sticas:'' @
       [10] @
       py_str ''        - Abrir y editar m'' @
       [250] @
       py_str ''ltiples tipos de archivos'' @
       [10] @
       py_str ''        - Compatibilidad con diferentes codificaciones'' @
       [10] @
       py_str ''        - Guardar y guardar como con copia de seguridad autom'' @
       [225] @
       py_str ''tica'' @
       [10] @
       py_str ''        - B'' @
       [250] @
       py_str ''squeda avanzada con resaltado'' @
       [10] @
       py_str ''        - Deshacer/rehacer ilimitado'' @
       [10] @
       py_str ''        - Manejo robusto de errores'' @
       [10] @
       py_str ''        - Registro de actividad y errores'' @
       [10] @
       py_str ''        '' @
       [10] @
       py_str ''        '' @
       [10] @
       py_str ''        '' @
       [169] @
       py_str '' 2025 - Derechos reservados'' @
       [10] @
       py_str ''        ''"

text \<open>\<open>show_info\<close> (lines 18--36).\<close>

definition show_info :: "editor \<Rightarrow> editor" where
  "show_info s = s\<lparr>rep := show_box BoxInfo (py_str ''Information'') info_text (rep s)\<rparr>"

definition manual_url :: ustr where
  "manual_url = py_str ''https://github.com/your-username/your-repository''"

text \<open>\<open>open_manual\<close> (lines 38--45).\<close>

definition open_manual :: "editor \<Rightarrow> editor" where
  "open_manual s = s\<lparr>browser := browser s @ [manual_url]\<rparr>"

definition members_text :: ustr where
  "members_text =
     [10] @
       py_str ''        Equipo de trabajo/Grupo:        '' @
       [10] @
       py_str ''        '' @
       [10] @
       py_str ''        Marlon Hern'' @
       [225] @
       py_str ''ndez - ID: 7690-25-19080  '' @
       [10] @
       py_str ''        Pamela Alvarado - ID: 7690-25-16439'' @
       [10] @
       py_str ''        Anderson Palma - ID: 7690-25-2440'' @
       [10] @
       py_str ''        '' @
       [10] @
       py_str ''        Curso: Algoritmos - Seccion C'' @
       [10] @
       py_str ''        Universidad: Universidad Mariano G'' @
       [225] @
       py_str ''lvez de Guatemala'' @
       [10] @
       py_str ''        Anio: 2025'' @
       [10] @
       py_str ''        ''"

text \<open>\<open>show_members\<close> (lines 47--60).\<close>

definition show_members :: "editor \<Rightarrow> editor" where
  "show_members s = s\<lparr>rep := show_box BoxInfo (py_str ''Group Members'') members_text (rep s)\<rparr>"

lemma dialogs_widget [editor_simps]:
  "widget (show_info s) = widget s" "widget (open_manual s) = widget s" "widget (show_members s) = widget s"
  "current_encoding (show_info s) = current_encoding s" "current_encoding (open_manual s) = current_encoding s"
  "current_encoding (show_members s) = current_encoding s"
  "search_win (show_info s) = search_win s" "search_win (open_manual s) = search_win s"
  "search_win (show_members s) = search_win s"
  by (simp_all add: show_info_def open_manual_def show_members_def)

end
