(* ===== verification/SearchWindow.thy ===== *)
theory SearchWindow
  imports Editor
begin

text \<open>
  The life cycle of the search window (\<open>SearchOperations.open_search_window\<close> and its nested
  \<open>close_search\<close>, \<open>src/operations/search_operations.py\<close>). The window is modal:
  \<open>grab_set()\<close> directs every key and mouse event of the application to it until it is
  destroyed, which the command table of \<open>App\<close> models by ignoring the main window's
  commands while a search window exists.
\<close>

text \<open>The window as lines 29--57 build it: empty entry, empty blue result label.\<close>

definition new_search_window :: "bool \<Rightarrow> search_window" where
  "new_search_window cs = \<lparr>entry_text = [], match_case = cs, result_text = [], result_fg = Blue\<rparr>"

text \<open>
  \<open>open_search_window\<close> (lines 22--57 and 113--133): an existing window is only raised;
  otherwise a new one is created and its entry takes the keyboard focus.
\<close>

definition open_search_window :: "editor \<Rightarrow> editor" where
  "open_search_window s =
     (case search_win s of
        Some sw \<Rightarrow> s
      | None \<Rightarrow> s\<lparr>search_win := Some (new_search_window (case_sensitive s)),
                  widget := (widget s)\<lparr>has_focus := False\<rparr>\<rparr>)"

text \<open>
  The Search button and the Return key (lines 117--121 and 128) run \<open>perform_search\<close> with
  the entry and the \<open>case_sensitive\<close> variable the checkbox shows. \<open>perform_search\<close>
  always returns (\<open>Search.perform_search_returns\<close>), so its \<open>None\<close> case does not occur.
\<close>

definition run_search :: "editor \<Rightarrow> editor" where
  "run_search s =
     (case search_win s of
        None \<Rightarrow> s
      | Some sw \<Rightarrow>
          (case perform_search (sw\<lparr>match_case := case_sensitive s\<rparr>) (widget s) (rep s) of
             None \<Rightarrow> s
           | Some (sw', w', r') \<Rightarrow> s\<lparr>search_win := Some sw', widget := w', rep := r'\<rparr>))"

text \<open>\<open>close_search\<close> (lines 105--111), bound to Close, Escape and the window's close button.\<close>

definition close_search :: "editor \<Rightarrow> editor" where
  "close_search s = s\<lparr>widget := tag_remove_found (widget s), search_win := None\<rparr>"

lemma search_window_frames [editor_simps]:
  "current_encoding (open_search_window s) = current_encoding s"
  "current_encoding (run_search s) = current_encoding s"
  "current_encoding (close_search s) = current_encoding s"
  "content (widget (open_search_window s)) = content (widget s)"
  "content (widget (close_search s)) = content (widget s)"
  by (simp_all add: open_search_window_def run_search_def close_search_def
               split: option.splits prod.splits)

subsection \<open>What a search may highlight\<close>

lemma search_matches_in_content:
  assumes "py_strip q \<noteq> []"
  shows "greedy_matches (tk_fold b) (py_strip q) (get_all w) i = greedy_matches (tk_fold b) (py_strip q) (content w) i"
proof -
  have "tk_fold b (last (py_strip q)) \<noteq> tk_fold b newline"
    using py_strip_last [OF assms] tk_fold_newline [of b "last (py_strip q)"]
    by (auto simp: py_isspace_def)
  then show ?thesis using matches_snoc [OF assms] by (simp add: get_all_def)
qed

text \<open>
  C13. A search never highlights Tk's final newline: every highlighted range is non-empty and
  ends within the user's text, and the number of matches the label reports (the number of
  highlighted ranges) times the length of the stripped term is at most the length of that
  text. The stripped term ends with a character that is not white space, and no such
  character folds to the newline.
\<close>

theorem search_highlights_bounded:
  assumes "perform_search sw w r = Some (sw', w', r')"
  shows "length (found w') * length (py_strip (entry_text sw)) \<le> length (content w) \<and>
         (\<forall>(a, b) \<in> set (found w'). a < b \<and> b \<le> length (content w))"
proof (cases "py_strip (entry_text sw) = []")
  case True
  with assms search_blank [OF True, of w r] show ?thesis by auto
next
  case False
  let ?p = "py_strip (entry_text sw)"
  have "found w' = [] \<or> found w' = match_ranges ?p (search_term_matches sw w)"
    using assms search_nonblank [OF False, of w r]
    by (auto simp: search_outcome_def Let_def split: if_splits)
  then show ?thesis
    using False matches_count_bound [of "tk_fold (match_case sw)" ?p "content w" 0]
          matches_in_text [of _ "tk_fold (match_case sw)" ?p "content w" 0]
          search_matches_in_content [OF False, of "match_case sw" w 0]
    by auto
qed

theorem search_highlights_bounded_witness:
  "perform_search (demo_window (py_str ''hello'') True Blue) (demo_widget (py_str ''Hello world hello''))
     fresh_reporter =
   Some ((demo_window (py_str ''hello'') True Blue)\<lparr>result_text := ''Found 1 match(es)''\<rparr>,
         (demo_widget (py_str ''Hello world hello''))\<lparr>found := [(12, 17)], seen := Some 12,
                                                     has_focus := True\<rparr>,
         fresh_reporter) \<and>
   length [(12::nat, 17::nat)] * length (py_strip (py_str ''hello'')) \<le> length (py_str ''Hello world hello'') \<and>
   (12::nat) < 17 \<and> (17::nat) \<le> length (py_str ''Hello world hello'')"
proof -
  note h = demo_search_case
  show ?thesis using h search_highlights_bounded [OF h] by simp
qed
end
