(* ===== verification/WidgetRuns.thy ===== *)
theory WidgetRuns
  imports UndoHistory
begin

text \<open>
  The runs of widget commands a handler performs, as an inductive relation \<open>widget_run tags w w'\<close>
  (\<open>w'\<close> is reached from \<open>w\<close> by insertions, deletions, separators, undo, redo, cursor
  moves, and commands that change neither the text, the history, the cursor nor the modified
  flag, nor the highlights), and the consistency of the widget (\<open>widget_ok\<close>: the undo
  history leads back to \<open>base\<close> and the cursor lies in the text) that every run preserves, by
  rule induction. The parameter \<open>tags\<close> says whether the run may also rewrite the
  \<open>found\<close> highlights (only the search window's commands do); a run that may not keeps a text
  without highlights without highlights.
\<close>

definition widget_ok :: "ustr \<Rightarrow> text_widget \<Rightarrow> bool" where
  "widget_ok base w \<longleftrightarrow> history_ok base w \<and> insert_mark w \<le> length (content w)"

inductive widget_run :: "bool \<Rightarrow> text_widget \<Rightarrow> text_widget \<Rightarrow> bool"
  for tags :: bool and w :: text_widget where
  run_refl: "widget_run tags w w"
| run_insert: "widget_run tags w w1 \<Longrightarrow> widget_run tags w (tk_insert b i t w1)"
| run_delete: "widget_run tags w w1 \<Longrightarrow> widget_run tags w (tk_delete b x y w1)"
| run_separator: "widget_run tags w w1 \<Longrightarrow> widget_run tags w (edit_separator w1)"
| run_undo: "widget_run tags w w1 \<Longrightarrow> tk_edit_undo w1 = Inr (r, w2) \<Longrightarrow> widget_run tags w w2"
| run_redo: "widget_run tags w w1 \<Longrightarrow> tk_edit_redo w1 = Inr (r, w2) \<Longrightarrow> widget_run tags w w2"
| run_mark: "widget_run tags w w1 \<Longrightarrow> widget_run tags w (mark_set_insert i w1)"
| run_frame: "widget_run tags w w1 \<Longrightarrow> content w2 = content w1 \<Longrightarrow> undo_stack w2 = undo_stack w1 \<Longrightarrow>
              redo_stack w2 = redo_stack w1 \<Longrightarrow> insert_mark w2 = insert_mark w1 \<Longrightarrow>
              modified_flag w2 = modified_flag w1 \<Longrightarrow> queue w2 = queue w1 \<Longrightarrow> found w2 = found w1 \<Longrightarrow>
              widget_run tags w w2"
| run_tags: "tags \<Longrightarrow> widget_run tags w w1 \<Longrightarrow> widget_run tags w (w1\<lparr>found := F\<rparr>)"

subsection \<open>The cursor stays in the text\<close>

lemma tk_insert_mark_ok:
  "insert_mark w \<le> length (content w) \<Longrightarrow> insert_mark (tk_insert b i s w) \<le> length (content (tk_insert b i s w))"
  by (auto simp: tk_insert_def raw_insert_def touch_def Let_def)

lemma tk_delete_mark_ok:
  "insert_mark w \<le> length (content w) \<Longrightarrow> insert_mark (tk_delete b x y w) \<le> length (content (tk_delete b x y w))"
  by (auto simp: tk_delete_def raw_delete_def touch_def clip_def Let_def)

lemma fold_revert_mark:
  "undo_ok (g @ rest) (content w) base \<Longrightarrow> insert_mark w \<le> length (content w) \<Longrightarrow>
   insert_mark (fold revert_atom g w) \<le> length (content (fold revert_atom g w))"
proof (induction g arbitrary: w)
  case (Cons a g)
  have "insert_mark (revert_atom a w) \<le> length (content (revert_atom a w))"
    using Cons.prems(1) by (cases a) (auto simp: revert_atom_def raw_delete_def raw_insert_def touch_def)
  with Cons show ?case by (simp add: revert_atom_view)
qed simp

lemma fold_apply_mark:
  "redo_ok (g @ rest) (content w) \<Longrightarrow> insert_mark w \<le> length (content w) \<Longrightarrow>
   insert_mark (fold apply_atom g w) \<le> length (content (fold apply_atom g w))"
proof (induction g arbitrary: w)
  case (Cons a g)
  have "insert_mark (apply_atom a w) \<le> length (content (apply_atom a w))"
    using Cons.prems(1) by (cases a) (auto simp: apply_atom_def raw_delete_def raw_insert_def touch_def)
  with Cons show ?case by (simp add: apply_atom_view)
qed simp

lemma widget_ok_undo:
  assumes ok: "widget_ok base w" and u: "tk_edit_undo w = Inr (r, w')"
  shows "widget_ok base w'"
proof -
  obtain g gs where st: "undo_stack w = g # gs" using u by (cases "undo_stack w") (auto simp: tk_edit_undo_def)
  then have "undo_ok (g @ concat gs) (content (w\<lparr>undo_stack := gs\<rparr>)) base"
    using ok by (simp add: widget_ok_def history_ok_def)
  then have "insert_mark (fold revert_atom g (w\<lparr>undo_stack := gs\<rparr>)) \<le>
             length (content (fold revert_atom g (w\<lparr>undo_stack := gs\<rparr>)))"
    using ok by (intro fold_revert_mark) (simp_all add: widget_ok_def)
  then show ?thesis
    using u st history_ok_undo [OF _ u] ok by (auto simp: widget_ok_def tk_edit_undo_def)
qed

lemma widget_ok_redo:
  assumes ok: "widget_ok base w" and u: "tk_edit_redo w = Inr (r, w')"
  shows "widget_ok base w'"
proof -
  obtain g gs where st: "redo_stack w = g # gs" using u by (cases "redo_stack w") (auto simp: tk_edit_redo_def)
  then have "redo_ok (g @ concat gs) (content (w\<lparr>redo_stack := gs\<rparr>))"
    using ok by (simp add: widget_ok_def history_ok_def)
  then have "insert_mark (fold apply_atom g (w\<lparr>redo_stack := gs\<rparr>)) \<le>
             length (content (fold apply_atom g (w\<lparr>redo_stack := gs\<rparr>)))"
    using ok by (intro fold_apply_mark) (simp_all add: widget_ok_def)
  then show ?thesis
    using u st history_ok_redo [OF _ u] ok by (auto simp: widget_ok_def tk_edit_redo_def)
qed

subsection \<open>What every run preserves\<close>

lemma widget_run_ok: "widget_run tags w w' \<Longrightarrow> widget_ok base w \<Longrightarrow> widget_ok base w'"
proof (induction rule: widget_run.induct)
  case (run_insert w1 b i t)
  then show ?case by (simp add: widget_ok_def history_ok_tk_insert tk_insert_mark_ok)
next
  case (run_delete w1 b x y)
  then show ?case by (simp add: widget_ok_def history_ok_tk_delete tk_delete_mark_ok)
next
  case (run_undo w1 r w2)
  then show ?case by (simp add: widget_ok_undo)
next
  case (run_redo w1 r w2)
  then show ?case by (simp add: widget_ok_redo)
next
  case (run_frame w1 w2)
  then show ?case using history_ok_frame [of w2 w1 base] by (simp add: widget_ok_def)
qed (simp_all add: widget_ok_def edit_separator_def mark_set_insert_def history_ok_def)

lemma widget_run_touched: "widget_run tags w w' \<Longrightarrow> touched w w'"
proof (induction rule: widget_run.induct)
  case run_refl
  then show ?case by (rule touched_refl)
next
  case (run_insert w1 b i t)
  show ?case by (rule touched_trans [OF run_insert.IH touched_edits(1)])
next
  case (run_delete w1 b x y)
  show ?case by (rule touched_trans [OF run_delete.IH touched_edits(2)])
next
  case (run_separator w1)
  show ?case by (rule touched_trans [OF run_separator.IH touched_views(2)])
next
  case (run_undo w1 r w2)
  then show ?case by (blast intro: touched_trans touched_undo_redo(1))
next
  case (run_redo w1 r w2)
  then show ?case by (blast intro: touched_trans touched_undo_redo(2))
next
  case (run_mark w1 i)
  show ?case by (rule touched_trans [OF run_mark.IH touched_views(4)])
next
  case (run_frame w1 w2)
  then show ?case by (blast intro: touched_trans touched_frame)
next
  case (run_tags w1 F)
  show ?case by (rule touched_trans [OF run_tags.IH]) (simp add: touched_frame)
qed

lemma widget_run_trans: "widget_run tags w1 w2 \<Longrightarrow> widget_run tags w w1 \<Longrightarrow> widget_run tags w w2"
proof (induction rule: widget_run.induct)
  case (run_undo w' r w'')
  then show ?case by (blast intro: widget_run.run_undo)
next
  case (run_redo w' r w'')
  then show ?case by (blast intro: widget_run.run_redo)
next
  case (run_frame w' w'')
  show ?case by (rule widget_run.run_frame [OF run_frame.IH [OF run_frame.prems]]) (simp_all add: run_frame.hyps)
next
  case (run_tags w' F)
  show ?case by (rule widget_run.run_tags [OF run_tags.hyps(1) run_tags.IH [OF run_tags.prems]])
qed (simp_all add: widget_run.run_insert widget_run.run_delete widget_run.run_separator widget_run.run_mark)

lemmas widget_run_simple = run_refl run_insert run_delete run_separator run_mark

text \<open>A run that may not rewrite the highlights is also a run that may.\<close>

lemma widget_run_tags_mono: "widget_run False w w' \<Longrightarrow> widget_run True w w'"
proof (induction rule: widget_run.induct)
  case run_refl
  show ?case by (rule widget_run.run_refl)
next
  case (run_insert w1 b i t)
  show ?case by (rule widget_run.run_insert [OF run_insert.IH])
next
  case (run_delete w1 b x y)
  show ?case by (rule widget_run.run_delete [OF run_delete.IH])
next
  case (run_separator w1)
  show ?case by (rule widget_run.run_separator [OF run_separator.IH])
next
  case (run_undo w1 r w2)
  show ?case by (rule widget_run.run_undo [OF run_undo.IH run_undo.hyps(2)])
next
  case (run_redo w1 r w2)
  show ?case by (rule widget_run.run_redo [OF run_redo.IH run_redo.hyps(2)])
next
  case (run_mark w1 i)
  show ?case by (rule widget_run.run_mark [OF run_mark.IH])
next
  case (run_frame w1 w2)
  show ?case by (rule widget_run.run_frame [OF run_frame.IH]) (simp_all add: run_frame.hyps)
next
  case (run_tags w1 F)
  then show ?case by simp
qed

subsection \<open>Runs that may not rewrite the highlights keep a text without highlights\<close>

lemma revert_atom_found: "found w = [] \<Longrightarrow> found (revert_atom a w) = []"
  and apply_atom_found: "found w = [] \<Longrightarrow> found (apply_atom a w) = []"
  by (cases a; simp add: revert_atom_def apply_atom_def raw_insert_def raw_delete_def touch_def
                         tag_shift_def tag_clip_def)+

lemma fold_atoms_found:
  "found w = [] \<Longrightarrow> found (fold revert_atom g w) = []"
  "found w = [] \<Longrightarrow> found (fold apply_atom g w) = []"
  by (induction g arbitrary: w) (simp_all add: revert_atom_found apply_atom_found)

lemma widget_run_found: "widget_run False w w' \<Longrightarrow> found w = [] \<Longrightarrow> found w' = []"
proof (induction rule: widget_run.induct)
  case (run_insert w1 b i t)
  then show ?case by (simp add: tk_insert_def raw_insert_def touch_def tag_shift_def Let_def)
next
  case (run_delete w1 b x y)
  then show ?case by (simp add: tk_delete_def raw_delete_def touch_def tag_clip_def Let_def)
next
  case (run_undo w1 r w2)
  then show ?case by (auto simp: tk_edit_undo_def fold_atoms_found split: list.splits)
next
  case (run_redo w1 r w2)
  then show ?case by (auto simp: tk_edit_redo_def fold_atoms_found split: list.splits)
qed (simp_all add: edit_separator_def mark_set_insert_def)

subsection \<open>The composite commands\<close>

lemma widget_run_frame:
  "content w' = content w \<Longrightarrow> undo_stack w' = undo_stack w \<Longrightarrow> redo_stack w' = redo_stack w \<Longrightarrow>
   insert_mark w' = insert_mark w \<Longrightarrow> modified_flag w' = modified_flag w \<Longrightarrow> queue w' = queue w \<Longrightarrow>
   found w' = found w \<Longrightarrow> widget_run tags w w'"
  by (rule run_frame [OF run_refl])

lemma widget_run_steps:
  "widget_run tags w (insert_text i t w)" "widget_run tags w (delete_range x y w)"
  "widget_run tags w (delete_all w)" "widget_run tags w (edit_separator w)"
  "widget_run tags w (mark_set_insert i w)" "widget_run tags w (see i w)"
  "widget_run tags w (focus_set w)" "widget_run tags w (select_whole w)"
  "widget_run tags w (clipboard_clear w)" "widget_run tags w (clipboard_append t w)"
  by (auto simp: insert_text_def delete_range_def delete_all_def see_def focus_set_def select_whole_def
                 clipboard_clear_def clipboard_append_def
           intro: widget_run_simple widget_run_frame)

lemma widget_run_tag_steps:
  "widget_run True w (tag_remove_found w)" "widget_run True w (tag_add_found a b w)"
  by (simp_all add: tag_remove_found_def tag_add_found_def run_tags [OF _ run_refl])

lemma widget_run_type_char: "widget_run tags w (type_char ch w)"
proof -
  let ?w1 = "case sel w of
               Some (a, b) \<Rightarrow>
                 if a \<le> insert_mark w \<and> insert_mark w \<le> b
                 then (let w' = tk_delete False a b (edit_separator w)
                       in edit_separator (tk_insert False (insert_mark w') [ch] w'))
                 else insert_text (insert_mark w) [ch] w
             | None \<Rightarrow> insert_text (insert_mark w) [ch] w"
  have "widget_run tags w (edit_separator (tk_insert False j [ch] (tk_delete False a b (edit_separator w))))"
    for j a b
    by (rule run_separator run_insert run_delete run_refl)+
  then have "widget_run tags w ?w1"
    by (auto simp: Let_def widget_run_steps
             intro: widget_run_simple split: option.splits)
  then show ?thesis
    unfolding type_char_def Let_def by (rule run_frame) simp_all
qed

end
