(* ===== verification/Commands.thy ===== *)
theory Commands
  imports FileOps EditOps Dialogs SearchWindow WidgetRuns
begin

text \<open>
  The application as a whole: \<open>exit_application\<close> (\<open>src/text_editor.py\<close>), the command
  table that \<open>MenuManager\<close> wires to menu items (\<open>src/manager/menu_manager.py\<close>), and
  one round of the Tk main loop: a user command runs its handler with the answers the user
  gives to its dialogs, then the loop delivers the \<open><<Modified>>\<close> events the handler
  caused. The reachable states are those the main loop can produce from the state
  \<open>TextEditor.__init__\<close> leaves, as long as it runs. This theory holds the definitions and
  the lemmas the claims of \<open>App\<close> share.
\<close>

text \<open>\<open>exit_application\<close> (lines 115--126).\<close>

definition exit_application :: "editor \<Rightarrow> editor" where
  "exit_application s =
     (let (ok, s1) = verify_unsaved_changes (py_str ''exit'') s
      in if \<not> ok then s1
         else s1\<lparr>running := False, rep := log_emit INFO (py_str ''Aplicacion cerrada'') (rep s1)\<rparr>)"

text \<open>The Encoding menu: the labels \<open>'UTF-8'\<close>, \<open>'Latin-1'\<close>, \<open>'UTF-16'\<close> lowered (lines 102--106).\<close>

definition encoding_menu :: "string list" where
  "encoding_menu = [''utf-8'', ''latin-1'', ''utf-16'']"

text \<open>
  The user's inputs: the items of the File, Edit, Encoding and Help menus (\<open>CmdEncoding i\<close>
  is the \<open>i\<close>-th item of the Encoding menu; the keyboard shortcuts of
  \<open>setup_keyboard_shortcuts\<close> call the same handlers), a printable key typed into the text,
  the window manager's close button of the main window (\<open>WM_DELETE_WINDOW\<close>), and, in the
  search window, typing the term, clicking "Match case", Search (or Return) and Close (or
  Escape, or its close button).
\<close>

datatype command =
    CmdNew | CmdOpen | CmdSave | CmdSaveAs | CmdExit | CmdEncoding nat | CmdKey nat
  | CmdUndo | CmdRedo | CmdCopy | CmdCut | CmdPaste | CmdSelectAll
  | CmdSearch | CmdInfo | CmdManual | CmdMembers | CmdClose
  | CmdSearchEntry ustr | CmdMatchCase | CmdSearchRun | CmdSearchClose

text \<open>The main window's commands: the menu items of \<open>create_menu\<close> (lines 31--122) and typing.\<close>

fun main_command :: "command \<Rightarrow> editor \<Rightarrow> editor" where
  "main_command CmdNew s = new_file s"
| "main_command CmdOpen s = open_file s"
| "main_command CmdSave s = snd (save_file s)"
| "main_command CmdSaveAs s = snd (save_file_as s)"
| "main_command CmdExit s = exit_application s"
| "main_command (CmdEncoding i) s =
     (if i < length encoding_menu then change_encoding (encoding_menu ! i) s else s)"
| "main_command (CmdKey ch) s = key_press ch s"
| "main_command CmdUndo s = undo s"
| "main_command CmdRedo s = redo s"
| "main_command CmdCopy s = copy s"
| "main_command CmdCut s = cut s"
| "main_command CmdPaste s = paste s"
| "main_command CmdSelectAll s = select_all s"
| "main_command CmdSearch s = open_search_window s"
| "main_command CmdInfo s = show_info s"
| "main_command CmdManual s = open_manual s"
| "main_command CmdMembers s = show_members s"
| "main_command c s = s"

text \<open>The search window's inputs (lines 41--53 and 113--130).\<close>

fun search_command :: "command \<Rightarrow> editor \<Rightarrow> editor" where
  "search_command (CmdSearchEntry t) s = s\<lparr>search_win := map_option (\<lambda>sw. sw\<lparr>entry_text := t\<rparr>) (search_win s)\<rparr>"
| "search_command CmdMatchCase s = s\<lparr>case_sensitive := \<not> case_sensitive s\<rparr>"
| "search_command CmdSearchRun s = run_search s"
| "search_command CmdSearchClose s = close_search s"
| "search_command c s = s"

fun is_search_command :: "command \<Rightarrow> bool" where
  "is_search_command (CmdSearchEntry t) = True"
| "is_search_command CmdMatchCase = True"
| "is_search_command CmdSearchRun = True"
| "is_search_command CmdSearchClose = True"
| "is_search_command c = False"

text \<open>
  Who receives an input: the window manager's close button always reaches
  \<open>exit_application\<close> (line 59); the search window's inputs exist only while it does; the
  main window's inputs are held back by the search window's grab.
\<close>

definition handle_command :: "command \<Rightarrow> editor \<Rightarrow> editor" where
  "handle_command c s =
     (if c = CmdClose then exit_application s
      else if is_search_command c then (if search_win s = None then s else search_command c s)
      else if search_win s = None then main_command c s else s)"

lemma handle_command_main [simp]:
  "search_win s = None \<Longrightarrow> \<not> is_search_command c \<Longrightarrow> c \<noteq> CmdClose \<Longrightarrow>
   handle_command c s = main_command c s"
  by (simp add: handle_command_def)

text \<open>One round of the main loop: the handler with the user's answers, then the pending events.\<close>

definition step :: "command \<Rightarrow> answer list \<Rightarrow> editor \<Rightarrow> editor" where
  "step c ans s = run_pending (handle_command c (s\<lparr>answers := ans\<rparr>))"

inductive reachable :: "editor \<Rightarrow> bool" where
  start: "reachable (init_editor f (setup_logging r))"
| run: "reachable s \<Longrightarrow> running s \<Longrightarrow> reachable (step c ans s)"

subsection \<open>Delivering the pending events\<close>

definition star :: "ustr \<Rightarrow> ustr" where
  "star t = (if starts_with t [42] then t else 42 # t)"

text \<open>Every change of the flag to set has queued an event that is still pending.\<close>

definition pending_ok :: "text_widget \<Rightarrow> bool" where
  "pending_ok w \<longleftrightarrow> \<not> modified_flag w \<or> queue w \<noteq> []"

lemma run_pending_effect:
  assumes "pending_ok (widget s)"
  shows "run_pending s =
           (if modified_flag (widget s)
            then s\<lparr>is_modified := True, title := star (title s),
                   widget := (widget s)\<lparr>queue := [], modified_flag := False\<rparr>\<rparr>
            else s\<lparr>widget := (widget s)\<lparr>queue := []\<rparr>\<rparr>)"
  using assms
proof (induction s rule: run_pending.induct)
  case (1 s)
  show ?case
  proof (cases "queue (widget s)")
    case Nil
    with "1.prems" show ?thesis
      by (simp add: run_pending.simps [of s] pending_ok_def)
  next
    case (Cons ev q)
    let ?s1 = "mark_as_modified (s\<lparr>widget := (widget s)\<lparr>queue := q\<rparr>\<rparr>)"
    have unfold: "run_pending s = run_pending ?s1"
      using Cons by (simp add: run_pending.simps [of s])
    have ok1: "pending_ok (widget ?s1)"
      by (simp add: mark_as_modified_def edit_modified_set_def pending_ok_def)
    have "run_pending ?s1 = ?s1\<lparr>widget := (widget ?s1)\<lparr>queue := []\<rparr>\<rparr>"
      using "1.IH" [OF Cons ok1]
      by (simp add: mark_as_modified_def edit_modified_set_def split: if_splits)
    with unfold show ?thesis
      by (simp add: mark_as_modified_def edit_modified_set_def star_def)
  qed
qed

subsection \<open>What the handlers do to the widget\<close>

lemma save_file_as_widget [editor_simps]: "widget (snd (save_file_as s)) = widget s"
  by (auto simp: save_file_as_def ask_filename_def next_answer_def Let_def
           split: prod.splits option.splits list.splits answer.splits)

lemma save_file_widget [editor_simps]: "widget (snd (save_file s)) = widget s"
proof (cases "current_file s")
  case None
  then show ?thesis by (simp add: save_file_def save_file_as_widget)
next
  case (Some p)
  then show ?thesis by (cases rule: save_file_cases) simp_all
qed

lemma verify_unsaved_changes_widget [editor_simps]:
  "widget (snd (verify_unsaved_changes op s)) = widget s"
  by (auto simp: verify_unsaved_changes_def ask_yes_no_cancel_def next_answer_def save_file_widget
           split: prod.splits option.splits list.splits answer.splits bool.splits)

lemma change_encoding_widget [editor_simps]: "widget (change_encoding e s) = widget s"
  by (auto simp: change_encoding_def ask_yes_no_def next_answer_def
           split: prod.splits option.splits list.splits)

lemma exit_application_widget [editor_simps]: "widget (exit_application s) = widget s"
proof -
  obtain ok s1 where v: "verify_unsaved_changes (py_str ''exit'') s = (ok, s1)"
    by (cases "verify_unsaved_changes (py_str ''exit'') s")
  then have "widget s1 = widget s"
    using verify_unsaved_changes_widget [of "py_str ''exit''" s] by simp
  with v show ?thesis by (simp add: exit_application_def)
qed

lemma open_with_widget:
  "widget (open_with p encs s) = widget s \<or>
   (\<exists>t. widget (open_with p encs s) = insert_text 0 t (delete_all (widget s)))"
  by (induction encs) (auto simp: load_file_def split: sum.splits io_error.splits codec_error.splits)

lemma verify_unsaved_changes_cases:
  obtains ok s1 where "verify_unsaved_changes op s = (ok, s1)" and "widget s1 = widget s"
  using verify_unsaved_changes_widget [of op s]
  by (cases "verify_unsaved_changes op s") auto

lemma ask_filename_cases:
  obtains p s1 where "ask_filename t s = (p, s1)" and "widget s1 = widget s"
    and "fs s1 = fs s" and "is_modified s1 = is_modified s"
  by (cases "answers s") (auto simp: ask_filename_def next_answer_def split: answer.splits)

lemma new_file_widget:
  "widget (new_file s) = widget s \<or> widget (new_file s) = delete_all (widget s)"
proof -
  obtain ok s1 where "verify_unsaved_changes (py_str ''create a new file'') s = (ok, s1)"
    and "widget s1 = widget s"
    by (rule verify_unsaved_changes_cases)
  then show ?thesis by (simp add: new_file_def)
qed

lemma open_file_widget:
  "widget (open_file s) = widget s \<or> (\<exists>t. widget (open_file s) = insert_text 0 t (delete_all (widget s)))"
proof -
  obtain ok s1 where v: "verify_unsaved_changes (py_str ''opening another file'') s = (ok, s1)"
    and w1: "widget s1 = widget s"
    by (rule verify_unsaved_changes_cases)
  obtain p s2 where a: "ask_filename (py_str ''Open file'') s1 = (p, s2)" and w2: "widget s2 = widget s1"
    by (rule ask_filename_cases)
  show ?thesis
    using open_with_widget [of p open_encodings s2] v a w1 w2 by (auto simp: open_file_def)
qed

lemma key_press_widget: "widget (key_press ch s) = type_char ch (widget s)"
  by (simp add: key_press_def update_status_bar_def Let_def)

subsection \<open>The event queue between two rounds\<close>

text \<open>Between two rounds of the main loop no event is pending and the flag is reset.\<close>

definition quiet :: "text_widget \<Rightarrow> bool" where
  "quiet w \<longleftrightarrow> queue w = [] \<and> \<not> modified_flag w"

lemma pending_ok_touched: "pending_ok w \<Longrightarrow> touched w w' \<Longrightarrow> pending_ok w'"
  by (auto simp: pending_ok_def touched_def split: if_splits)

lemma quiet_pending_ok: "quiet w \<Longrightarrow> pending_ok w"
  by (simp add: quiet_def pending_ok_def)

lemma edit_ops_run:
  "widget_run tags (widget s) (widget (undo s))" "widget_run tags (widget s) (widget (redo s))"
  "widget_run tags (widget s) (widget (copy s))" "widget_run tags (widget s) (widget (cut s))"
  "widget_run tags (widget s) (widget (paste s))" "widget_run tags (widget s) (widget (select_all s))"
proof -
  show "widget_run tags (widget s) (widget (undo s))"
    by (cases "tk_edit_undo (widget s)")
       (auto simp: undo_def intro: run_refl run_undo [OF run_refl] run_separator [OF run_undo [OF run_refl]])
  show "widget_run tags (widget s) (widget (redo s))"
    by (cases "tk_edit_redo (widget s)")
       (auto simp: redo_def intro: run_refl run_redo [OF run_refl] run_separator [OF run_redo [OF run_refl]])
  show c: "widget_run tags (widget s) (widget (copy s))"
    by (auto simp: copy_def clipboard_append_def clipboard_clear_def intro: run_refl widget_run_frame
             split: option.splits)
  show "widget_run tags (widget s) (widget (cut s))"
    using widget_run_trans [OF widget_run_steps(2) c]
    by (auto simp: cut_def run_refl Let_def split: option.splits)
  show "widget_run tags (widget s) (widget (paste s))"
    by (auto simp: paste_def run_refl widget_run_steps(1) split: sum.splits)
  show "widget_run tags (widget s) (widget (select_all s))"
    unfolding select_all_def Let_def
    by simp (rule widget_run_trans [OF widget_run_steps(6) widget_run_trans [OF widget_run_steps(5) widget_run_steps(8)]])
qed

lemma open_search_window_run: "widget_run tags (widget s) (widget (open_search_window s))"
  by (auto simp: open_search_window_def run_refl intro: widget_run_frame split: option.splits)

text \<open>Only the search window's own commands rewrite the highlights.\<close>

lemma search_window_run:
  "widget_run True (widget s) (widget (close_search s))" "widget_run True (widget s) (widget (run_search s))"
proof -
  show "widget_run True (widget s) (widget (close_search s))"
    by (simp add: close_search_def widget_run_tag_steps)
  show "widget_run True (widget s) (widget (run_search s))"
  proof (cases "search_win s")
    case (Some sw)
    show ?thesis
    proof (cases "perform_search (sw\<lparr>match_case := case_sensitive s\<rparr>) (widget s) (rep s)")
      case (Some res)
      then obtain sw' w' r' where p: "perform_search (sw\<lparr>match_case := case_sensitive s\<rparr>) (widget s) (rep s) = Some (sw', w', r')"
        by (cases res) auto
      then obtain F V H where w': "w' = (widget s)\<lparr>found := F, seen := V, has_focus := H\<rparr>"
        using perform_search_frame by blast
      have "widget_run True (widget s) ((widget s)\<lparr>seen := V, has_focus := H\<rparr>)"
        by (rule widget_run_frame) simp_all
      then have "widget_run True (widget s) ((widget s)\<lparr>seen := V, has_focus := H, found := F\<rparr>)"
        by (rule run_tags [OF TrueI])
      moreover have "(widget s)\<lparr>seen := V, has_focus := H, found := F\<rparr> = w'"
        using w' by (cases "widget s") simp
      ultimately show ?thesis
        using \<open>search_win s = Some sw\<close> p by (simp add: run_search_def)
    qed (simp add: run_search_def \<open>search_win s = Some sw\<close> run_refl)
  qed (simp add: run_search_def run_refl)
qed

lemma main_command_run: "widget_run tags (widget s) (widget (main_command c s))"
proof (cases c)
  case CmdNew
  then show ?thesis using new_file_widget [of s] by (auto intro: run_refl widget_run_steps(3))
next
  case CmdOpen
  then show ?thesis using open_file_widget [of s]
    by (auto intro: run_refl widget_run_trans [OF widget_run_steps(1) widget_run_steps(3)])
next
  case (CmdKey ch)
  then show ?thesis by (simp add: key_press_widget widget_run_type_char)
qed (simp_all add: editor_simps edit_ops_run open_search_window_run run_refl)

lemma handle_command_run: "widget_run True (widget s) (widget (handle_command c s))"
proof -
  have "widget_run True (widget s) (widget (search_command c s))"
    by (cases c) (simp_all add: search_window_run run_refl)
  then show ?thesis
    by (simp add: handle_command_def main_command_run editor_simps run_refl)
qed

lemma handle_command_touched: "touched (widget s) (widget (handle_command c s))"
  by (rule widget_run_touched [OF handle_command_run])

subsection \<open>Highlights exist only while the search window is open\<close>

lemma save_file_as_search_win: "search_win (snd (save_file_as s)) = search_win s"
  by (auto simp: save_file_as_def ask_filename_def next_answer_def Let_def
           split: prod.splits option.splits list.splits answer.splits)

lemma save_file_search_win: "search_win (snd (save_file s)) = search_win s"
proof (cases "current_file s")
  case None
  then show ?thesis by (simp add: save_file_def save_file_as_search_win)
next
  case (Some p)
  then show ?thesis
    by (cases rule: save_file_cases) (auto simp: make_backup_def Let_def split: sum.splits if_splits)
qed

lemma exit_application_search_win: "search_win (exit_application s) = search_win s"
proof -
  have "search_win (snd (verify_unsaved_changes op s)) = search_win s" for op
    by (auto simp: verify_unsaved_changes_def ask_yes_no_cancel_def next_answer_def save_file_search_win
             split: prod.splits option.splits list.splits answer.splits bool.splits)
  from this [of "py_str ''exit''"] show ?thesis
    by (cases "verify_unsaved_changes (py_str ''exit'') s") (simp add: exit_application_def)
qed

lemma handle_command_found:
  assumes "search_win s = None \<longrightarrow> found (widget s) = []"
  shows "search_win (handle_command c s) = None \<longrightarrow> found (widget (handle_command c s)) = []"
proof (cases "search_win s = None")
  case True
  then have m: "found (widget (main_command c' s)) = []" for c'
    using assms widget_run_found [OF main_command_run] by blast
  have "found (widget (exit_application s)) = []"
    using m [of CmdExit] by simp
  with m True assms show ?thesis
    by (auto simp: handle_command_def simp del: main_command.simps)
next
  case False
  then obtain sw where "search_win s = Some sw" by auto
  then show ?thesis
    by (cases c) (simp_all add: handle_command_def exit_application_search_win close_search_def
                                tag_remove_found_def run_search_def split: option.splits prod.splits)
qed

lemma handle_command_pending_ok:
  assumes "quiet (widget s)"
  shows "pending_ok (widget (handle_command c s))"
  using pending_ok_touched [OF quiet_pending_ok [OF assms] handle_command_touched] .

lemma run_pending_quiet: "pending_ok (widget s) \<Longrightarrow> quiet (widget (run_pending s))"
  by (simp add: run_pending_effect quiet_def)

lemma step_quiet_helper: "quiet (widget s) \<Longrightarrow> quiet (widget (step c ans s))"
  unfolding step_def
  by (rule run_pending_quiet, rule handle_command_pending_ok) simp

lemma init_quiet: "quiet (widget (init_editor f r))"
  by (simp add: init_editor_def empty_widget_def quiet_def)

lemma reachable_quiet: "reachable s \<Longrightarrow> quiet (widget s)"
  by (induction rule: reachable.induct) (simp_all add: init_quiet step_quiet_helper)

lemma step_effect:
  assumes "quiet (widget s)"
  shows "step c ans s =
           (let s1 = handle_command c (s\<lparr>answers := ans\<rparr>) in
            if modified_flag (widget s1)
            then s1\<lparr>is_modified := True, title := star (title s1),
                    widget := (widget s1)\<lparr>queue := [], modified_flag := False\<rparr>\<rparr>
            else s1\<lparr>widget := (widget s1)\<lparr>queue := []\<rparr>\<rparr>)"
proof -
  have "quiet (widget (s\<lparr>answers := ans\<rparr>))" using assms by simp
  then show ?thesis
    by (simp add: step_def Let_def run_pending_effect [OF handle_command_pending_ok])
qed

subsection \<open>Open and New on a clean document\<close>

lemma open_file_clean_chosen:
  assumes "\<not> is_modified s" and "answers s = [Chosen p]" and "p \<noteq> []"
  shows "open_file s =
           open_with p open_encodings (s\<lparr>rep := show_box BoxFileDialog (py_str ''Open file'') [] (rep s),
                                         answers := []\<rparr>)"
  using assms
  by (simp add: open_file_def verify_unsaved_changes_def ask_filename_def next_answer_def)

lemma load_file_flag: "t \<noteq> [] \<Longrightarrow> modified_flag (widget (load_file p enc t s))"
  by (simp add: load_file_def)

lemma open_with_loads_nonempty:
  assumes "files (fs s) p = Some bs" and "p \<notin> unreadable (fs s)" and "bs \<noteq> []"
  obtains enc t where "open_with p open_encodings s = load_file p enc t s" and "t \<noteq> []"
proof (cases "utf8_decode bs")
  case None
  with assms show ?thesis
    by (intro that [of "''latin-1''" "universal_newlines (map unat bs)"]) (simp_all add: open_with_found)
next
  case (Some t)
  from assms(3) obtain b bs' where "bs = b # bs'" by (cases bs) auto
  with Some have "t \<noteq> []" by (simp add: utf8_decode_nonempty)
  with assms Some show ?thesis
    by (intro that [of "''utf-8''" "universal_newlines t"]) (simp_all add: open_with_found)
qed

lemma star_title [simp]: "star (py_str ''Text Editor - '' @ t) = 42 # py_str ''Text Editor - '' @ t"
  by (simp add: star_def py_str_def)
lemma quiet_update_queue: "quiet w \<Longrightarrow> w\<lparr>queue := []\<rparr> = w"
  by (cases w) (simp add: quiet_def)

lemma verify_cancel:
  assumes "is_modified s" and "answers s = Cancel # rest"
  shows "verify_unsaved_changes op s =
           (False, s\<lparr>rep := show_box BoxQuestion (py_str ''Unsaved Changes'')
                      (py_str ''Do you want to save changes before '' @ op @ py_str ''?'') (rep s),
                    answers := rest\<rparr>)"
  using assms by (simp add: verify_unsaved_changes_def ask_yes_no_cancel_def next_answer_def)

subsection \<open>The encodings a running editor can be in\<close>

lemma save_file_as_encoding [editor_simps]: "current_encoding (snd (save_file_as s)) = current_encoding s"
  by (auto simp: save_file_as_def ask_filename_def next_answer_def Let_def
           split: prod.splits option.splits list.splits answer.splits)

lemma save_file_encoding [editor_simps]: "current_encoding (snd (save_file s)) = current_encoding s"
proof (cases "current_file s")
  case None
  then show ?thesis by (simp add: save_file_def save_file_as_encoding)
next
  case (Some p)
  then show ?thesis by (cases rule: save_file_cases) simp_all
qed

lemma verify_unsaved_changes_encoding [editor_simps]:
  "current_encoding (snd (verify_unsaved_changes op s)) = current_encoding s"
  by (auto simp: verify_unsaved_changes_def ask_yes_no_cancel_def next_answer_def save_file_encoding
           split: prod.splits option.splits list.splits answer.splits bool.splits)

lemma verify_encoding_cases:
  obtains ok s1 where "verify_unsaved_changes op s = (ok, s1)" and "current_encoding s1 = current_encoding s"
  using verify_unsaved_changes_encoding [of op s]
  by (cases "verify_unsaved_changes op s") auto

lemma exit_application_encoding [editor_simps]:
  "current_encoding (exit_application s) = current_encoding s"
proof -
  obtain ok s1 where "verify_unsaved_changes (py_str ''exit'') s = (ok, s1)"
    and "current_encoding s1 = current_encoding s" by (rule verify_encoding_cases)
  then show ?thesis by (simp add: exit_application_def)
qed

lemma open_with_encoding:
  "current_encoding (open_with p open_encodings s) \<in> {current_encoding s, ''utf-8'', ''latin-1''}"
proof (cases "files (fs s) p = None \<or> p \<in> unreadable (fs s)")
  case True
  then show ?thesis
    by (simp only: open_with_missing [OF True]) (simp add: open_encodings_def)
next
  case False
  then obtain bs where "files (fs s) p = Some bs" "p \<notin> unreadable (fs s)" by auto
  then show ?thesis
    by (simp add: open_with_found load_file_def split: option.splits)
qed

lemma main_command_encoding:
  "current_encoding (main_command c s) \<in> insert (current_encoding s) (set encoding_menu)"
proof (cases c)
  case CmdNew
  obtain ok s1 where "verify_unsaved_changes (py_str ''create a new file'') s = (ok, s1)"
    and "current_encoding s1 = current_encoding s" by (rule verify_encoding_cases)
  with CmdNew show ?thesis by (simp add: new_file_def)
next
  case CmdOpen
  obtain ok s1 where v: "verify_unsaved_changes (py_str ''opening another file'') s = (ok, s1)"
    and e1: "current_encoding s1 = current_encoding s" by (rule verify_encoding_cases)
  obtain p s2 where a: "ask_filename (py_str ''Open file'') s1 = (p, s2)"
    and e2: "current_encoding s2 = current_encoding s1"
    by (cases "answers s1") (auto simp: ask_filename_def next_answer_def split: answer.splits)
  show ?thesis
    using CmdOpen v a e1 e2 open_with_encoding [of p s2]
    by (auto simp: open_file_def encoding_menu_def)
next
  case CmdExit
  obtain ok s1 where "verify_unsaved_changes (py_str ''exit'') s = (ok, s1)"
    and "current_encoding s1 = current_encoding s" by (rule verify_encoding_cases)
  with CmdExit show ?thesis by (simp add: exit_application_def)
next
  case (CmdEncoding i)
  then show ?thesis
    by (auto simp: change_encoding_def ask_yes_no_def next_answer_def
             split: prod.splits option.splits list.splits)
qed (simp_all add: editor_simps key_press_def update_status_bar_def Let_def undo_def redo_def copy_def
                   cut_def paste_def select_all_def split: sum.splits prod.splits option.splits)

lemma handle_command_encoding:
  "current_encoding (handle_command c s) \<in> insert (current_encoding s) (set encoding_menu)"
proof -
  have "current_encoding (search_command c s) = current_encoding s"
    by (cases c) (simp_all add: editor_simps)
  then show ?thesis
    using main_command_encoding [of c s] by (simp add: handle_command_def exit_application_encoding)
qed

lemma reachable_encoding: "reachable s \<Longrightarrow> current_encoding s \<in> set encoding_menu"
proof (induction rule: reachable.induct)
  case (start f r)
  then show ?case by (simp add: init_editor_def encoding_menu_def)
next
  case (run s c ans)
  have "quiet (widget s)" using run.hyps(1) by (rule reachable_quiet)
  then show ?case
    using run.IH handle_command_encoding [of c "s\<lparr>answers := ans\<rparr>"]
    by (auto simp: step_effect Let_def)
qed

end
