(* ===== verification/App.thy ===== *)
theory App
  imports Commands
begin

text \<open>
  The claims about the running application: how the Clean/Dirty state evolves over rounds of
  the main loop (\<open>Commands.step\<close>), what Cancel and Exit do, the invariants of the
  reachable states, the title and the status bar.
\<close>

text \<open>
  C20. Opening a non-empty file leaves the document Dirty. \<open>open_file\<close> sets
  \<open>is_modified = False\<close>, but deleting and inserting the text changed the widget's flag and
  queued \<open><<Modified>>\<close>; the main loop delivers it after the handler returns, and
  \<open>mark_as_modified\<close> sets \<open>is_modified\<close> again and puts the asterisk in the title.
\<close>

theorem open_leaves_document_dirty:
  assumes "quiet (widget s)" and "\<not> is_modified s"
    and "files (fs s) p = Some bs" and "p \<notin> unreadable (fs s)" and "p \<noteq> []" and "bs \<noteq> []"
    and "search_win s = None"
  shows "is_modified (step CmdOpen [Chosen p] s) \<and> current_file (step CmdOpen [Chosen p] s) = Some p \<and>
         title (step CmdOpen [Chosen p] s) = 42 # enc_title p (current_encoding (step CmdOpen [Chosen p] s))"
proof -
  define s0 where "s0 = s\<lparr>rep := show_box BoxFileDialog (py_str ''Open file'') [] (rep s), answers := []\<rparr>"
  have h: "handle_command CmdOpen (s\<lparr>answers := [Chosen p]\<rparr>) = open_with p open_encodings s0"
    using assms(2,5,7) by (simp add: open_file_clean_chosen s0_def)
  have "files (fs s0) p = Some bs" "p \<notin> unreadable (fs s0)"
    using assms(3,4) by (simp_all add: s0_def)
  then obtain enc t where l: "open_with p open_encodings s0 = load_file p enc t s0" and "t \<noteq> []"
    using assms(6) by (rule open_with_loads_nonempty)
  from \<open>t \<noteq> []\<close> have "modified_flag (widget (load_file p enc t s0))" by (rule load_file_flag)
  with h l show ?thesis
    by (simp add: step_effect [OF assms(1)] load_file_def)
qed

theorem open_leaves_document_dirty_witness:
  "search_win (demo_editor) = None \<and>
   quiet (widget demo_editor) \<and>
   \<not> is_modified demo_editor \<and>
   files (fs demo_editor) demo_path = Some [byte_of 104, byte_of 105] \<and>
   demo_path \<notin> unreadable (fs demo_editor) \<and>
   demo_path \<noteq> [] \<and>
   [byte_of 104, byte_of 105] \<noteq> [] \<and>
   is_modified (step CmdOpen [Chosen demo_path] demo_editor) \<and> current_file (step CmdOpen [Chosen demo_path] demo_editor) = Some demo_path \<and>
   title (step CmdOpen [Chosen demo_path] demo_editor) = 42 # enc_title demo_path (current_encoding (step CmdOpen [Chosen demo_path] demo_editor))"
proof -
  have h1: "quiet (widget demo_editor)"
    by (simp add: init_editor_def empty_widget_def quiet_def)
  have h2: "\<not> is_modified demo_editor"
    by (simp add: init_editor_def)
  have h3: "files (fs demo_editor) demo_path = Some [byte_of 104, byte_of 105]"
    by (simp add: init_editor_def)
  have h4: "demo_path \<notin> unreadable (fs demo_editor)"
    by (simp add: init_editor_def)
  have h5: "demo_path \<noteq> []"
    by (simp add: py_str_def)
  have h6: "[byte_of 104, byte_of 105] \<noteq> []"
    by simp
  have h7: "search_win (demo_editor) = None"
    by (simp add: init_editor_def)
  show ?thesis using h1 h2 h3 h4 h5 h6 h7 open_leaves_document_dirty [OF h1 h2 h3 h4 h5 h6 h7] by blast
qed

text \<open>
  "New" on a clean document that holds text leaves it Dirty, for the same reason:
  deleting the text queues \<open><<Modified>>\<close>, delivered after \<open>new_file\<close> has set
  \<open>is_modified = False\<close>. The new, empty, untitled document is marked modified, and it
  keeps the previous encoding (it is not reset to UTF-8).
\<close>

theorem new_leaves_document_dirty:
  assumes "quiet (widget s)" and "\<not> is_modified s" and "content (widget s) \<noteq> []"
    and "search_win s = None"
  shows "is_modified (step CmdNew ans s) \<and> current_file (step CmdNew ans s) = None \<and>
         content (widget (step CmdNew ans s)) = [] \<and>
         title (step CmdNew ans s) = 42 # py_str ''Text Editor - Untitled'' \<and>
         current_encoding (step CmdNew ans s) = current_encoding s"
  using assms
  by (simp add: step_effect new_file_def verify_unsaved_changes_def quiet_def
                Let_def star_def py_str_def)

theorem new_leaves_document_dirty_witness:
  "search_win (demo_editor\<lparr>widget := empty_widget\<lparr>content := [104]\<rparr>\<rparr>) = None \<and>
   quiet (widget (demo_editor\<lparr>widget := empty_widget\<lparr>content := [104]\<rparr>\<rparr>)) \<and>
   \<not> is_modified (demo_editor\<lparr>widget := empty_widget\<lparr>content := [104]\<rparr>\<rparr>) \<and>
   content (widget (demo_editor\<lparr>widget := empty_widget\<lparr>content := [104]\<rparr>\<rparr>)) \<noteq> [] \<and>
   is_modified (step CmdNew [] (demo_editor\<lparr>widget := empty_widget\<lparr>content := [104]\<rparr>\<rparr>)) \<and> current_file (step CmdNew [] (demo_editor\<lparr>widget := empty_widget\<lparr>content := [104]\<rparr>\<rparr>)) = None \<and>
   content (widget (step CmdNew [] (demo_editor\<lparr>widget := empty_widget\<lparr>content := [104]\<rparr>\<rparr>))) = [] \<and>
   title (step CmdNew [] (demo_editor\<lparr>widget := empty_widget\<lparr>content := [104]\<rparr>\<rparr>)) = 42 # py_str ''Text Editor - Untitled'' \<and>
   current_encoding (step CmdNew [] (demo_editor\<lparr>widget := empty_widget\<lparr>content := [104]\<rparr>\<rparr>)) = current_encoding (demo_editor\<lparr>widget := empty_widget\<lparr>content := [104]\<rparr>\<rparr>)"
proof -
  have h1: "quiet (widget (demo_editor\<lparr>widget := empty_widget\<lparr>content := [104]\<rparr>\<rparr>))"
    by (simp add: empty_widget_def quiet_def)
  have h2: "\<not> is_modified (demo_editor\<lparr>widget := empty_widget\<lparr>content := [104]\<rparr>\<rparr>)"
    by (simp add: init_editor_def)
  have h3: "content (widget (demo_editor\<lparr>widget := empty_widget\<lparr>content := [104]\<rparr>\<rparr>)) \<noteq> []"
    by simp
  have h4: "search_win (demo_editor\<lparr>widget := empty_widget\<lparr>content := [104]\<rparr>\<rparr>) = None"
    by (simp add: init_editor_def)
  show ?thesis using h1 h2 h3 h4 new_leaves_document_dirty [OF h1 h2 h3 h4] by blast
qed

text \<open>
  C22. Cancel at the unsaved-changes prompt of New, Open or Exit changes nothing but the
  dialog log: the buffer, file, encoding, title, modified state, files on disk and the main
  loop are as before.
\<close>

theorem cancel_keeps_document:
  assumes "quiet (widget s)" and "is_modified s" and "c \<in> {CmdNew, CmdOpen, CmdExit}"
  shows "widget (step c [Cancel] s) = widget s \<and> current_file (step c [Cancel] s) = current_file s \<and>
         current_encoding (step c [Cancel] s) = current_encoding s \<and> title (step c [Cancel] s) = title s \<and>
         is_modified (step c [Cancel] s) \<and> fs (step c [Cancel] s) = fs s \<and>
         running (step c [Cancel] s) = running s"
proof (cases "search_win s = None")
  case True
  have "handle_command c (s\<lparr>answers := [Cancel]\<rparr>) =
          s\<lparr>rep := show_box BoxQuestion (py_str ''Unsaved Changes'')
                   (py_str ''Do you want to save changes before '' @
                    (if c = CmdNew then py_str ''create a new file''
                     else if c = CmdOpen then py_str ''opening another file'' else py_str ''exit'') @
                    py_str ''?'') (rep s),
            answers := []\<rparr>"
    using assms(2,3) True
    by (auto simp: new_file_def open_file_def exit_application_def verify_cancel)
  with assms(1,2) show ?thesis
    by (simp add: step_effect quiet_update_queue) (simp add: quiet_def)
next
  case False
  then have "handle_command c (s\<lparr>answers := [Cancel]\<rparr>) = s\<lparr>answers := [Cancel]\<rparr>"
    using assms(3) by (auto simp: handle_command_def)
  with assms(1,2) show ?thesis
    by (simp add: step_effect quiet_update_queue) (simp add: quiet_def)
qed

theorem cancel_keeps_document_witness:
  "quiet (widget (demo_editor\<lparr>is_modified := True\<rparr>)) \<and> is_modified (demo_editor\<lparr>is_modified := True\<rparr>) \<and>
   CmdOpen \<in> {CmdNew, CmdOpen, CmdExit} \<and>
   widget (step CmdOpen [Cancel] (demo_editor\<lparr>is_modified := True\<rparr>)) = empty_widget \<and>
   current_file (step CmdOpen [Cancel] (demo_editor\<lparr>is_modified := True\<rparr>)) = None \<and>
   running (step CmdOpen [Cancel] (demo_editor\<lparr>is_modified := True\<rparr>))"
proof -
  have h1: "quiet (widget (demo_editor\<lparr>is_modified := True\<rparr>))"
    by (simp add: init_editor_def empty_widget_def quiet_def)
  have h2: "is_modified (demo_editor\<lparr>is_modified := True\<rparr>)"
    by simp
  have h3: "CmdOpen \<in> {CmdNew, CmdOpen, CmdExit}"
    by simp
  show ?thesis using h1 h2 h3 cancel_keeps_document [OF h1 h2 h3]
    by (simp add: init_editor_def)
qed

text \<open>
  Exit on a clean document asks nothing and stops the main loop, leaving the document
  and the files as they are.
\<close>

theorem exit_clean_stops:
  assumes "quiet (widget s)" and "\<not> is_modified s" and "search_win s = None"
  shows "\<not> running (step CmdExit ans s) \<and> widget (step CmdExit ans s) = widget s \<and>
         fs (step CmdExit ans s) = fs s \<and> dialogs (rep (step CmdExit ans s)) = dialogs (rep s)"
  using assms
  by (simp add: step_effect exit_application_def verify_unsaved_changes_def quiet_update_queue)
     (simp add: quiet_def)

theorem exit_clean_stops_witness:
  "search_win (demo_editor) = None \<and>
   quiet (widget demo_editor) \<and>
   \<not> is_modified demo_editor \<and>
   \<not> running (step CmdExit [] demo_editor) \<and> widget (step CmdExit [] demo_editor) = widget demo_editor \<and>
   fs (step CmdExit [] demo_editor) = fs demo_editor \<and> dialogs (rep (step CmdExit [] demo_editor)) = dialogs (rep demo_editor)"
proof -
  have h1: "quiet (widget demo_editor)"
    by (simp add: init_editor_def empty_widget_def quiet_def)
  have h2: "\<not> is_modified demo_editor"
    by (simp add: init_editor_def)
  have h3: "search_win (demo_editor) = None"
    by (simp add: init_editor_def)
  show ?thesis using h1 h2 h3 exit_clean_stops [OF h1 h2 h3] by blast
qed

text \<open>Highlights without a search window, by rule induction over the reachable states.\<close>

lemma reachable_found: "reachable s \<Longrightarrow> search_win s = None \<longrightarrow> found (widget s) = []"
proof (induction rule: reachable.induct)
  case (start f r)
  show ?case by (simp add: init_editor_def empty_widget_def)
next
  case (run s c ans)
  then have "search_win (handle_command c (s\<lparr>answers := ans\<rparr>)) = None \<longrightarrow>
             found (widget (handle_command c (s\<lparr>answers := ans\<rparr>))) = []"
    by (intro handle_command_found) simp
  then show ?case
    using run_pending_frame [of "handle_command c (s\<lparr>answers := ans\<rparr>)"] by (simp add: step_def)
qed

text \<open>
  C24. In every state the main loop reaches, no event is pending, the widget's flag is reset,
  the current encoding is one the Encoding menu offers (\<open>utf-8\<close>, \<open>latin-1\<close> or
  \<open>utf-16\<close>): \<open>cp1252\<close>, the last candidate of \<open>open_file\<close>, is never the document's
  encoding; and search highlights exist only while the search window is open (\<open>close_search\<close>
  removes them, and no other command of a window without a search window adds any).
\<close>

theorem reachable_state_invariant:
  assumes "reachable s"
  shows "queue (widget s) = [] \<and> \<not> modified_flag (widget s) \<and> current_encoding s \<in> set encoding_menu \<and>
         current_encoding s \<noteq> ''cp1252'' \<and> (search_win s = None \<longrightarrow> found (widget s) = [])"
  using reachable_quiet [OF assms] reachable_encoding [OF assms] reachable_found [OF assms]
  by (auto simp: quiet_def encoding_menu_def)

theorem reachable_state_invariant_witness:
  "reachable (step CmdOpen [Chosen demo_path] (init_editor demo_fs (setup_logging fresh_reporter))) \<and>
   queue (widget (step CmdOpen [Chosen demo_path] (init_editor demo_fs (setup_logging fresh_reporter)))) = [] \<and> \<not> modified_flag (widget (step CmdOpen [Chosen demo_path] (init_editor demo_fs (setup_logging fresh_reporter)))) \<and> current_encoding (step CmdOpen [Chosen demo_path] (init_editor demo_fs (setup_logging fresh_reporter))) \<in> set encoding_menu \<and>
   current_encoding (step CmdOpen [Chosen demo_path] (init_editor demo_fs (setup_logging fresh_reporter))) \<noteq> ''cp1252''"
proof -
  have h1: "reachable (step CmdOpen [Chosen demo_path] (init_editor demo_fs (setup_logging fresh_reporter)))"
    by (rule reachable.run, rule reachable.start) (simp add: init_editor_def)
  show ?thesis using h1 reachable_state_invariant [OF h1] by blast
qed

subsection \<open>Title and status bar\<close>

text \<open>
  C28. Changing the encoding of a modified file, answered Yes, keeps the buffer and the
  modified state but rewrites the title without the asterisk: the title no longer shows
  that the document is dirty. The buffer is neither reloaded nor lost, although the dialog
  says unsaved changes will be lost.
\<close>

theorem change_encoding_drops_modified_marker:
  assumes "quiet (widget s)" and "current_file s = Some p" and "p \<noteq> []" and "is_modified s"
    and "i < length encoding_menu" and "search_win s = None"
  shows "is_modified (step (CmdEncoding i) (Yes # rest) s) \<and>
         title (step (CmdEncoding i) (Yes # rest) s) = enc_title p (encoding_menu ! i) \<and>
         \<not> starts_with (title (step (CmdEncoding i) (Yes # rest) s)) [42] \<and>
         widget (step (CmdEncoding i) (Yes # rest) s) = widget s \<and>
         current_encoding (step (CmdEncoding i) (Yes # rest) s) = encoding_menu ! i"
  using assms
  by (simp add: step_effect change_encoding_def ask_yes_no_def next_answer_def has_file_def
                quiet_update_queue) (simp add: quiet_def py_str_def)

theorem change_encoding_drops_modified_marker_witness:
  "search_win ((file_editor [] ''utf-8'')\<lparr>is_modified := True\<rparr>) = None \<and>
   quiet (widget ((file_editor [] ''utf-8'')\<lparr>is_modified := True\<rparr>)) \<and>
   current_file ((file_editor [] ''utf-8'')\<lparr>is_modified := True\<rparr>) = Some demo_path \<and>
   demo_path \<noteq> [] \<and>
   is_modified ((file_editor [] ''utf-8'')\<lparr>is_modified := True\<rparr>) \<and>
   (1::nat) < length encoding_menu \<and>
   is_modified (step (CmdEncoding 1) [Yes] ((file_editor [] ''utf-8'')\<lparr>is_modified := True\<rparr>)) \<and>
   title (step (CmdEncoding 1) [Yes] ((file_editor [] ''utf-8'')\<lparr>is_modified := True\<rparr>)) = enc_title demo_path (encoding_menu ! 1) \<and>
   \<not> starts_with (title (step (CmdEncoding 1) [Yes] ((file_editor [] ''utf-8'')\<lparr>is_modified := True\<rparr>))) [42] \<and>
   widget (step (CmdEncoding 1) [Yes] ((file_editor [] ''utf-8'')\<lparr>is_modified := True\<rparr>)) = widget ((file_editor [] ''utf-8'')\<lparr>is_modified := True\<rparr>) \<and>
   current_encoding (step (CmdEncoding 1) [Yes] ((file_editor [] ''utf-8'')\<lparr>is_modified := True\<rparr>)) = encoding_menu ! 1"
proof -
  have h1: "quiet (widget ((file_editor [] ''utf-8'')\<lparr>is_modified := True\<rparr>))"
    by (simp add: init_editor_def empty_widget_def quiet_def)
  have h2: "current_file ((file_editor [] ''utf-8'')\<lparr>is_modified := True\<rparr>) = Some demo_path"
    by simp
  have h3: "demo_path \<noteq> []"
    by (simp add: py_str_def)
  have h4: "is_modified ((file_editor [] ''utf-8'')\<lparr>is_modified := True\<rparr>)"
    by simp
  have h5: "(1::nat) < length encoding_menu"
    by (simp add: encoding_menu_def)
  have h6: "search_win ((file_editor [] ''utf-8'')\<lparr>is_modified := True\<rparr>) = None"
    by (simp add: init_editor_def)
  show ?thesis using h1 h2 h3 h4 h5 h6 change_encoding_drops_modified_marker [OF h1 h2 h3 h4 h5 h6, where rest = "[]"] by blast
qed

text \<open>
  C29. The status bar lags one keystroke behind: typing a character (with nothing selected)
  inserts it at the cursor and moves the cursor one place on, but the status bar shows the
  position the cursor had before the key, because the widget's \<open><KeyPress>\<close> binding runs
  before the class binding that inserts. Typing also makes the document Dirty.
\<close>

theorem key_press_status_lags:
  assumes "quiet (widget s)" and "sel (widget s) = None" and "search_win s = None"
  shows "status (step (CmdKey ch) ans s) = status (update_status_bar s) \<and>
         insert_mark (widget (step (CmdKey ch) ans s)) = Suc (insert_mark (widget s)) \<and>
         content (widget (step (CmdKey ch) ans s)) =
           take (min (insert_mark (widget s)) (length (content (widget s)))) (content (widget s)) @ [ch] @
           drop (min (insert_mark (widget s)) (length (content (widget s)))) (content (widget s)) \<and>
         is_modified (step (CmdKey ch) ans s)"
  using assms
  by (simp add: step_effect key_press_def update_status_bar_def type_char_no_sel Let_def)

theorem key_press_status_lags_witness:
  "search_win (demo_editor) = None \<and>
   quiet (widget demo_editor) \<and> sel (widget demo_editor) = None \<and>
   status (step (CmdKey 97) [] demo_editor) = status (update_status_bar demo_editor) \<and>
   insert_mark (widget (step (CmdKey 97) [] demo_editor)) = Suc (insert_mark (widget demo_editor)) \<and>
   content (widget (step (CmdKey 97) [] demo_editor)) =
     take (min (insert_mark (widget demo_editor)) (length (content (widget demo_editor)))) (content (widget demo_editor)) @ [97] @
     drop (min (insert_mark (widget demo_editor)) (length (content (widget demo_editor)))) (content (widget demo_editor)) \<and>
   is_modified (step (CmdKey 97) [] demo_editor)"
proof -
  have h1: "quiet (widget demo_editor)"
    by (simp add: init_editor_def empty_widget_def quiet_def)
  have h2: "sel (widget demo_editor) = None"
    by (simp add: init_editor_def empty_widget_def)
  have h3: "search_win (demo_editor) = None"
    by (simp add: init_editor_def)
  show ?thesis using h1 h2 h3 key_press_status_lags [OF h1 h2 h3] by blast
qed

text \<open>
  The success branch of \<open>open_file\<close> (lines 88--100) deletes the old text and inserts the
  new one with the automatic separators of the widget, and never calls \<open>edit_reset()\<close>:
  the deletion and the insertion are two groups on top of the old history.
\<close>

lemma load_file_undo_stack:
  assumes "text \<noteq> []" and "content (widget s) \<noteq> []"
    and "undo_open (widget s) \<longrightarrow> last_mode (widget s) \<noteq> Some ModeDelete"
  shows "content (widget (load_file p enc text s)) = text \<and>
         undo_stack (widget (load_file p enc text s)) =
           [Ins 0 text] # [Del 0 (content (widget s))] # undo_stack (widget s)"
  using assms
  by (auto simp: load_file_def insert_text_def tk_insert_def delete_all_def delete_range_def
                 tk_delete_def push_undo_def raw_insert_def raw_delete_def Let_def split: list.splits)

text \<open>
  C36. Opening a file does not reset the undo history: the first Undo after opening empties
  the buffer and the second gives back the previous document's text, while the editor still
  names the opened file and the history before the opening is what is left to undo.
\<close>

theorem undo_after_open_restores_previous:
  assumes "text \<noteq> []" and "content (widget s) \<noteq> []"
    and "undo_open (widget s) \<longrightarrow> last_mode (widget s) \<noteq> Some ModeDelete"
  shows "content (widget (undo (load_file p enc text s))) = [] \<and>
         content (widget (undo (undo (load_file p enc text s)))) = content (widget s) \<and>
         current_file (undo (undo (load_file p enc text s))) = Some p \<and>
         undo_stack (widget (undo (undo (load_file p enc text s)))) = undo_stack (widget s)"
proof -
  let ?s1 = "load_file p enc text s"
  have l: "content (widget ?s1) = text"
    "undo_stack (widget ?s1) = [Ins 0 text] # [Del 0 (content (widget s))] # undo_stack (widget s)"
    using load_file_undo_stack [OF assms] by simp_all
  have u1: "content (widget (undo ?s1)) = [] \<and>
            undo_stack (widget (undo ?s1)) = [Del 0 (content (widget s))] # undo_stack (widget s) \<and>
            current_file (undo ?s1) = Some p"
    using undo_Cons [OF l(2)] l(1) by (simp add: load_file_def)
  then have "undo_stack (widget (undo ?s1)) = [Del 0 (content (widget s))] # undo_stack (widget s)"
    by simp
  from undo_Cons [OF this] u1 show ?thesis by simp
qed

theorem undo_after_open_restores_previous_witness:
  "[104] \<noteq> [] \<and> content (widget (file_editor [120] ''utf-8'')) \<noteq> [] \<and>
   \<not> undo_open (widget (file_editor [120] ''utf-8'')) \<and>
   content (widget (undo (undo (load_file demo_path ''latin-1'' [104] (file_editor [120] ''utf-8''))))) = [120] \<and>
   current_file (undo (undo (load_file demo_path ''latin-1'' [104] (file_editor [120] ''utf-8'')))) = Some demo_path"
proof -
  have h1: "[104::nat] \<noteq> []" by simp
  have h2: "content (widget (file_editor [120] ''utf-8'')) \<noteq> []" by simp
  have h3: "undo_open (widget (file_editor [120] ''utf-8'')) \<longrightarrow>
              last_mode (widget (file_editor [120] ''utf-8'')) \<noteq> Some ModeDelete"
    by (simp add: empty_widget_def)
  show ?thesis using h1 h2 h3 undo_after_open_restores_previous [OF h1 h2 h3, of demo_path "''latin-1''"]
    by (simp add: empty_widget_def)
qed

text \<open>
  C37. Closing the window and answering No to the unsaved-changes question ends the main loop
  from every state, and writes nothing: \<open>WM_DELETE_WINDOW\<close> reaches
  \<open>exit_application\<close> even while the search window holds the grab.
\<close>

theorem close_no_stops:
  "\<not> running (step CmdClose [No] s) \<and> fs (step CmdClose [No] s) = fs s"
  by (simp add: step_def handle_command_def exit_application_def verify_unsaved_changes_def
                ask_yes_no_cancel_def next_answer_def run_pending_frame Let_def)
text \<open>
  Every state the main loop reaches has a consistent widget: reverting the undo stack
  atom by atom is always possible and leads back to the empty text the editor started with
  (opening or creating a file never resets the history), the redo stack replays from the
  current text, and the cursor lies in the text.
\<close>

theorem reachable_widget_ok:
  assumes "reachable s"
  shows "WidgetRuns.widget_ok [] (widget s)"
  using assms
proof (induction rule: reachable.induct)
  case (start f r)
  show ?case by (simp add: init_editor_def empty_widget_def widget_ok_def history_ok_def)
next
  case (run s c ans)
  have "widget_ok [] (widget (handle_command c (s\<lparr>answers := ans\<rparr>)))"
    using widget_run_ok [OF handle_command_run] run.IH by simp
  then show ?case
    using run_pending_frame [of "handle_command c (s\<lparr>answers := ans\<rparr>)"]
    by (simp add: step_def widget_ok_def history_ok_def)
qed

theorem reachable_widget_ok_witness:
  "reachable (step (CmdKey 120) [] (init_editor demo_fs (setup_logging fresh_reporter))) \<and>
   widget_ok [] (widget (step (CmdKey 120) [] (init_editor demo_fs (setup_logging fresh_reporter))))"
proof -
  have h1: "reachable (step (CmdKey 120) [] (init_editor demo_fs (setup_logging fresh_reporter)))"
    by (rule reachable.run, rule reachable.start) (simp add: init_editor_def)
  show ?thesis using h1 reachable_widget_ok [OF h1] by blast
qed

end
