(* ===== verification/Startup.thy ===== *)
theory Startup
  imports Commands
begin

text \<open>
  The entry point (\<open>src/main.py\<close>, \<open>main\<close>): \<open>setup_logging()\<close>, \<open>tk.Tk()\<close>,
  \<open>TextEditor(root)\<close> and \<open>root.mainloop()\<close> inside one \<open>try\<close>, whose \<open>except\<close> logs a
  CRITICAL record and shows the "Error Critico" box. The three calls that may fail before the
  main loop runs are inputs of the model (\<open>startup\<close>); the main loop is \<open>main_loop\<close>, one
  \<open>Commands.step\<close> per user command until \<open>root.quit()\<close>.
\<close>

text \<open>
  What the environment makes the start-up calls raise: \<open>logging.basicConfig\<close> opening
  \<open>log/editor_errors.log\<close> (\<open>FileNotFoundError\<close> when \<open>./log\<close> is missing), \<open>tk.Tk()\<close>
  (\<open>TclError\<close> without a display), and \<open>ScrolledText(...)\<close> in \<open>create_text_area\<close>.
\<close>

record startup =
  logging_error :: "py_exc option"
  tk_error :: "py_exc option"
  text_area_error :: "py_exc option"

text \<open>
  How \<open>main\<close> ends: the main loop ran (and returned, or still waits for input);
  the \<open>except\<close> branch ran to its end; or an exception escaped \<open>main\<close>. The string list is
  what Python's last-resort handler writes to standard error.
\<close>

datatype main_outcome = Ran editor | Aborted reporter "ustr list" | Crashed reporter "ustr list" py_exc

text \<open>
  The attributes \<open>TextEditor.__init__\<close> (\<open>src/text_editor.py\<close>, lines 25--61) creates on
  \<open>self\<close>, and its statements in the order of the source: an assignment creates an
  attribute; \<open>create_text_area()\<close> creates \<open>text_widget\<close>, \<open>create_status_bar()\<close>
  creates \<open>status_bar\<close>. The title, geometry, menu, window protocol and log statements
  create none; the editor state they build is \<open>Editor.init_editor\<close>.
\<close>

datatype init_attr =
  AttrRoot | AttrCurrentFile | AttrIsModified | AttrCurrentEncoding | AttrSearchWindow
  | AttrCaseSensitive | AttrTextWidget | AttrStatusBar | AttrErrorHandler | AttrFileOps
  | AttrEditOps | AttrSearchOps | AttrDialogManager | AttrMenuManager

datatype init_stmt =
  SetAttr init_attr | SetTitle | SetGeometry | CallCreateTextArea | CallCreateStatusBar
  | CallCreateMenu | SetProtocol | LogInitialized

definition init_body :: "init_stmt list" where
  "init_body =
     [SetAttr AttrRoot, SetTitle, SetGeometry,
      SetAttr AttrCurrentFile, SetAttr AttrIsModified, SetAttr AttrCurrentEncoding,
      SetAttr AttrSearchWindow, SetAttr AttrCaseSensitive,
      CallCreateTextArea, CallCreateStatusBar,
      SetAttr AttrErrorHandler, SetAttr AttrFileOps, SetAttr AttrEditOps, SetAttr AttrSearchOps,
      SetAttr AttrDialogManager, SetAttr AttrMenuManager,
      CallCreateMenu, SetProtocol, LogInitialized]"

text \<open>
  The attributes of \<open>self\<close> a statement reads on its normal path: \<open>self.root\<close> for the
  window calls and the widgets' parent, the four managers for the commands of
  \<open>create_menu\<close> (\<open>src/manager/menu_manager.py\<close>).
\<close>

fun stmt_reads :: "init_stmt \<Rightarrow> init_attr list" where
  "stmt_reads (SetAttr a) = []"
| "stmt_reads SetTitle = [AttrRoot]"
| "stmt_reads SetGeometry = [AttrRoot]"
| "stmt_reads CallCreateTextArea = [AttrRoot]"
| "stmt_reads CallCreateStatusBar = [AttrRoot]"
| "stmt_reads CallCreateMenu = [AttrRoot, AttrFileOps, AttrEditOps, AttrSearchOps, AttrDialogManager]"
| "stmt_reads SetProtocol = [AttrRoot]"
| "stmt_reads LogInitialized = []"

fun attr_name :: "init_attr \<Rightarrow> string" where
  "attr_name AttrRoot = ''root''"
| "attr_name AttrCurrentFile = ''current_file''"
| "attr_name AttrIsModified = ''is_modified''"
| "attr_name AttrCurrentEncoding = ''current_encoding''"
| "attr_name AttrSearchWindow = ''search_window''"
| "attr_name AttrCaseSensitive = ''case_sensitive''"
| "attr_name AttrTextWidget = ''text_widget''"
| "attr_name AttrStatusBar = ''status_bar''"
| "attr_name AttrErrorHandler = ''error_handler''"
| "attr_name AttrFileOps = ''file_ops''"
| "attr_name AttrEditOps = ''edit_ops''"
| "attr_name AttrSearchOps = ''search_ops''"
| "attr_name AttrDialogManager = ''dialog_manager''"
| "attr_name AttrMenuManager = ''menu_manager''"

text \<open>Reading an attribute \<open>self\<close> does not have yet raises \<open>AttributeError\<close>.\<close>

definition attr_error :: "init_attr \<Rightarrow> py_exc" where
  "attr_error a =
     \<lparr>exc_type = py_str ''AttributeError'',
      exc_msg = [39] @ py_str ''TextEditor'' @ [39] @ py_str '' object has no attribute '' @ [39] @
                py_str (attr_name a) @ [39]\<rparr>"

text \<open>
  Running \<open>__init__\<close>'s statements from the attributes created so far. \<open>create_text_area\<close>
  (lines 63--83): when \<open>ScrolledText(...)\<close> raises, its \<open>except\<close> calls
  \<open>self.error_handler.handle_error("create text area", e, show_user=True)\<close> and re-raises;
  reading \<open>self.error_handler\<close> raises \<open>AttributeError\<close> instead when it does not exist.
  The exception that escapes is the left value, with the reporter at that point.
\<close>

fun run_init :: "startup \<Rightarrow> init_stmt list \<Rightarrow> init_attr list \<Rightarrow> reporter \<Rightarrow> (py_exc \<times> reporter) + reporter" where
  "run_init env [] attrs r = Inr r"
| "run_init env (st # sts) attrs r =
     (case find (\<lambda>a. a \<notin> set attrs) (stmt_reads st) of
        Some a \<Rightarrow> Inl (attr_error a, r)
      | None \<Rightarrow>
          (case st of
             SetAttr a \<Rightarrow> run_init env sts (a # attrs) r
           | CallCreateTextArea \<Rightarrow>
               (case text_area_error env of
                  None \<Rightarrow> run_init env sts (AttrTextWidget # attrs) r
                | Some e \<Rightarrow>
                    if AttrErrorHandler \<in> set attrs
                    then Inl (e, handle_error (py_str ''create text area'') e True r)
                    else Inl (attr_error AttrErrorHandler, r))
           | CallCreateStatusBar \<Rightarrow> run_init env sts (AttrStatusBar # attrs) r
           | _ \<Rightarrow> run_init env sts attrs r))"

text \<open>\<open>TextEditor(root)\<close>: the statements of \<open>__init__\<close> from an object with no attributes.\<close>

definition text_editor_init :: "startup \<Rightarrow> fsys \<Rightarrow> reporter \<Rightarrow> (py_exc \<times> reporter) + editor" where
  "text_editor_init env f r =
     (case run_init env init_body [] r of
        Inl er \<Rightarrow> Inl er
      | Inr r' \<Rightarrow> Inr (init_editor f r'))"

text \<open>The record and the box of \<open>main\<close>'s \<open>except\<close> (lines 50--56).\<close>

definition critical_line :: "py_exc \<Rightarrow> ustr" where
  "critical_line e = py_str ''Hubo un error en la app: '' @ exc_msg e"

definition critical_text :: "py_exc \<Rightarrow> ustr" where
  "critical_text e =
     py_str ''No se inicializo la app:'' @ [10] @ exc_msg e @ [10, 10] @ py_str ''Verifica los modulos.''"

definition main_except :: "py_exc \<Rightarrow> reporter \<Rightarrow> reporter" where
  "main_except e r =
     show_box BoxError (py_str ''Error Critico'') (critical_text e) (log_emit CRITICAL (critical_line e) r)"

text \<open>
  With no handler on the root logger, \<open>logging.critical\<close> first calls \<open>basicConfig()\<close>,
  which installs a handler on standard error with the format
  \<open>%(levelname)s:%(name)s:%(message)s\<close>.
\<close>

definition stderr_critical :: "py_exc \<Rightarrow> ustr" where
  "stderr_critical e = py_str ''CRITICAL:root:'' @ critical_line e"

text \<open>\<open>root.mainloop()\<close> (line 48): one round per user command until the loop is quit.\<close>

fun main_loop :: "(command \<times> answer list) list \<Rightarrow> editor \<Rightarrow> editor" where
  "main_loop [] s = s"
| "main_loop ((c, ans) # cs) s = (if running s then main_loop cs (step c ans s) else s)"

text \<open>
  \<open>main\<close> (lines 38--56). When \<open>basicConfig\<close> fails, the root logger has no handler and
  the CRITICAL record goes to standard error only (\<open>stderr_critical\<close>); \<open>messagebox.showerror\<close> without a root
  window creates one with \<open>tk.Tk()\<close>, which raises again when there is no display.
\<close>

definition main :: "startup \<Rightarrow> fsys \<Rightarrow> reporter \<Rightarrow> (command \<times> answer list) list \<Rightarrow> main_outcome" where
  "main env f r cmds =
     (case logging_error env of
        Some e \<Rightarrow>
          (case tk_error env of
             None \<Rightarrow> Aborted (show_box BoxError (py_str ''Error Critico'') (critical_text e) r) [stderr_critical e]
           | Some e' \<Rightarrow> Crashed r [stderr_critical e] e')
      | None \<Rightarrow>
          (let r1 = setup_logging r in
           case tk_error env of
             Some e \<Rightarrow> Crashed (log_emit CRITICAL (critical_line e) r1) [] e
           | None \<Rightarrow>
               (case text_editor_init env f r1 of
                  Inl (e, r2) \<Rightarrow> Aborted (main_except e r2) []
                | Inr s \<Rightarrow> Ran (main_loop cmds s))))"

subsection \<open>The main loop\<close>

lemma main_loop_reachable: "reachable s \<Longrightarrow> reachable (main_loop cmds s)"
proof (induction cmds arbitrary: s)
  case (Cons ca cmds)
  then show ?case by (cases ca) (auto intro: reachable.run)
qed simp

lemma main_loop_stopped: "\<not> running s \<Longrightarrow> main_loop cmds s = s"
  by (cases cmds) auto

text \<open>
  \<open>__init__\<close> fails exactly when \<open>ScrolledText(...)\<close> does, and then with the
  \<open>AttributeError\<close> of the \<open>except\<close> clause: \<open>error_handler\<close> is assigned only after
  \<open>create_text_area()\<close>.
\<close>

lemma run_init_body:
  "run_init env init_body [] r =
     (case text_area_error env of None \<Rightarrow> Inr r | Some e \<Rightarrow> Inl (attr_error AttrErrorHandler, r))"
  by (cases "text_area_error env") (simp_all add: init_body_def)

lemma main_healthy:
  "main \<lparr>logging_error = None, tk_error = None, text_area_error = None\<rparr> f r cmds =
   Ran (main_loop cmds (init_editor f (setup_logging r)))"
  by (simp add: main_def text_editor_init_def run_init_body)

lemma main_Ran:
  "main env f r cmds = Ran s \<Longrightarrow>
   logging_error env = None \<and> tk_error env = None \<and> text_area_error env = None \<and>
   s = main_loop cmds (init_editor f (setup_logging r))"
  by (auto simp: main_def text_editor_init_def run_init_body Let_def split: option.splits sum.splits)

text \<open>
  The main loop runs exactly when logging, the Tk root and the text editor all start, and
  every state it then reaches is a reachable state of the editor, so the invariants of
  reachable states hold of every run of the program.
\<close>

lemma main_runs_reachable:
  "((\<exists>s. main env f r cmds = Ran s) \<longleftrightarrow>
      logging_error env = None \<and> tk_error env = None \<and> text_area_error env = None) \<and>
   (main env f r cmds = Ran s \<longrightarrow> reachable s)"
proof -
  have "logging_error env = None \<Longrightarrow> tk_error env = None \<Longrightarrow> text_area_error env = None \<Longrightarrow>
        main env f r cmds = Ran (main_loop cmds (init_editor f (setup_logging r)))"
    using main_healthy [of f r cmds] by (cases env) simp
  moreover have "main env f r cmds = Ran s \<Longrightarrow> reachable s"
    using main_Ran main_loop_reachable reachable.start by metis
  ultimately show ?thesis using main_Ran by blast
qed

text \<open>
  C21. A failure of \<open>ScrolledText(...)\<close> in \<open>create_text_area\<close> is never reported: the
  \<open>except\<close> clause's call of the not yet created \<open>error_handler\<close> raises
  \<open>AttributeError\<close>, and \<open>main\<close> logs and shows that error, whatever the original one was.
\<close>

theorem text_area_error_masked:
  "\<exists>r'. main \<lparr>logging_error = None, tk_error = None, text_area_error = Some e\<rparr> f r cmds = Aborted r' [] \<and>
        log_lines r' = log_lines r @
          [(CRITICAL, py_str ''Hubo un error en la app: '' @ [39] @ py_str ''TextEditor'' @ [39] @
                      py_str '' object has no attribute '' @ [39] @ py_str ''error_handler'' @ [39])] \<and>
        dialogs r' = dialogs r @ [Box BoxError (py_str ''Error Critico'') (critical_text (attr_error AttrErrorHandler))]"
  by (simp add: main_def text_editor_init_def init_body_def main_except_def show_box_def
                setup_logging_def log_emit_def critical_line_def attr_error_def)



theorem main_runs_reachable_witness:
  "(main \<lparr>logging_error = None, tk_error = None, text_area_error = None\<rparr> demo_fs fresh_reporter [(CmdKey 97, [])] =
      Ran (main_loop [(CmdKey 97, [])] (init_editor demo_fs (setup_logging fresh_reporter)))) \<and>
   reachable (main_loop [(CmdKey 97, [])] (init_editor demo_fs (setup_logging fresh_reporter)))"
proof -
  have h: "main \<lparr>logging_error = None, tk_error = None, text_area_error = None\<rparr> demo_fs fresh_reporter [(CmdKey 97, [])] =
             Ran (main_loop [(CmdKey 97, [])] (init_editor demo_fs (setup_logging fresh_reporter)))"
    by (rule main_healthy)
  show ?thesis
    using h main_runs_reachable [of "\<lparr>logging_error = None, tk_error = None, text_area_error = None\<rparr>"
                                     demo_fs fresh_reporter "[(CmdKey 97, [])]"
                                     "main_loop [(CmdKey 97, [])] (init_editor demo_fs (setup_logging fresh_reporter))"]
    by simp
qed

end
