(* ===== verification/Spec2Isabelle.thy ===== *)
theory Spec2Isabelle
  imports App Startup
begin

text \<open>
  \<^bold>\<open>A verification development for the Tkinter text editor of this repository.\<close>

  \<^bold>\<open>The program.\<close> \<open>src/main.py\<close> configures logging (\<open>src/config/logger_config.py\<close>)
  and starts \<open>TextEditor\<close> (\<open>src/text_editor.py\<close>), which owns a Tk text widget and the
  document state (\<open>current_file\<close>, \<open>is_modified\<close>, \<open>current_encoding\<close>) and wires five
  helpers to menus and shortcuts (\<open>src/manager/menu_manager.py\<close>): file operations
  (\<open>src/operations/file_operations.py\<close>: new, open with an encoding fallback, save with a
  \<open>.bak\<close> backup, save as, change of encoding, the unsaved-changes prompt), edit operations
  (\<open>src/operations/edit_operations.py\<close>: delegation to the widget's undo, clipboard and
  selection), the search window (\<open>src/operations/search_operations.py\<close>), static dialogs
  (\<open>src/manager/dialog_manager.py\<close>) and the error reporter (\<open>src/error_handler.py\<close>).
  Everything runs on the Tk main loop; the widget reports edits through a
  \<open><<Modified>>\<close> virtual event that Tk queues and the main loop later hands to
  \<open>TextEditor.mark_as_modified\<close>.

  \<^bold>\<open>The theories.\<close>
  \<^item> \<open>Prelude\<close>: Python strings as code-point lists (\<open>ustr\<close>), bytes as \<open>8 word\<close>
    lists, the builtins the code calls (\<open>str.strip\<close>, integer formatting, \<open>startswith\<close>,
    slicing), named theorem collections.
  \<^item> \<open>Reporter\<close>: \<open>ErrorHandler.handle_error\<close> and \<open>setup_logging\<close>; log records, the
    logging threshold (a \<open>linorder\<close> instance on \<open>severity\<close>) and message boxes.
  \<^item> \<open>Widget\<close>: the part of Tk 8.6's text widget the handlers rely on (a library model, not
    repository code; \<open>ScrolledText(undo=True, maxundo=-1)\<close> of \<open>create_text_area\<close>): the text
    with its final newline, the modified flag and its queued event, tag ranges and the insert
    mark with their gravity, \<open>see\<close>, focus, the \<open>search\<close> command (\<open>tk_search\<close>), the undo
    and redo stacks with automatic separators (\<open>TkUndoPushAction\<close>, \<open>TkUndoRevert\<close>,
    \<open>TkUndoApply\<close>), the selection, the clipboard, and the Text class binding that types a
    key (\<open>tk::TextInsert\<close>, \<open>type_char\<close>).
  \<^item> \<open>UndoHistory\<close>: the text-level meaning of the undo records (\<open>apply_text\<close>,
    \<open>revert_text\<close>) and the consistency of the two stacks (\<open>history_ok\<close>), preserved by
    every edit, undo and redo; redo after undo restores text and stacks.
  \<^item> \<open>WidgetRuns\<close>: the runs of widget commands a handler performs, an inductive relation
    \<open>widget_run tags\<close> whose parameter says whether the run may rewrite the search highlights
    (only the search window's Search and Close do), and by rule induction what every run
    preserves: the modified-flag discipline (\<open>touched\<close>), the consistency \<open>widget_ok\<close>
    (history and cursor in the text), and, for runs that may not rewrite them, the absence of
    highlights.
  \<^item> \<open>Matches\<close>: \<open>greedy_matches\<close>, the reference specification of the search (leftmost
    non-overlapping occurrences), with its soundness, spacing, coverage and optimality.
  \<^item> \<open>Search\<close>: \<open>perform_search\<close> (lines 58--103 of \<open>search_operations.py\<close>) with its
    \<open>while True\<close> loop \<open>search_loop\<close> as a \<^theory_text>\<open>partial_function (option)\<close>
    (\<open>None\<close> = the loop never exits), proved total and equal to \<open>greedy_matches\<close>.
    Tk's \<open>-nocase\<close> folding (\<open>Tcl_UniCharToLower\<close>) is modelled on the ASCII and
    Latin-1 letters only (\<open>uni_lower\<close>). C8 uses only that a case-sensitive match is a
    case-insensitive one, and C13 that no character folds to the newline, which Unicode's
    lowering satisfies as well.
  \<^item> \<open>Codecs\<close>: the Python codecs \<open>open_file\<close> tries (strict UTF-8, Latin-1, UTF-16 with
    its byte-order mark, cp1252), text mode's universal newlines on reading and the line
    separator on writing; decode-after-encode round trips for UTF-8, Latin-1 and UTF-16.
  \<^item> \<open>FileSys\<close>: the file system as a map from paths to bytes, with read-only and
    unreadable paths: text-mode \<open>open/read/write\<close> (truncation happens before encoding),
    \<open>shutil.copy2\<close>, \<open>os.path.exists\<close>, \<open>os.path.basename\<close>.
  \<^item> \<open>Editor\<close>: the \<open>TextEditor\<close> record, \<open>__init__\<close>, \<open>mark_as_modified\<close>,
    \<open>update_status_bar\<close>, typing a key, the dialogs (the user's answers are an input list),
    and \<open>run_pending\<close>, the main loop's delivery of queued \<open><<Modified>>\<close> events
    (a \<^theory_text>\<open>function\<close> with the measure \<open>2 * queued + flag\<close>).
  \<^item> \<open>FileOps\<close>: every handler of \<open>file_operations.py\<close>, the loop over the candidate
    encodings as \<open>open_with\<close>; opening a missing or unreadable file (C3), the encoding
    fallback (C14, C15), backup and save results (C16--C19), what reopening a saved file
    gives (C25--C27), and the unsaved-changes guard (C38).
  \<^item> \<open>EditOps\<close>: every handler of \<open>edit_operations.py\<close> (undo, redo, copy, cut, paste,
    select all) with its \<open>try\<close>/\<open>except\<close> (C31--C35, C39, C40).
  \<^item> \<open>Dialogs\<close>: \<open>dialog_manager.py\<close>, the two information boxes with their texts and the
    manual's URL handed to the browser.
  \<^item> \<open>SearchWindow\<close>: the life cycle of the search window of \<open>search_operations.py\<close>
    (open or raise, run, close) around \<open>perform_search\<close>.
  \<^item> \<open>Commands\<close>: \<open>exit_application\<close>, the command table of \<open>menu_manager.py\<close>
    (\<open>main_command\<close>: File, Edit, Encoding and Help items and typed keys; \<open>search_command\<close>:
    the search window's buttons and keys) dispatched by \<open>handle_command\<close>, which ignores the
    main window while the search window holds its grab (\<open>grab_set\<close>) and always lets the
    window's close button (\<open>WM_DELETE_WINDOW\<close>) through; one main-loop round \<open>step\<close>
    (handler, then \<open>run_pending\<close>), the inductive set \<open>reachable\<close> of the states the main
    loop reaches, and the frame and invariant lemmas of every command.
  \<^item> \<open>App\<close>: the claims about the running application: the Clean/Dirty behaviour (C20, C22,
    C28, C29), the invariants of reachable states (C24 and the widget's consistency, by rule
    induction), undo across an Open (C36) and closing the window (C37).
  \<^item> \<open>Startup\<close>: \<open>main\<close> of \<open>src/main.py\<close>: the three start-up calls that may raise
    (\<open>logging.basicConfig\<close>, \<open>tk.Tk()\<close>, \<open>ScrolledText\<close> in \<open>create_text_area\<close>) as inputs
    (\<open>startup\<close>); \<open>TextEditor(root)\<close> as the statements of \<open>__init__\<close> in source order
    (\<open>init_body\<close>) run over the attributes created so far (\<open>run_init\<close>), where reading an
    attribute not yet assigned raises \<open>AttributeError\<close>; the \<open>except\<close> branch, with
    logging's last-resort handler on standard error when \<open>basicConfig\<close> failed; and
    \<open>root.mainloop()\<close> as \<open>main_loop\<close>, one \<open>step\<close> per command until the loop is
    quit, every state it reaches being \<open>reachable\<close> (C21, C23).

  \<^bold>\<open>What the theorems show.\<close> The search highlights exactly the leftmost non-overlapping
  occurrences and reports their number, on every branch (C1, C2, C4--C12), and never
  highlights Tk's final newline: every range ends within the user's text and the count times
  the term's length is bounded by the text's length (C13). Opening a missing or unreadable
  file reports the first attempt's error and changes nothing else (C3). Opening a file tries
  UTF-8 and then Latin-1, and never gets further (C14, C15). Saving backs up, writes the
  buffer and Tk's final newline, and reports permission and encoding failures; "Save As"
  truncates the target before an encoding failure (C19). The document's Clean/Dirty state is
  not what the handlers set: the \<open><<Modified>>\<close> events their own edits queue are delivered
  after they return, so Open (and New) leave the document Dirty (C20). Cancel changes
  nothing (C22). A failure of the text area at start-up is reported as an
  \<open>AttributeError\<close> about \<open>error_handler\<close>, never as itself, because \<open>__init__\<close>
  assigns the handler after \<open>create_text_area()\<close> (C21); a missing \<open>./log\<close> directory
  stops the editor from starting and leaves no log record (C23). Between rounds no event is pending
  and the encoding is one of the three of the menu, and nothing is highlighted unless the
  search window is open (C24). Saving and reopening adds a newline
  in UTF-8 (C25) and does not give back Latin-1 or UTF-16 text (C26, C27). The title loses
  its asterisk on a change of encoding (C28), the status bar lags a keystroke (C29), and
  the DEBUG traceback never reaches the log (C30). The \<open>edit_separator()\<close> calls of undo
  and redo never run (C31); since Tk's undo removes the separator below the undone group and
  keeps \<open>lastEditMode\<close>, a character typed after an undo joins the older group when that
  group ended with an insertion, contrary to the boundary the spec promises (C32); redo after
  undo is a round trip (C33); Select All, Cut, Paste adds a newline (C34); the edit commands'
  failures are only logged (C35). Opening a file keeps the undo history, so Undo brings back
  the previous document under the new name (C36). Close and No always stops the main loop
  (C37), and the unsaved-changes guard of New, Open and Exit lets a modified document go only
  when the user answered No or the buffer has been written to the file the editor names
  (C38). Every reachable state has a consistent undo history leading back to the empty text
  and a cursor inside the text (\<open>App.reachable_widget_ok\<close>). Paste ignores the selection
  (C39), and Undo after Cut
  restores the text unless Tk merges the Cut into a preceding deletion (C40).

  \<^bold>\<open>Modelling choices.\<close> Offsets into the widget's text stand for Tk indices (\<open>"1.0"\<close> is
  0, \<open>"pos+Nc"\<close> is \<open>pos + N\<close>). Tk 8.6 queues \<open><<Modified>>\<close>
  (\<open>TkSendVirtualEvent\<close>, \<open>Tk_QueueWindowEvent\<close>) when the widget's modified flag changes,
  which is what \<open>touch\<close> and \<open>edit_modified_set\<close> record; the main loop empties the queue
  between two user commands (\<open>step\<close>). Dialog answers are an explicit list, consumed in
  order; a missing answer is the dialog closed. No fuel is used: the scan loop is a
  \<^theory_text>\<open>partial_function (option)\<close> whose termination is a theorem (C2); the
  other loops are \<^theory_text>\<open>fun\<close>s or \<^theory_text>\<open>function\<close>s with a measure. The undo
  stack is a list of groups, most recent first, of insertion and deletion records
  (\<open>edit_atom\<close>); \<open>undo_open\<close> says that no separator is on top and \<open>last_mode\<close> is
  Tk's \<open>lastEditMode\<close>. An edit joins the top group when no separator is on top and
  it is of the last edit's kind; \<open>edit undo\<close> leaves no separator on top,
  \<open>edit redo\<close> and \<open>edit separator\<close> leave one; with \<open>maxundo=-1\<close> the stack has
  no bound. Tk's errors are the left
  values of a sum type (\<open>ustr + _\<close>), which the handlers' \<open>except\<close> branches consume.

  \<^bold>\<open>Not modelled.\<close> Widget geometry, fonts, wrapping and scrolling, and menu
  construction (UI layout; no state the handlers read). \<open>setup_keyboard_shortcuts\<close>: its
  bindings call the same handlers as the menu items, which the command table stands for; the
  Text class bindings that share those keys (\<open>Control-a\<close> moving to the line start,
  \<open><<Undo>>\<close> and \<open><<Paste>>\<close> run by Tk itself) and key presses other than a printable
  character (deletion keys, cursor movement, mouse selection) are not commands of the table;
  the claims on the edit handlers are stated for any selection and cursor, so they cover the
  states those keys and the mouse reach.
  The start-up failures other than the three of \<open>startup\<close> (a missing module at import
  time) and the exact text of Python's tracebacks. \<open>open_search_window\<close>'s own \<open>except\<close>
  (a failure to build the \<open>Toplevel\<close>) is not an input of the model.
\<close>

end
